theory Spec2Isabelle
  imports Main "HOL-Library.Word" "HOL-Library.Signed_Division"
begin

unbundle bit_operations_syntax

section \<open>Host arithmetic: int64 and float64\<close>

text \<open>
  The interpreter is written in Go. \<open>object.Integer\<close> holds an \<open>int64\<close>: a 64-bit word
  read as two's complement; \<open>+\<close>, \<open>-\<close>, \<open>*\<close> wrap, \<open>/\<close> and \<open>%\<close> truncate towards zero
  and panic on a zero divisor (the most negative value divided by \<open>-1\<close> wraps, it does
  not panic).
\<close>

type_synonym int64 = "64 word"

definition int64_quo :: "int64 \<Rightarrow> int64 \<Rightarrow> int64" where
  "int64_quo a b = word_of_int (sint a sdiv sint b)"

definition int64_rem :: "int64 \<Rightarrow> int64 \<Rightarrow> int64" where
  "int64_rem a b = word_of_int (sint a smod sint b)"

text \<open>
  \<open>object.Float\<close> holds a \<open>float64\<close>: an IEEE-754 binary64 value, modelled by its 64 bits
  (sign, 11 exponent bits, 52 fraction bits). Results of arithmetic are rounded to nearest,
  ties to even.
\<close>

datatype float64 = F64 (bits: "64 word")

definition f_sign :: "float64 \<Rightarrow> bool" where
  "f_sign f = bit (bits f) 63"

definition f_exp :: "float64 \<Rightarrow> nat" where
  "f_exp f = unat (drop_bit 52 (bits f) AND 0x7FF)"

definition f_frac :: "float64 \<Rightarrow> nat" where
  "f_frac f = unat (bits f AND 0xFFFFFFFFFFFFF)"

definition f_isNaN :: "float64 \<Rightarrow> bool" where
  "f_isNaN f = (f_exp f = 2047 \<and> f_frac f \<noteq> 0)"

definition f_isInf :: "float64 \<Rightarrow> bool" where
  "f_isInf f = (f_exp f = 2047 \<and> f_frac f = 0)"

definition f_isZero :: "float64 \<Rightarrow> bool" where
  "f_isZero f = (f_exp f = 0 \<and> f_frac f = 0)"

text \<open>A finite float is \<open>\<plusminus> f_mant * 2 ^ f_expo\<close>.\<close>

definition f_mant :: "float64 \<Rightarrow> nat" where
  "f_mant f = (if f_exp f = 0 then f_frac f else 2 ^ 52 + f_frac f)"

definition f_expo :: "float64 \<Rightarrow> int" where
  "f_expo f = (if f_exp f = 0 then - 1074 else int (f_exp f) - 1075)"

definition f_nan :: float64 where
  "f_nan = F64 0x7FF8000000000000"

definition f_inf :: "bool \<Rightarrow> float64" where
  "f_inf s = F64 (if s then 0xFFF0000000000000 else 0x7FF0000000000000)"

definition f_zero :: "bool \<Rightarrow> float64" where
  "f_zero s = F64 (if s then 0x8000000000000000 else 0)"

definition f_one :: float64 where
  "f_one = F64 0x3FF0000000000000"

fun bitlen :: "nat \<Rightarrow> nat" where
  "bitlen n = (if n = 0 then 0 else Suc (bitlen (n div 2)))"

declare bitlen.simps [simp del]

text \<open>
  \<open>f_round s p q\<close> is the float nearest to \<open>\<plusminus> p / q\<close> (\<open>q > 0\<close>; negative when \<open>s\<close>),
  ties to even, overflowing to infinity.
\<close>

definition f_round :: "bool \<Rightarrow> nat \<Rightarrow> nat \<Rightarrow> float64" where
  "f_round s p q =
     (if p = 0 then f_zero s
      else
        let k = int (bitlen p) - int (bitlen q);
            lg = (if (if 0 \<le> k then q * 2 ^ nat k \<le> p else q \<le> p * 2 ^ nat (- k)) then k else k - 1);
            e = max (lg - 52) (- 1074);
            num = (if 0 \<le> e then p else p * 2 ^ nat (- e));
            den = (if 0 \<le> e then q * 2 ^ nat e else q);
            n = num div den;
            r = num mod den;
            n' = (if den < 2 * r \<or> (2 * r = den \<and> odd n) then n + 1 else n);
            b = nat (e + 1074) * 2 ^ 52 + n'
        in if 0x7FF0000000000000 \<le> b then f_inf s
           else F64 (word_of_nat b OR (if s then 0x8000000000000000 else 0)))"

definition f_neg :: "float64 \<Rightarrow> float64" where
  "f_neg f = F64 (bits f XOR 0x8000000000000000)"

text \<open>The order key of a float that is not NaN: both zeros have key 0.\<close>

definition f_key :: "float64 \<Rightarrow> int" where
  "f_key f = (let m = uint (bits f AND 0x7FFFFFFFFFFFFFFF) in if f_sign f then - m else m)"

definition f_eq :: "float64 \<Rightarrow> float64 \<Rightarrow> bool" where
  "f_eq a b = (\<not> f_isNaN a \<and> \<not> f_isNaN b \<and> f_key a = f_key b)"

definition f_lt :: "float64 \<Rightarrow> float64 \<Rightarrow> bool" where
  "f_lt a b = (\<not> f_isNaN a \<and> \<not> f_isNaN b \<and> f_key a < f_key b)"

definition f_signed :: "float64 \<Rightarrow> int" where
  "f_signed f = (if f_sign f then - int (f_mant f) else int (f_mant f))"

definition f_add :: "float64 \<Rightarrow> float64 \<Rightarrow> float64" where
  "f_add a b =
     (if f_isNaN a \<or> f_isNaN b then f_nan
      else if f_isInf a then (if f_isInf b \<and> f_sign a \<noteq> f_sign b then f_nan else a)
      else if f_isInf b then b
      else
        let e = min (f_expo a) (f_expo b);
            t = f_signed a * 2 ^ nat (f_expo a - e) + f_signed b * 2 ^ nat (f_expo b - e)
        in if t = 0 then f_zero (f_sign a \<and> f_sign b)
           else if 0 \<le> e then f_round (t < 0) (nat \<bar>t\<bar> * 2 ^ nat e) 1
           else f_round (t < 0) (nat \<bar>t\<bar>) (2 ^ nat (- e)))"

definition f_sub :: "float64 \<Rightarrow> float64 \<Rightarrow> float64" where
  "f_sub a b = f_add a (f_neg b)"

definition f_mul :: "float64 \<Rightarrow> float64 \<Rightarrow> float64" where
  "f_mul a b =
     (let s = (f_sign a \<noteq> f_sign b) in
      if f_isNaN a \<or> f_isNaN b then f_nan
      else if f_isInf a \<or> f_isInf b then (if f_isZero a \<or> f_isZero b then f_nan else f_inf s)
      else
        let m = f_mant a * f_mant b; e = f_expo a + f_expo b
        in if 0 \<le> e then f_round s (m * 2 ^ nat e) 1 else f_round s m (2 ^ nat (- e)))"

definition f_div :: "float64 \<Rightarrow> float64 \<Rightarrow> float64" where
  "f_div a b =
     (let s = (f_sign a \<noteq> f_sign b) in
      if f_isNaN a \<or> f_isNaN b then f_nan
      else if f_isInf a then (if f_isInf b then f_nan else f_inf s)
      else if f_isInf b then f_zero s
      else if f_isZero b then (if f_isZero a then f_nan else f_inf s)
      else
        let e = f_expo a - f_expo b
        in f_round s (f_mant a * 2 ^ nat e) (f_mant b * 2 ^ nat (- e)))"

text \<open>
  Go's conversion \<open>float64(i)\<close> of an \<open>int64\<close> rounds to nearest; \<open>int64(f)\<close> truncates
  towards zero. When the truncated value does not fit an \<open>int64\<close> (or \<open>f\<close> is NaN) Go leaves
  the result to the implementation; the value taken here is the one of amd64, the most
  negative \<open>int64\<close>.
\<close>

definition float64_of_int64 :: "int64 \<Rightarrow> float64" where
  "float64_of_int64 i = f_round (sint i < 0) (nat \<bar>sint i\<bar>) 1"

definition int64_of_float64 :: "float64 \<Rightarrow> int64" where
  "int64_of_float64 f =
     (if f_isNaN f \<or> f_isInf f then 0x8000000000000000
      else
        let m = (if 0 \<le> f_expo f then int (f_mant f) * 2 ^ nat (f_expo f)
                 else int (f_mant f div 2 ^ nat (- f_expo f)));
            t = (if f_sign f then - m else m)
        in if - (2 ^ 63) \<le> t \<and> t < 2 ^ 63 then word_of_int t else 0x8000000000000000)"


text \<open>
  The loop of the integer power, \<open>for i := int64(0); i < rightVal; i++ { result *= leftVal }\<close>.
  It ends since \<open>i\<close> stays below \<open>rightVal\<close>, so \<open>i++\<close> does not wrap.
\<close>

function intPowLoop :: "int64 \<Rightarrow> int64 \<Rightarrow> int64 \<Rightarrow> int64 \<Rightarrow> int64" where
  "intPowLoop i result leftVal rightVal =
     (if i <s rightVal then intPowLoop (i + 1) (result * leftVal) leftVal rightVal else result)"
  by pat_completeness auto

termination intPowLoop
proof (relation "measure (\<lambda>(i, result, leftVal, rightVal). nat (sint rightVal - sint i))")
  show "wf (measure (\<lambda>(i, result, leftVal, rightVal). nat (sint rightVal - sint i)))"
    by simp
next
  fix i result leftVal rightVal :: int64
  assume less: "i <s rightVal"
  have "sint rightVal < 2 ^ 63"
    using sint_lt [of rightVal] by simp
  with less have hi: "sint i + 1 < 2 ^ 63"
    by (simp add: word_sless_alt)
  have lo: "- (2 ^ 63) \<le> sint i + 1"
    using sint_ge [of i] by simp
  have "sint (i + 1) = signed_take_bit 63 (sint i + 1)"
    by (simp add: sint_word_ariths)
  also have "\<dots> = sint i + 1"
    using hi lo by (simp add: signed_take_bit_int_eq_self)
  finally have "sint (i + 1) = sint i + 1" .
  with less show "((i + 1, result * leftVal, leftVal, rightVal), (i, result, leftVal, rightVal))
        \<in> measure (\<lambda>(i, result, leftVal, rightVal). nat (sint rightVal - sint i))"
    by (simp add: word_sless_alt)
qed

declare intPowLoop.simps [simp del]

text \<open>
  The loop of the float power, \<open>for i := 0.0; i < rightVal; i++ { result *= leftVal }\<close>.
  Above \<open>2 ^ 53\<close> the increment \<open>i++\<close> rounds back to \<open>i\<close>, so the loop need not end:
  \<open>None\<close> is the loop that runs forever.
\<close>

partial_function (option) floatPowLoop :: "float64 \<Rightarrow> float64 \<Rightarrow> float64 \<Rightarrow> float64 \<Rightarrow> float64 option" where
  "floatPowLoop i result leftVal rightVal =
     (if f_lt i rightVal then floatPowLoop (f_add i f_one) (f_mul result leftVal) leftVal rightVal
      else Some result)"

declare floatPowLoop.simps [code]


section \<open>Syntax trees\<close>

text \<open>
  The nodes of \<open>package parser\<close>, one constructor for each struct. The \<open>Token\<close> field of a
  node (read only by \<open>TokenLiteral\<close> and \<open>String\<close>) is left out. \<open>NilNode\<close> is Go's nil
  \<open>Node\<close>; \<open>NilLetStatement\<close> is a \<open>Statement\<close> that holds a nil \<open>*LetStatement\<close>, which
  is what \<open>parseStatement\<close> returns when \<open>parseLetStatement\<close> fails. A field of type
  \<open>*BlockStatement\<close> holds the statements of the block; a field of type \<open>*Identifier\<close> holds
  the identifier's \<open>Value\<close>. The properties of a class literal are \<open>*LetStatement\<close>s, a name
  and a value each, or \<open>None\<close> for a nil pointer; its methods are \<open>*FunctionLiteral\<close>s:
  parameters, body and name.
\<close>

datatype node =
    NilNode
  | NilLetStatement
  | Program "node list"
  | ExpressionStatement node
  | BlockStatement "node list"
  | LetStatement string node
  | ReturnStatement node
  | IntegerLiteral int64
  | FloatLiteral float64
  | StringLiteral string
  | BooleanLiteral bool
  | NullLiteral
  | PrefixExpression string node
  | InfixExpression node string node
  | IfExpression node "node list" "node list option"
  | WhileExpression node "node list"
  | ForExpression node node node "node list"
  | Identifier string
  | FunctionLiteral "string list" "node list" string
  | CallExpression node "node list"
  | ArrayLiteral "node list"
  | IndexExpression node node
  | HashLiteral "(node \<times> node) list"
  | DotExpression node string
  | ClassLiteral string "string option" "string list" "(string \<times> node) option list"
      "(string list \<times> node list \<times> string) list"
  | NewExpression node "node list"

section \<open>Objects and environments\<close>

text \<open>
  Objects are Go pointers. \<open>Boolean\<close> objects are compared by address with the singletons
  \<open>TRUE\<close> and \<open>FALSE\<close> of \<open>package evaluator\<close>; \<open>package stdlib\<close> declares singletons of
  its own, at other addresses, which its builtins return. The \<open>origin\<close> of a \<open>Boolean\<close>
  tells which of the two pairs it is: these four are all the \<open>Boolean\<close> objects of the
  program. (\<open>Null\<close> has size zero, and Go does not say whether two pointers to such objects
  differ; all of them are one value here.) An \<open>Array\<close>, \<open>Hash\<close>, \<open>Function\<close>, \<open>Class\<close> or
  \<open>Instance\<close> carries the number of its allocation, which is what \<open>==\<close> compares on them.
  An environment is referred to by its address in the state. \<open>NilObj\<close> is Go's nil
  \<open>Object\<close>.
\<close>

datatype origin = Evaluator | Stdlib

datatype hashKey = HashKey string "64 word"

datatype func = Function (fref: nat) (Parameters: "string list") (Body: "node list") (Env: nat) (Name: string)

datatype obj =
    NilObj
  | Integer int64
  | Float float64
  | Boolean origin bool
  | Null
  | ReturnValue obj
  | Error string
  | FunctionObj func
  | String string
  | Builtin origin string
  | Array nat "obj list"
  | Hash nat "hashKey \<Rightarrow> (obj \<times> obj) option"
  | ClassObj "class"
  | Instance nat "class" "string \<Rightarrow> obj option" nat
and "class" = Class (cref: nat) (cname: string) (Properties: "string \<Rightarrow> obj option") (Methods: "string \<Rightarrow> func option")

abbreviation TRUE :: obj where "TRUE \<equiv> Boolean Evaluator True"
abbreviation FALSE :: obj where "FALSE \<equiv> Boolean Evaluator False"
abbreviation NULL :: obj where "NULL \<equiv> Null"

record environment =
  store :: "string \<Rightarrow> obj option"
  outer :: "nat option"

text \<open>
  The state: the environments allocated so far (the address of an environment is its
  position), the number of the next object allocation, and what \<open>mostrar\<close> has printed
  (the objects whose \<open>Inspect()\<close> went to standard output, oldest first).
\<close>

record state =
  envs :: "environment list"
  nextRef :: nat
  printed :: "obj list"

text \<open>
  A Go function of the evaluator returns an object, or does not return: it panics, runs
  forever, or (in \<open>Eval\<close> below) needs more fuel than it was given. \<open>Unmodelled\<close> is the call
  of a library builtin that is not part of this development.
\<close>

datatype fault = Panic string | Diverges | OutOfFuel | Unmodelled string

definition nilDeref :: fault where
  "nilDeref = Panic ''invalid memory address or nil pointer dereference''"

fun Type :: "obj \<Rightarrow> string" where
  "Type (Integer v) = ''ENTERO''"
| "Type (Float v) = ''DECIMAL''"
| "Type (Boolean g v) = ''BOOLEANO''"
| "Type Null = ''NULO''"
| "Type (ReturnValue v) = ''RETORNO''"
| "Type (Error m) = ''ERROR''"
| "Type (FunctionObj f) = ''FUNCION''"
| "Type (String v) = ''TEXTO''"
| "Type (Builtin g n) = ''INCORPORADO''"
| "Type (Array r es) = ''LISTA''"
| "Type (Hash r ps) = ''MAPA''"
| "Type (ClassObj c) = ''CLASE''"
| "Type (Instance r c ps e) = ''INSTANCIA''"
| "Type NilObj = []"

text \<open>\<open>Type\<close> is a method: on \<open>NilObj\<close> the call panics, and every use below checks for it first.\<close>


section \<open>The evaluator: functions that do not touch the state\<close>

text \<open>Error messages are Go strings, that is UTF-8 bytes; letters with an accent are two bytes.\<close>

definition divisionPorCero :: string where
  "divisionPorCero = ''divisi'' @ [CHR 0xC3, CHR 0xB3] @ ''n por cero''"

definition moduloPorCero :: string where
  "moduloPorCero = ''m'' @ [CHR 0xC3, CHR 0xB3] @ ''dulo por cero''"

definition operadorDesconocido :: "string \<Rightarrow> string \<Rightarrow> string \<Rightarrow> string" where
  "operadorDesconocido l operator r = ''operador desconocido: '' @ l @ '' '' @ operator @ '' '' @ r"

definition tipoNoValido :: "string \<Rightarrow> string \<Rightarrow> string \<Rightarrow> string" where
  "tipoNoValido l operator r =
     ''tipo de operando no v'' @ [CHR 0xC3, CHR 0xA1] @ ''lido: '' @ l @ '' '' @ operator @ '' '' @ r"

definition newError :: "string \<Rightarrow> obj" where
  "newError message = Error message"

definition nativeBoolToBooleanObject :: "bool \<Rightarrow> obj" where
  "nativeBoolToBooleanObject input = (if input then TRUE else FALSE)"

fun isNil :: "obj \<Rightarrow> bool" where
  "isNil NilObj = True"
| "isNil v = False"

fun isError :: "obj \<Rightarrow> bool" where
  "isError (Error m) = True"
| "isError v = False"

text \<open>
  \<open>isTruthy\<close> first compares the pointer with \<open>NULL\<close>, \<open>TRUE\<close> and \<open>FALSE\<close>, then switches
  on \<open>obj.Type()\<close>, which panics on nil.
\<close>

fun isTruthy :: "obj \<Rightarrow> fault + bool" where
  "isTruthy Null = Inr False"
| "isTruthy (Boolean Evaluator v) = Inr v"
| "isTruthy NilObj = Inl nilDeref"
| "isTruthy (Integer v) = Inr (v \<noteq> 0)"
| "isTruthy (Float v) = Inr (\<not> f_eq v (f_zero False))"
| "isTruthy (String v) = Inr (v \<noteq> [])"
| "isTruthy v = Inr True"

fun evalBangOperatorExpression :: "obj \<Rightarrow> obj" where
  "evalBangOperatorExpression (Boolean Evaluator True) = FALSE"
| "evalBangOperatorExpression (Boolean Evaluator False) = TRUE"
| "evalBangOperatorExpression Null = TRUE"
| "evalBangOperatorExpression right = FALSE"

fun evalMinusPrefixOperatorExpression :: "obj \<Rightarrow> fault + obj" where
  "evalMinusPrefixOperatorExpression NilObj = Inl nilDeref"
| "evalMinusPrefixOperatorExpression (Integer v) = Inr (Integer (- v))"
| "evalMinusPrefixOperatorExpression (Float v) = Inr (Float (f_neg v))"
| "evalMinusPrefixOperatorExpression right =
     Inr (newError (''operador de prefijo desconocido: -'' @ Type right))"

definition evalPrefixExpression :: "string \<Rightarrow> obj \<Rightarrow> fault + obj" where
  "evalPrefixExpression operator right =
     (if operator = ''!'' then Inr (evalBangOperatorExpression right)
      else if operator = ''-'' then evalMinusPrefixOperatorExpression right
      else if isNil right then Inl nilDeref
      else Inr (newError (''operador de prefijo desconocido: '' @ operator @ Type right)))"

text \<open>
  The three functions below read \<open>left.(*object.Integer).Value\<close> and the like: on an object of
  another type the assertion panics. \<open>evalInfixExpression\<close> calls them on the right types only.
\<close>

definition typeAssertion :: fault where
  "typeAssertion = Panic ''interface conversion''"

definition evalIntegerInfixExpression :: "string \<Rightarrow> obj \<Rightarrow> obj \<Rightarrow> fault + obj" where
  "evalIntegerInfixExpression operator left right =
     (case (left, right) of
        (Integer leftVal, Integer rightVal) \<Rightarrow>
     (if operator = ''+'' then Inr (Integer (leftVal + rightVal))
      else if operator = ''-'' then Inr (Integer (leftVal - rightVal))
      else if operator = ''*'' then Inr (Integer (leftVal * rightVal))
      else if operator = ''/'' then
        (if rightVal = 0 then Inr (newError divisionPorCero)
         else Inr (Integer (int64_quo leftVal rightVal)))
      else if operator = ''%'' then
        (if rightVal = 0 then Inr (newError moduloPorCero)
         else Inr (Integer (int64_rem leftVal rightVal)))
      else if operator = ''^'' then Inr (Integer (intPowLoop 0 1 leftVal rightVal))
      else if operator = ''<'' then Inr (nativeBoolToBooleanObject (leftVal <s rightVal))
      else if operator = ''>'' then Inr (nativeBoolToBooleanObject (rightVal <s leftVal))
      else if operator = ''=='' then Inr (nativeBoolToBooleanObject (leftVal = rightVal))
      else if operator = ''!='' then Inr (nativeBoolToBooleanObject (leftVal \<noteq> rightVal))
      else Inr (newError (operadorDesconocido ''ENTERO'' operator ''ENTERO'')))
      | _ \<Rightarrow> Inl typeAssertion)"

text \<open>
  For floats, \<open>%\<close> checks \<open>rightVal == 0\<close> and then divides the truncated operands:
  \<open>int64(leftVal) % int64(rightVal)\<close> is an integer division, which panics when
  \<open>int64(rightVal)\<close> is zero.
\<close>

definition evalFloatInfixExpression :: "string \<Rightarrow> obj \<Rightarrow> obj \<Rightarrow> fault + obj" where
  "evalFloatInfixExpression operator left right =
     (case (left, right) of
        (Float leftVal, Float rightVal) \<Rightarrow>
     (if operator = ''+'' then Inr (Float (f_add leftVal rightVal))
      else if operator = ''-'' then Inr (Float (f_sub leftVal rightVal))
      else if operator = ''*'' then Inr (Float (f_mul leftVal rightVal))
      else if operator = ''/'' then
        (if f_eq rightVal (f_zero False) then Inr (newError divisionPorCero)
         else Inr (Float (f_div leftVal rightVal)))
      else if operator = ''%'' then
        (if f_eq rightVal (f_zero False) then Inr (newError moduloPorCero)
         else if int64_of_float64 rightVal = 0 then Inl (Panic ''integer divide by zero'')
         else Inr (Float (float64_of_int64
                (int64_rem (int64_of_float64 leftVal) (int64_of_float64 rightVal)))))
      else if operator = ''^'' then
        (case floatPowLoop (f_zero False) f_one leftVal rightVal of
           None \<Rightarrow> Inl Diverges
         | Some result \<Rightarrow> Inr (Float result))
      else if operator = ''<'' then Inr (nativeBoolToBooleanObject (f_lt leftVal rightVal))
      else if operator = ''>'' then Inr (nativeBoolToBooleanObject (f_lt rightVal leftVal))
      else if operator = ''=='' then Inr (nativeBoolToBooleanObject (f_eq leftVal rightVal))
      else if operator = ''!='' then Inr (nativeBoolToBooleanObject (\<not> f_eq leftVal rightVal))
      else Inr (newError (operadorDesconocido ''DECIMAL'' operator ''DECIMAL'')))
      | _ \<Rightarrow> Inl typeAssertion)"

definition evalStringInfixExpression :: "string \<Rightarrow> obj \<Rightarrow> obj \<Rightarrow> fault + obj" where
  "evalStringInfixExpression operator left right =
     (case (left, right) of
        (String leftVal, String rightVal) \<Rightarrow>
     (if operator = ''+'' then Inr (String (leftVal @ rightVal))
      else if operator = ''=='' then Inr (nativeBoolToBooleanObject (leftVal = rightVal))
      else if operator = ''!='' then Inr (nativeBoolToBooleanObject (leftVal \<noteq> rightVal))
      else Inr (newError (operadorDesconocido ''TEXTO'' operator ''TEXTO'')))
      | _ \<Rightarrow> Inl typeAssertion)"

definition evalLogicalAndOperator :: "obj \<Rightarrow> obj \<Rightarrow> fault + obj" where
  "evalLogicalAndOperator left right =
     (case isTruthy left of
        Inl f \<Rightarrow> Inl f
      | Inr t \<Rightarrow> if \<not> t then Inr left else Inr right)"

definition evalLogicalOrOperator :: "obj \<Rightarrow> obj \<Rightarrow> fault + obj" where
  "evalLogicalOrOperator left right =
     (case isTruthy left of
        Inl f \<Rightarrow> Inl f
      | Inr t \<Rightarrow> if t then Inr left else Inr right)"

text \<open>
  Pointer equality of two objects, as \<open>==\<close> on the interface values has it in the cases
  that reach it: objects of different types differ; \<open>Boolean\<close> and \<open>Null\<close> objects are equal
  when they are the same singleton; an object with an allocation number is equal to itself
  only. (An \<open>Integer\<close>, \<open>Float\<close> or \<open>String\<close> reaches it only against an object of another
  type; a \<open>Builtin\<close> is the entry of its table.)
\<close>

definition samePointer :: "obj \<Rightarrow> obj \<Rightarrow> bool" where
  "samePointer left right =
     (case (left, right) of
        (NilObj, NilObj) \<Rightarrow> True
      | (Boolean g v, Boolean h w) \<Rightarrow> g = h \<and> v = w
      | (Null, Null) \<Rightarrow> True
      | (Builtin g n, Builtin h m) \<Rightarrow> g = h \<and> n = m
      | (FunctionObj f, FunctionObj g) \<Rightarrow> fref f = fref g
      | (Array r es, Array q fs) \<Rightarrow> r = q
      | (Hash r ps, Hash q qs) \<Rightarrow> r = q
      | (ClassObj c, ClassObj d) \<Rightarrow> cref c = cref d
      | (Instance r c ps e, Instance q d qs g) \<Rightarrow> r = q
      | _ \<Rightarrow> False)"

text \<open>
  The cases of \<open>evalInfixExpression\<close> are tried in the order of the source. \<open>left.Type()\<close>
  is called by the first case, \<open>right.Type()\<close> by the cases whose left test holds and by the
  case before the last: these calls panic on nil.
\<close>

definition evalInfixExpression :: "string \<Rightarrow> obj \<Rightarrow> obj \<Rightarrow> fault + obj" where
  "evalInfixExpression operator left right =
     (if isNil left then Inl nilDeref
      else if isNil right \<and> Type left \<in> {''ENTERO'', ''DECIMAL'', ''TEXTO''} then Inl nilDeref
      else if Type left = ''ENTERO'' \<and> Type right = ''ENTERO'' then
        evalIntegerInfixExpression operator left right
      else if Type left = ''DECIMAL'' \<and> Type right = ''DECIMAL'' then
        evalFloatInfixExpression operator left right
      else if Type left = ''ENTERO'' \<and> Type right = ''DECIMAL'' then
        (case left of
           Integer intValue \<Rightarrow> evalFloatInfixExpression operator (Float (float64_of_int64 intValue)) right
         | _ \<Rightarrow> Inl typeAssertion)
      else if Type left = ''DECIMAL'' \<and> Type right = ''ENTERO'' then
        (case right of
           Integer intValue \<Rightarrow> evalFloatInfixExpression operator left (Float (float64_of_int64 intValue))
         | _ \<Rightarrow> Inl typeAssertion)
      else if Type left = ''TEXTO'' \<and> Type right = ''TEXTO'' then
        evalStringInfixExpression operator left right
      else if operator = ''=='' then Inr (nativeBoolToBooleanObject (samePointer left right))
      else if operator = ''!='' then Inr (nativeBoolToBooleanObject (\<not> samePointer left right))
      else if operator = ''y'' then evalLogicalAndOperator left right
      else if operator = ''o'' then evalLogicalOrOperator left right
      else if isNil right then Inl nilDeref
      else if Type left \<noteq> Type right then
        Inr (newError (tipoNoValido (Type left) operator (Type right)))
      else Inr (newError (operadorDesconocido (Type left) operator (Type right))))"

definition unwrapReturnValue :: "obj \<Rightarrow> obj" where
  "unwrapReturnValue v = (case v of ReturnValue w \<Rightarrow> w | _ \<Rightarrow> v)"

subsection \<open>Indexing\<close>

text \<open>
  \<open>max := int64(len(arrayObject.Elements) - 1)\<close>; the index is then within the slice, so
  the read \<open>Elements[idx]\<close> does not panic.
\<close>

definition evalArrayIndexExpression :: "obj \<Rightarrow> obj \<Rightarrow> fault + obj" where
  "evalArrayIndexExpression array index =
     (case (array, index) of
        (Array r elements, Integer idx) \<Rightarrow>
     (let max = (word_of_int (int (length elements) - 1) :: int64)
      in if idx <s 0 \<or> max <s idx then Inr NULL
         else Inr (elements ! nat (sint idx)))
      | _ \<Rightarrow> Inl typeAssertion)"

text \<open>\<open>HashKey\<close>: only \<open>Boolean\<close>, \<open>Integer\<close> and \<open>String\<close> have it; a string is hashed by FNV-1a.\<close>

definition fnv64a :: "string \<Rightarrow> 64 word" where
  "fnv64a bs = fold (\<lambda>c h. (h XOR word_of_nat (of_char c)) * 1099511628211) bs 14695981039346656037"

fun hashKeyOf :: "obj \<Rightarrow> hashKey option" where
  "hashKeyOf (Boolean g v) = Some (HashKey ''BOOLEANO'' (if v then 1 else 0))"
| "hashKeyOf (Integer v) = Some (HashKey ''ENTERO'' v)"
| "hashKeyOf (String v) = Some (HashKey ''TEXTO'' (fnv64a v))"
| "hashKeyOf v = None"

definition claveNoUtilizable :: "string \<Rightarrow> string" where
  "claveNoUtilizable t = ''clave no utilizable como hash: '' @ t"

definition evalHashIndexExpression :: "obj \<Rightarrow> obj \<Rightarrow> fault + obj" where
  "evalHashIndexExpression hash index =
     (case hash of
        Hash r pairs \<Rightarrow>
     (case hashKeyOf index of
        None \<Rightarrow> if isNil index then Inl nilDeref
                else Inr (newError (claveNoUtilizable (Type index)))
      | Some key \<Rightarrow>
          (case pairs key of
             None \<Rightarrow> Inr NULL
           | Some (k, v) \<Rightarrow> Inr v))
      | _ \<Rightarrow> Inl typeAssertion)"

definition evalIndexExpression :: "obj \<Rightarrow> obj \<Rightarrow> fault + obj" where
  "evalIndexExpression left index =
     (if isNil left then Inl nilDeref
      else if Type left = ''LISTA'' \<and> isNil index then Inl nilDeref
      else if Type left = ''LISTA'' \<and> Type index = ''ENTERO'' then evalArrayIndexExpression left index
      else if Type left = ''MAPA'' then evalHashIndexExpression left index
      else Inr (newError (''operador de '' @ [CHR 0xC3, CHR 0xAD] @ ''ndice no soportado: '' @ Type left)))"


section \<open>Environments\<close>

definition NewEnvironment :: "state \<Rightarrow> nat \<times> state" where
  "NewEnvironment s =
     (length (envs s), s\<lparr>envs := envs s @ [\<lparr>store = Map.empty, outer = None\<rparr>]\<rparr>)"

definition NewEnclosedEnvironment :: "nat \<Rightarrow> state \<Rightarrow> nat \<times> state" where
  "NewEnclosedEnvironment out s =
     (length (envs s), s\<lparr>envs := envs s @ [\<lparr>store = Map.empty, outer = Some out\<rparr>]\<rparr>)"

text \<open>
  \<open>Get\<close> follows the \<open>outer\<close> pointers. An environment encloses one allocated before it, so a
  chain is no longer than the number of environments, which bounds the search.
\<close>

primrec getFrom :: "nat \<Rightarrow> environment list \<Rightarrow> nat \<Rightarrow> string \<Rightarrow> obj option" where
  "getFrom 0 es e name = None"
| "getFrom (Suc k) es e name =
     (if e < length es then
        (case store (es ! e) name of
           Some v \<Rightarrow> Some v
         | None \<Rightarrow> (case outer (es ! e) of None \<Rightarrow> None | Some out \<Rightarrow> getFrom k es out name))
      else None)"

definition Get :: "state \<Rightarrow> nat \<Rightarrow> string \<Rightarrow> obj option" where
  "Get s e name = getFrom (length (envs s)) (envs s) e name"

definition Set_env :: "nat \<Rightarrow> string \<Rightarrow> obj \<Rightarrow> state \<Rightarrow> state" where
  "Set_env e name val s =
     s\<lparr>envs := (envs s)[e := (envs s ! e)\<lparr>store := (store (envs s ! e))(name \<mapsto> val)\<rparr>]\<rparr>"

definition newRef :: "state \<Rightarrow> nat \<times> state" where
  "newRef s = (nextRef s, s\<lparr>nextRef := Suc (nextRef s)\<rparr>)"

section \<open>Builtins\<close>

fun showNat :: "nat \<Rightarrow> string" where
  "showNat n =
     (if n < 10 then [char_of (48 + n)] else showNat (n div 10) @ [char_of (48 + n mod 10)])"

declare showNat.simps [simp del]

type_synonym result = "fault + obj \<times> state"

text \<open>The table \<open>builtins\<close> of the evaluator: \<open>longitud\<close> and \<open>mostrar\<close>.\<close>

definition builtin_longitud :: "obj list \<Rightarrow> state \<Rightarrow> result" where
  "builtin_longitud args s =
     (if length args \<noteq> 1 then
        Inr (newError (''n'' @ [CHR 0xC3, CHR 0xBA] @ ''mero incorrecto de argumentos para ''
               @ [CHR 0x27] @ ''longitud'' @ [CHR 0x27] @ '': se esperaba 1, se obtuvo ''
               @ showNat (length args)), s)
      else
        (case args ! 0 of
           String v \<Rightarrow> Inr (Integer (word_of_nat (length v)), s)
         | Array r es \<Rightarrow> Inr (Integer (word_of_nat (length es)), s)
         | NilObj \<Rightarrow> Inl nilDeref
         | arg \<Rightarrow> Inr (newError (''argumento para '' @ [CHR 0x27] @ ''longitud'' @ [CHR 0x27]
               @ '' no soportado, se obtuvo '' @ Type arg), s)))"

fun builtin_mostrar :: "obj list \<Rightarrow> state \<Rightarrow> result" where
  "builtin_mostrar [] s = Inr (NULL, s)"
| "builtin_mostrar (arg # args) s =
     (if isNil arg then Inl nilDeref
      else builtin_mostrar args (s\<lparr>printed := printed s @ [arg]\<rparr>))"

text \<open>
  Of \<open>package stdlib\<close>, \<open>contiene\<close>: it returns the library's own \<open>TRUE\<close> and \<open>FALSE\<close>.
\<close>

fun containsStr :: "string \<Rightarrow> string \<Rightarrow> bool" where
  "containsStr [] substr = (substr = [])"
| "containsStr (c # cs) substr = (take (length substr) (c # cs) = substr \<or> containsStr cs substr)"

definition stdlib_contiene :: "obj list \<Rightarrow> state \<Rightarrow> result" where
  "stdlib_contiene args s =
     (if length args \<noteq> 2 then
        Inr (newError (''n'' @ [CHR 0xC3, CHR 0xBA] @ ''mero incorrecto de argumentos: se esperaba 2, se obtuvo ''
               @ showNat (length args)), s)
      else
        (case (args ! 0, args ! 1) of
           (String str, String substr) \<Rightarrow> Inr (Boolean Stdlib (containsStr str substr), s)
         | (a, b) \<Rightarrow>
             if isNil a \<or> isNil b then Inl nilDeref
             else Inr (newError (''argumentos no v'' @ [CHR 0xC3, CHR 0xA1] @ ''lidos para ''
                    @ [CHR 0x27] @ ''contiene'' @ [CHR 0x27] @ '': '' @ Type a @ '', '' @ Type b), s)))"

definition callBuiltin :: "origin \<Rightarrow> string \<Rightarrow> obj list \<Rightarrow> state \<Rightarrow> result" where
  "callBuiltin g name args s =
     (if g = Evaluator \<and> name = ''longitud'' then builtin_longitud args s
      else if g = Evaluator \<and> name = ''mostrar'' then builtin_mostrar args s
      else if g = Stdlib \<and> name = ''contiene'' then stdlib_contiene args s
      else Inl (Unmodelled name))"


section \<open>The evaluator\<close>

text \<open>
  \<open>Eval\<close> may run forever (a \<open>mientras\<close> loop, a recursive function), so it takes fuel: each
  nested call of \<open>Eval\<close> and each turn of a loop uses one unit, and \<open>Inl OutOfFuel\<close> says the
  fuel did not suffice. The functions that \<open>Eval\<close> calls and that call it back take the
  evaluator to call, \<open>ev\<close>, as their first argument; \<open>Eval\<close> passes itself with the fuel
  that is left.
\<close>

type_synonym evalfn = "node \<Rightarrow> nat \<Rightarrow> state \<Rightarrow> result"

definition andThen :: "result \<Rightarrow> (obj \<Rightarrow> state \<Rightarrow> result) \<Rightarrow> result" where
  "andThen r k = (case r of Inl f \<Rightarrow> Inl f | Inr (v, s) \<Rightarrow> k v s)"

definition withState :: "fault + obj \<Rightarrow> state \<Rightarrow> result" where
  "withState r s = (case r of Inl f \<Rightarrow> Inl f | Inr v \<Rightarrow> Inr (v, s))"

fun evalProgram :: "evalfn \<Rightarrow> node list \<Rightarrow> obj \<Rightarrow> nat \<Rightarrow> state \<Rightarrow> result" where
  "evalProgram ev [] result env s = Inr (result, s)"
| "evalProgram ev (statement # statements) result env s =
     andThen (ev statement env s) (\<lambda>result s.
       case result of
         ReturnValue v \<Rightarrow> Inr (v, s)
       | Error m \<Rightarrow> Inr (result, s)
       | _ \<Rightarrow> evalProgram ev statements result env s)"

fun evalBlockStatement :: "evalfn \<Rightarrow> node list \<Rightarrow> obj \<Rightarrow> nat \<Rightarrow> state \<Rightarrow> result" where
  "evalBlockStatement ev [] result env s = Inr (result, s)"
| "evalBlockStatement ev (statement # statements) result env s =
     andThen (ev statement env s) (\<lambda>result s.
       if \<not> isNil result \<and> (Type result = ''RETORNO'' \<or> Type result = ''ERROR'') then Inr (result, s)
       else evalBlockStatement ev statements result env s)"

definition evalIfExpression :: "evalfn \<Rightarrow> node \<Rightarrow> node list \<Rightarrow> node list option \<Rightarrow> nat \<Rightarrow> state \<Rightarrow> result" where
  "evalIfExpression ev cond consequence alternative env s =
     andThen (ev cond env s) (\<lambda>condition s.
       if isError condition then Inr (condition, s)
       else
         (case isTruthy condition of
            Inl f \<Rightarrow> Inl f
          | Inr t \<Rightarrow>
              if t then ev (BlockStatement consequence) env s
              else (case alternative of
                      Some alt \<Rightarrow> ev (BlockStatement alt) env s
                    | None \<Rightarrow> Inr (NULL, s))))"

primrec whileLoop :: "evalfn \<Rightarrow> nat \<Rightarrow> node \<Rightarrow> node list \<Rightarrow> obj \<Rightarrow> nat \<Rightarrow> state \<Rightarrow> result" where
  "whileLoop ev 0 cond body result env s = Inl OutOfFuel"
| "whileLoop ev (Suc k) cond body result env s =
     andThen (ev cond env s) (\<lambda>condition s.
       if isError condition then Inr (condition, s)
       else
         (case isTruthy condition of
            Inl f \<Rightarrow> Inl f
          | Inr t \<Rightarrow>
              if \<not> t then Inr (result, s)
              else
                andThen (ev (BlockStatement body) env s) (\<lambda>result s.
                  if isError result then Inr (result, s)
                  else if \<not> isNil result \<and> Type result = ''RETORNO'' then Inr (result, s)
                  else whileLoop ev k cond body result env s)))"

definition evalWhileExpression :: "evalfn \<Rightarrow> nat \<Rightarrow> node \<Rightarrow> node list \<Rightarrow> nat \<Rightarrow> state \<Rightarrow> result" where
  "evalWhileExpression ev k cond body env s = whileLoop ev k cond body NULL env s"

definition forBody :: "evalfn \<Rightarrow> node \<Rightarrow> node list \<Rightarrow> nat \<Rightarrow> state \<Rightarrow> (obj \<Rightarrow> state \<Rightarrow> result) \<Rightarrow> result" where
  "forBody ev update body loopEnv s continue =
     andThen (ev (BlockStatement body) loopEnv s) (\<lambda>result s.
       if isError result then Inr (result, s)
       else if \<not> isNil result \<and> Type result = ''RETORNO'' then Inr (result, s)
       else if update \<noteq> NilNode then
         andThen (ev update loopEnv s) (\<lambda>updateResult s.
           if isError updateResult then Inr (updateResult, s) else continue result s)
       else continue result s)"

primrec forLoop :: "evalfn \<Rightarrow> nat \<Rightarrow> node \<Rightarrow> node \<Rightarrow> node list \<Rightarrow> obj \<Rightarrow> nat \<Rightarrow> state \<Rightarrow> result" where
  "forLoop ev 0 cond update body result loopEnv s = Inl OutOfFuel"
| "forLoop ev (Suc k) cond update body result loopEnv s =
     (if cond \<noteq> NilNode then
        andThen (ev cond loopEnv s) (\<lambda>condition s.
          if isError condition then Inr (condition, s)
          else
            (case isTruthy condition of
               Inl f \<Rightarrow> Inl f
             | Inr t \<Rightarrow>
                 if \<not> t then Inr (result, s)
                 else forBody ev update body loopEnv s (\<lambda>result s.
                        forLoop ev k cond update body result loopEnv s)))
      else forBody ev update body loopEnv s (\<lambda>result s.
             forLoop ev k cond update body result loopEnv s))"

definition evalForExpression :: "evalfn \<Rightarrow> nat \<Rightarrow> node \<Rightarrow> node \<Rightarrow> node \<Rightarrow> node list \<Rightarrow> nat \<Rightarrow> state \<Rightarrow> result" where
  "evalForExpression ev k init cond update body env s =
     (let (loopEnv, s) = NewEnclosedEnvironment env s in
      if init \<noteq> NilNode then
        andThen (ev init loopEnv s) (\<lambda>initResult s.
          if isError initResult then Inr (initResult, s)
          else forLoop ev k cond update body NULL loopEnv s)
      else forLoop ev k cond update body NULL loopEnv s)"

definition evalIdentifier :: "string \<Rightarrow> nat \<Rightarrow> state \<Rightarrow> obj" where
  "evalIdentifier name env s =
     (case Get s env name of
        Some val \<Rightarrow> val
      | None \<Rightarrow>
          if name = ''longitud'' \<or> name = ''mostrar'' then Builtin Evaluator name
          else newError (''identificador no encontrado: '' @ name))"

fun evalExpressions :: "evalfn \<Rightarrow> node list \<Rightarrow> obj list \<Rightarrow> nat \<Rightarrow> state \<Rightarrow> fault + obj list \<times> state" where
  "evalExpressions ev [] result env s = Inr (result, s)"
| "evalExpressions ev (e # exps) result env s =
     (case ev e env s of
        Inl f \<Rightarrow> Inl f
      | Inr (evaluated, s) \<Rightarrow>
          if isError evaluated then Inr ([evaluated], s)
          else evalExpressions ev exps (result @ [evaluated]) env s)"

text \<open>
  \<open>andThenList r k\<close>: what the callers of \<open>evalExpressions\<close> do with its result, returning
  the error when the list is the single error.
\<close>

definition andThenList :: "fault + obj list \<times> state \<Rightarrow> (obj list \<Rightarrow> state \<Rightarrow> result) \<Rightarrow> result" where
  "andThenList r k =
     (case r of
        Inl f \<Rightarrow> Inl f
      | Inr (args, s) \<Rightarrow> if length args = 1 \<and> isError (args ! 0) then Inr (args ! 0, s) else k args s)"

definition extendFunctionEnv :: "func \<Rightarrow> obj list \<Rightarrow> state \<Rightarrow> nat \<times> state" where
  "extendFunctionEnv fn args s =
     (let (env, s) = NewEnclosedEnvironment (Env fn) s
      in (env, fold (\<lambda>(paramIdx, param) s.
                      if paramIdx < length args then Set_env env param (args ! paramIdx) s
                      else Set_env env param NULL s)
                 (enumerate 0 (Parameters fn)) s))"

definition applyFunction :: "evalfn \<Rightarrow> obj \<Rightarrow> obj list \<Rightarrow> state \<Rightarrow> result" where
  "applyFunction ev fn args s =
     (case fn of
        FunctionObj f \<Rightarrow>
          (let (extendedEnv, s) = extendFunctionEnv f args s
           in andThen (ev (BlockStatement (Body f)) extendedEnv s) (\<lambda>evaluated s.
                Inr (unwrapReturnValue evaluated, s)))
      | Builtin g name \<Rightarrow> callBuiltin g name args s
      | NilObj \<Rightarrow> Inl nilDeref
      | _ \<Rightarrow> Inr (newError (''no es una funci'' @ [CHR 0xC3, CHR 0xB3] @ ''n: '' @ Type fn), s))"

text \<open>
  The pairs of a hash literal are a Go map, visited in no fixed order: the list of the node
  is the order of one visit.
\<close>

fun hashPairs :: "evalfn \<Rightarrow> (node \<times> node) list \<Rightarrow> (hashKey \<Rightarrow> (obj \<times> obj) option) \<Rightarrow> nat \<Rightarrow> state
    \<Rightarrow> fault + (obj + (hashKey \<Rightarrow> (obj \<times> obj) option)) \<times> state" where
  "hashPairs ev [] pairs env s = Inr (Inr pairs, s)"
| "hashPairs ev ((keyNode, valueNode) # rest) pairs env s =
     (case ev keyNode env s of
        Inl f \<Rightarrow> Inl f
      | Inr (key, s) \<Rightarrow>
          if isError key then Inr (Inl key, s)
          else
            (case hashKeyOf key of
               None \<Rightarrow> if isNil key then Inl nilDeref
                       else Inr (Inl (newError (claveNoUtilizable (Type key))), s)
             | Some hashed \<Rightarrow>
                 (case ev valueNode env s of
                    Inl f \<Rightarrow> Inl f
                  | Inr (val, s) \<Rightarrow>
                      if isError val then Inr (Inl val, s)
                      else hashPairs ev rest (pairs(hashed \<mapsto> (key, val))) env s)))"

definition evalHashLiteral :: "evalfn \<Rightarrow> (node \<times> node) list \<Rightarrow> nat \<Rightarrow> state \<Rightarrow> result" where
  "evalHashLiteral ev nodePairs env s =
     (case hashPairs ev nodePairs Map.empty env s of
        Inl f \<Rightarrow> Inl f
      | Inr (Inl err, s) \<Rightarrow> Inr (err, s)
      | Inr (Inr pairs, s) \<Rightarrow> (let (r, s) = newRef s in Inr (Hash r pairs, s)))"

text \<open>
  \<open>evalDotExpression\<close>: a property of the instance, or a method of its class bound to the
  instance: a new \<open>Function\<close> whose environment is a new scope around the instance's, with
  \<open>esto\<close> set.
\<close>

definition evalDotExpression :: "obj \<Rightarrow> string \<Rightarrow> state \<Rightarrow> result" where
  "evalDotExpression ob property s =
     (case ob of
        Instance r c properties instanceEnv \<Rightarrow>
          (case properties property of
             Some val \<Rightarrow> Inr (val, s)
           | None \<Rightarrow>
               (case Methods c property of
                  Some method \<Rightarrow>
                    (let (b, s) = newRef s;
                         (methodEnv, s) = NewEnclosedEnvironment instanceEnv s;
                         s = Set_env methodEnv ''esto'' ob s
                     in Inr (FunctionObj (Function b (Parameters method) (Body method) methodEnv (Name method)), s))
                | None \<Rightarrow>
                    Inr (newError (''propiedad o m'' @ [CHR 0xC3, CHR 0xA9] @ ''todo no encontrado: '' @ property), s)))
      | String v \<Rightarrow>
          if property = ''longitud'' then Inr (Integer (word_of_nat (length v)), s)
          else Inr (newError (''propiedad no encontrada en string: '' @ property), s)
      | Array r es \<Rightarrow>
          if property = ''longitud'' then Inr (Integer (word_of_nat (length es)), s)
          else Inr (newError (''propiedad no encontrada en array: '' @ property), s)
      | NilObj \<Rightarrow> Inl nilDeref
      | _ \<Rightarrow> Inr (newError (''acceso a propiedad no soportado para: '' @ Type ob), s))"

fun classProperties :: "evalfn \<Rightarrow> (string \<times> node) option list \<Rightarrow> (string \<Rightarrow> obj option) \<Rightarrow> nat \<Rightarrow> state
    \<Rightarrow> fault + (obj + (string \<Rightarrow> obj option)) \<times> state" where
  "classProperties ev [] properties env s = Inr (Inr properties, s)"
| "classProperties ev (None # rest) properties env s = Inl nilDeref"
| "classProperties ev (Some (name, valueNode) # rest) properties env s =
     (case ev valueNode env s of
        Inl f \<Rightarrow> Inl f
      | Inr (propValue, s) \<Rightarrow>
          if isError propValue then Inr (Inl propValue, s)
          else classProperties ev rest (properties(name \<mapsto> propValue)) env s)"

fun classMethods :: "(string list \<times> node list \<times> string) list \<Rightarrow> (string \<Rightarrow> func option) \<Rightarrow> nat \<Rightarrow> state
    \<Rightarrow> (string \<Rightarrow> func option) \<times> state" where
  "classMethods [] methods env s = (methods, s)"
| "classMethods ((parameters, body, name) # rest) methods env s =
     (let (methodEnv, s) = NewEnclosedEnvironment env s;
          (r, s) = newRef s
      in classMethods rest (methods(name \<mapsto> Function r parameters body methodEnv name)) env s)"

definition evalClassLiteral :: "evalfn \<Rightarrow> string \<Rightarrow> (string \<times> node) option list
    \<Rightarrow> (string list \<times> node list \<times> string) list \<Rightarrow> nat \<Rightarrow> state \<Rightarrow> result" where
  "evalClassLiteral ev name propNodes methodNodes env s =
     (let (r, s) = newRef s in
      case classProperties ev propNodes Map.empty env s of
        Inl f \<Rightarrow> Inl f
      | Inr (Inl err, s) \<Rightarrow> Inr (err, s)
      | Inr (Inr properties, s) \<Rightarrow>
          (let (methods, s) = classMethods methodNodes Map.empty env s;
               c = ClassObj (Class r name properties methods)
           in Inr (c, Set_env env name c s)))"

text \<open>
  \<open>evalNewExpression\<close>, in the three steps of the source. \<open>newInstance\<close> makes the environment
  of the instance and the instance, with the properties of its class (the source copies them
  right after making it), and sets \<open>esto\<close> in that environment. \<open>constructorScope\<close> makes the
  scope of the constructor, around the environment the constructor has captured, sets \<open>esto\<close>
  and binds the parameters that have an argument. The constructor's body is then evaluated
  and its result dropped.
\<close>

definition newInstance :: "class \<Rightarrow> nat \<Rightarrow> state \<Rightarrow> obj \<times> state" where
  "newInstance c env s =
     (let (instanceEnv, s) = NewEnclosedEnvironment env s;
          (r, s) = newRef s;
          instance = Instance r c (Properties c) instanceEnv
      in (instance, Set_env instanceEnv ''esto'' instance s))"

definition constructorScope :: "func \<Rightarrow> obj \<Rightarrow> obj list \<Rightarrow> state \<Rightarrow> nat \<times> state" where
  "constructorScope constructor instance args s =
     (let (constructorEnv, s) = NewEnclosedEnvironment (Env constructor) s;
          s = Set_env constructorEnv ''esto'' instance s;
          s = fold (\<lambda>(paramIdx, param) s.
                     if paramIdx < length args then Set_env constructorEnv param (args ! paramIdx) s
                     else s)
                (enumerate 0 (Parameters constructor)) s
      in (constructorEnv, s))"

definition evalNewExpression :: "evalfn \<Rightarrow> node \<Rightarrow> node list \<Rightarrow> nat \<Rightarrow> state \<Rightarrow> result" where
  "evalNewExpression ev classNode argNodes env s =
     andThen (ev classNode env s) (\<lambda>classObj s.
       if isError classObj then Inr (classObj, s)
       else
         (case classObj of
            ClassObj c \<Rightarrow>
              (let (instance, s) = newInstance c env s
               in case Methods c ''crear'' of
                    Some constructor \<Rightarrow>
                      andThenList (evalExpressions ev argNodes [] env s) (\<lambda>args s.
                        let (constructorEnv, s) = constructorScope constructor instance args s
                        in andThen (ev (BlockStatement (Body constructor)) constructorEnv s) (\<lambda>dropped s.
                             Inr (instance, s)))
                  | None \<Rightarrow> Inr (instance, s))
          | NilObj \<Rightarrow> Inl nilDeref
          | _ \<Rightarrow> Inr (newError (''no es una clase: '' @ Type classObj), s)))"

primrec Eval :: "nat \<Rightarrow> node \<Rightarrow> nat \<Rightarrow> state \<Rightarrow> result" where
  "Eval 0 node env s = Inl OutOfFuel"
| "Eval (Suc n) node env s =
     (case node of
        Program statements \<Rightarrow> evalProgram (Eval n) statements NilObj env s
      | ExpressionStatement expression \<Rightarrow> Eval n expression env s
      | BlockStatement statements \<Rightarrow> evalBlockStatement (Eval n) statements NilObj env s
      | LetStatement name valueNode \<Rightarrow>
          andThen (Eval n valueNode env s) (\<lambda>val s.
            if isError val then Inr (val, s) else Inr (val, Set_env env name val s))
      | ReturnStatement returnValue \<Rightarrow>
          andThen (Eval n returnValue env s) (\<lambda>val s.
            if isError val then Inr (val, s) else Inr (ReturnValue val, s))
      | IntegerLiteral v \<Rightarrow> Inr (Integer v, s)
      | FloatLiteral v \<Rightarrow> Inr (Float v, s)
      | StringLiteral v \<Rightarrow> Inr (String v, s)
      | BooleanLiteral v \<Rightarrow> Inr (nativeBoolToBooleanObject v, s)
      | NullLiteral \<Rightarrow> Inr (NULL, s)
      | PrefixExpression operator rightNode \<Rightarrow>
          andThen (Eval n rightNode env s) (\<lambda>right s.
            if isError right then Inr (right, s)
            else withState (evalPrefixExpression operator right) s)
      | InfixExpression leftNode operator rightNode \<Rightarrow>
          andThen (Eval n leftNode env s) (\<lambda>left s.
            if isError left then Inr (left, s)
            else
              andThen (Eval n rightNode env s) (\<lambda>right s.
                if isError right then Inr (right, s)
                else withState (evalInfixExpression operator left right) s))
      | IfExpression cond consequence alternative \<Rightarrow>
          evalIfExpression (Eval n) cond consequence alternative env s
      | WhileExpression cond body \<Rightarrow> evalWhileExpression (Eval n) n cond body env s
      | ForExpression init cond update body \<Rightarrow> evalForExpression (Eval n) n init cond update body env s
      | Identifier name \<Rightarrow> Inr (evalIdentifier name env s, s)
      | FunctionLiteral parameters body name \<Rightarrow>
          (let (r, s) = newRef s in Inr (FunctionObj (Function r parameters body env name), s))
      | CallExpression functionNode argNodes \<Rightarrow>
          andThen (Eval n functionNode env s) (\<lambda>function s.
            if isError function then Inr (function, s)
            else
              andThenList (evalExpressions (Eval n) argNodes [] env s) (\<lambda>args s.
                applyFunction (Eval n) function args s))
      | ArrayLiteral elementNodes \<Rightarrow>
          andThenList (evalExpressions (Eval n) elementNodes [] env s) (\<lambda>elements s.
            let (r, s) = newRef s in Inr (Array r elements, s))
      | IndexExpression leftNode indexNode \<Rightarrow>
          andThen (Eval n leftNode env s) (\<lambda>left s.
            if isError left then Inr (left, s)
            else
              andThen (Eval n indexNode env s) (\<lambda>index s.
                if isError index then Inr (index, s)
                else withState (evalIndexExpression left index) s))
      | HashLiteral nodePairs \<Rightarrow> evalHashLiteral (Eval n) nodePairs env s
      | DotExpression objectNode property \<Rightarrow>
          andThen (Eval n objectNode env s) (\<lambda>ob s.
            if isError ob then Inr (ob, s) else evalDotExpression ob property s)
      | ClassLiteral name parent interfaces propNodes methodNodes \<Rightarrow>
          evalClassLiteral (Eval n) name propNodes methodNodes env s
      | NewExpression classNode argNodes \<Rightarrow> evalNewExpression (Eval n) classNode argNodes env s
      | NilLetStatement \<Rightarrow> Inl nilDeref
      | NilNode \<Rightarrow> Inr (NULL, s))"

section \<open>The lexer\<close>

text \<open>
  \<open>package lexer\<close>. A token type is a Go string (\<open>IDENT\<close> is \<open>"IDENT"\<close>, \<open>ASSIGN\<close> is
  \<open>"="\<close>, \<open>DECLARE\<close> is \<open>":="\<close>, \<open>VAR\<close> is \<open>"VAR"\<close>), written here as the string itself.
  The lexer reads bytes; the byte 0 stands for the end of the input.
\<close>

datatype token = Token (TokenType: string) (Literal: string) (Line: nat) (Column: nat)

definition keywords_table :: "(string \<times> string) list" where
  "keywords_table =
     [(''fun'', ''FUNCTION''), (''clase'', ''CLASS''), (''proto'', ''PROTO''), (''si'', ''IF''),
      (''sino'', ''ELSE''), (''cuando'', ''WHEN''), (''devolver'', ''RETURN''), (''verdad'', ''TRUE''),
      (''falso'', ''FALSE''), (''nulo'', ''NULL''), (''mientras'', ''WHILE''), (''para'', ''FOR''),
      (''repetir'', ''REPEAT''), (''haz'', ''DO''), (''romper'', ''BREAK''), (''continuar'', ''CONTINUE''),
      (''evaluar'', ''SWITCH''), (''caso'', ''CASE''), (''defecto'', ''DEFAULT''), (''en'', ''IN''),
      (''desde'', ''FROM''), (''hasta'', ''TO''), (''y'', ''AND''), (''o'', ''OR''), (''no'', ''NOT''),
      (''es'', ''IS''), (''no_es'', ''ISNOT''), (''nuevo'', ''NEW''), (''extiende'', ''EXTENDS''),
      (''implementa'', ''IMPLEMENTS''), (''guarda'', ''VAR''), (''publico'', ''PUBLIC''),
      (''privado'', ''PRIVATE''), (''protegido'', ''PROTECTED''), (''estatico'', ''STATIC''),
      (''final'', ''FINAL''), (''esto'', ''THIS''), (''super'', ''SUPER''), (''intentar'', ''TRY''),
      (''atrapar'', ''CATCH''), (''finalmente'', ''FINALLY''), (''lanzar'', ''THROW'')]"

definition LookupIdent :: "string \<Rightarrow> string" where
  "LookupIdent ident = (case map_of keywords_table ident of Some tok \<Rightarrow> tok | None \<Rightarrow> ''IDENT'')"

record lexer =
  input :: string
  position :: nat
  readPosition :: nat
  ch :: char
  line :: nat
  column :: nat

definition readChar :: "lexer \<Rightarrow> lexer" where
  "readChar l =
     (let c = (if length (input l) \<le> readPosition l then CHR 0x00 else input l ! readPosition l)
      in l\<lparr>ch := c,
           line := (if c = CHR 0x0A then line l + 1 else line l),
           column := (if c = CHR 0x0A then 0 else column l + 1),
           position := readPosition l,
           readPosition := readPosition l + 1\<rparr>)"

definition New_lexer :: "string \<Rightarrow> lexer" where
  "New_lexer inp =
     readChar \<lparr>input = inp, position = 0, readPosition = 0, ch = CHR 0x00, line = 1, column = 0\<rparr>"

definition peekChar :: "lexer \<Rightarrow> char" where
  "peekChar l = (if length (input l) \<le> readPosition l then CHR 0x00 else input l ! readPosition l)"

text \<open>
  \<open>isLetter\<close> and \<open>isDigit\<close> ask \<open>unicode.IsLetter\<close> and \<open>unicode.IsDigit\<close> about the byte
  taken as a code point: the letters below 256 are the ASCII letters, U+00AA, U+00B5, U+00BA
  and U+00C0 to U+00FF but for U+00D7 and U+00F7; the digits are \<open>0\<close> to \<open>9\<close>.
\<close>

definition isLetter :: "char \<Rightarrow> bool" where
  "isLetter c =
     (let n = (of_char c :: nat)
      in (65 \<le> n \<and> n \<le> 90) \<or> (97 \<le> n \<and> n \<le> 122) \<or> n = 170 \<or> n = 181 \<or> n = 186
         \<or> (192 \<le> n \<and> n \<le> 255 \<and> n \<noteq> 215 \<and> n \<noteq> 247) \<or> c = CHR ''_'')"

definition isDigit :: "char \<Rightarrow> bool" where
  "isDigit c = (let n = (of_char c :: nat) in 48 \<le> n \<and> n \<le> 57)"

text \<open>
  Every loop of the lexer reads on while the current byte is not 0, and \<open>readChar\<close> sets it
  to 0 at the end of the input: \<open>remaining\<close> decreases on each turn.
\<close>

definition remaining :: "lexer \<Rightarrow> nat" where
  "remaining l = (Suc (length (input l)) - readPosition l) + (if ch l = CHR 0x00 then 0 else 1)"

function skipWhitespace :: "lexer \<Rightarrow> lexer" where
  "skipWhitespace l =
     (if ch l = CHR '' '' \<or> ch l = CHR 0x09 \<or> ch l = CHR 0x0A \<or> ch l = CHR 0x0D
      then skipWhitespace (readChar l) else l)"
  by pat_completeness auto
termination
  by (relation "measure remaining") (auto simp add: remaining_def readChar_def Let_def)

declare skipWhitespace.simps [simp del]

function skipLineComment :: "lexer \<Rightarrow> lexer" where
  "skipLineComment l =
     (if ch l \<noteq> CHR 0x0A \<and> ch l \<noteq> CHR 0x00 then skipLineComment (readChar l) else l)"
  by pat_completeness auto
termination
  by (relation "measure remaining") (auto simp add: remaining_def readChar_def Let_def)

declare skipLineComment.simps [simp del]

function blockCommentLoop :: "lexer \<Rightarrow> lexer" where
  "blockCommentLoop l =
     (if \<not> (ch l = CHR ''*'' \<and> peekChar l = CHR ''/'') \<and> ch l \<noteq> CHR 0x00
      then blockCommentLoop (readChar l) else l)"
  by pat_completeness auto
termination
  by (relation "measure remaining") (auto simp add: remaining_def readChar_def Let_def)

declare blockCommentLoop.simps [simp del]

definition skipBlockComment :: "lexer \<Rightarrow> lexer" where
  "skipBlockComment l =
     (let l = blockCommentLoop (readChar (readChar l))
      in if ch l \<noteq> CHR 0x00 then readChar (readChar l) else l)"

function identifierLoop :: "nat \<Rightarrow> lexer \<Rightarrow> lexer" where
  "identifierLoop start l =
     (if isLetter (ch l) \<or> (start < position l \<and> isDigit (ch l)) \<or> ch l = CHR ''_''
      then identifierLoop start (readChar l) else l)"
  by pat_completeness auto
termination
  by (relation "measure (\<lambda>(start, l). remaining l)")
    (auto simp add: remaining_def readChar_def Let_def isLetter_def isDigit_def)

declare identifierLoop.simps [simp del]

definition slice :: "string \<Rightarrow> nat \<Rightarrow> nat \<Rightarrow> string" where
  "slice s from to = take (to - from) (drop from s)"

definition readIdentifier :: "lexer \<Rightarrow> string \<times> lexer" where
  "readIdentifier l =
     (let l' = identifierLoop (position l) l in (slice (input l) (position l) (position l'), l'))"

function numberLoop :: "bool \<Rightarrow> lexer \<Rightarrow> lexer" where
  "numberLoop hasDot l =
     (if isDigit (ch l) \<or> (ch l = CHR ''.'' \<and> \<not> hasDot)
      then numberLoop (hasDot \<or> ch l = CHR ''.'') (readChar l) else l)"
  by pat_completeness auto
termination
  by (relation "measure (\<lambda>(hasDot, l). remaining l)")
    (auto simp add: remaining_def readChar_def Let_def isDigit_def)

declare numberLoop.simps [simp del]

definition readNumber :: "lexer \<Rightarrow> string \<times> lexer" where
  "readNumber l =
     (let l' = numberLoop False l in (slice (input l) (position l) (position l'), l'))"

function stringLoop :: "char \<Rightarrow> lexer \<Rightarrow> lexer" where
  "stringLoop quote l =
     (if ch l \<noteq> quote \<and> ch l \<noteq> CHR 0x00
      then stringLoop quote
             (readChar (if ch l = CHR 0x5C \<and> peekChar l = quote then readChar l else l))
      else l)"
  by pat_completeness auto
termination
  by (relation "measure (\<lambda>(quote, l). remaining l)")
    (auto simp add: remaining_def readChar_def Let_def)

declare stringLoop.simps [simp del]

definition readString :: "char \<Rightarrow> lexer \<Rightarrow> string \<times> lexer" where
  "readString quote l =
     (let l = readChar l; l' = stringLoop quote l
      in (slice (input l) (position l) (position l'), l'))"


text \<open>\<open>string(ch)\<close> of a byte is the UTF-8 string of that code point: two bytes from 128 on.\<close>

definition stringOfByte :: "char \<Rightarrow> string" where
  "stringOfByte c =
     (let n = (of_char c :: nat)
      in if n < 128 then [c] else [char_of (192 + n div 64), char_of (128 + n mod 64)])"

definition newToken :: "string \<Rightarrow> char \<Rightarrow> token" where
  "newToken tokenType c = Token tokenType (stringOfByte c) 0 0"

text \<open>
  The \<open>switch\<close> of \<open>NextToken\<close>, without the two cases of a comment. It assigns a whole new
  \<open>Token\<close> for an operator or a delimiter, so that these tokens have line and column 0; the
  token of a string, a name, a number or the end of the input keeps the line and column
  stored before the \<open>switch\<close>.
\<close>

definition twoChar :: "string \<Rightarrow> lexer \<Rightarrow> token \<times> lexer" where
  "twoChar tokenType l =
     (let l1 = readChar l
      in (Token tokenType (stringOfByte (ch l) @ stringOfByte (ch l1)) 0 0, readChar l1))"

definition oneChar :: "string \<Rightarrow> lexer \<Rightarrow> token \<times> lexer" where
  "oneChar tokenType l = (newToken tokenType (ch l), readChar l)"

definition orAssign :: "string \<Rightarrow> string \<Rightarrow> lexer \<Rightarrow> token \<times> lexer" where
  "orAssign withEq plain l = (if peekChar l = CHR ''='' then twoChar withEq l else oneChar plain l)"

definition switchToken :: "lexer \<Rightarrow> token \<times> lexer" where
  "switchToken l =
     (let c = ch l in
      if c = CHR ''='' then orAssign ''=='' ''='' l
      else if c = CHR ''+'' then orAssign ''+='' ''+'' l
      else if c = CHR ''-'' then orAssign ''-='' ''-'' l
      else if c = CHR ''*'' then orAssign ''*='' ''*'' l
      else if c = CHR ''/'' then orAssign ''/='' ''/'' l
      else if c = CHR ''%'' then orAssign ''%='' ''%'' l
      else if c = CHR ''^'' then orAssign ''^='' ''^'' l
      else if c = CHR ''!'' then orAssign ''!='' ''!'' l
      else if c = CHR ''<'' then oneChar ''<'' l
      else if c = CHR ''>'' then oneChar ''>'' l
      else if c = CHR '':'' then orAssign '':='' '':'' l
      else if c = CHR '','' then oneChar '','' l
      else if c = CHR '';'' then oneChar '';'' l
      else if c = CHR ''.'' then oneChar ''.'' l
      else if c = CHR ''('' then oneChar ''('' l
      else if c = CHR '')'' then oneChar '')'' l
      else if c = CHR ''{'' then oneChar ''{'' l
      else if c = CHR ''}'' then oneChar ''}'' l
      else if c = CHR ''['' then oneChar ''['' l
      else if c = CHR '']'' then oneChar '']'' l
      else if c = CHR 0x22 \<or> c = CHR 0x27 then
        (let (lit, l1) = readString c l in (Token ''STRING'' lit (line l) (column l), readChar l1))
      else if c = CHR 0x00 then (Token ''EOF'' [] (line l) (column l), readChar l)
      else if isLetter c then
        (let (lit, l1) = readIdentifier l in (Token (LookupIdent lit) lit (line l) (column l), l1))
      else if isDigit c then
        (let (lit, l1) = readNumber l in (Token ''NUM'' lit (line l) (column l), l1))
      else oneChar ''ILLEGAL'' l)"

text \<open>
  \<open>NextToken\<close>: after white space, a comment is skipped and \<open>NextToken\<close> called again;
  otherwise the \<open>switch\<close> gives the token.
\<close>

function NextToken :: "lexer \<Rightarrow> token \<times> lexer" where
  "NextToken l =
     (if ch (skipWhitespace l) = CHR ''/'' \<and> peekChar (skipWhitespace l) = CHR ''/''
      then NextToken (skipLineComment (skipWhitespace l))
      else if ch (skipWhitespace l) = CHR ''/'' \<and> peekChar (skipWhitespace l) = CHR ''*''
      then NextToken (skipBlockComment (skipWhitespace l))
      else switchToken (skipWhitespace l))"
  by pat_completeness auto
termination
proof (relation "measure remaining")
  show "wf (measure remaining)"
    by simp
  have rc: "remaining (readChar l) \<le> remaining l" for l
    by (auto simp add: remaining_def readChar_def Let_def)
  have rc_less: "remaining (readChar l) < remaining l" if "ch l \<noteq> CHR 0x00" for l
    using that by (auto simp add: remaining_def readChar_def Let_def)
  have sw: "remaining (skipWhitespace l) \<le> remaining l" for l
  proof (induction l rule: skipWhitespace.induct)
    case (1 l)
    then show ?case
      using rc [of l] by (subst skipWhitespace.simps) auto
  qed
  have lc: "remaining (skipLineComment l) \<le> remaining l" for l
  proof (induction l rule: skipLineComment.induct)
    case (1 l)
    then show ?case
      using rc [of l] by (subst skipLineComment.simps) auto
  qed
  have bc: "remaining (blockCommentLoop l) \<le> remaining l" for l
  proof (induction l rule: blockCommentLoop.induct)
    case (1 l)
    then show ?case
      using rc [of l] by (subst blockCommentLoop.simps) auto
  qed
  show "(skipLineComment (skipWhitespace l), l) \<in> measure remaining"
    if "ch (skipWhitespace l) = CHR ''/'' \<and> peekChar (skipWhitespace l) = CHR ''/''" for l
  proof -
    let ?w = "skipWhitespace l"
    have "skipLineComment ?w = skipLineComment (readChar ?w)"
      using that by (subst skipLineComment.simps) simp
    then have "remaining (skipLineComment ?w) \<le> remaining (readChar ?w)"
      using lc [of "readChar ?w"] by simp
    also have "\<dots> < remaining ?w"
      using that by (intro rc_less) simp
    also have "\<dots> \<le> remaining l" by (rule sw)
    finally show ?thesis by simp
  qed
  show "(skipBlockComment (skipWhitespace l), l) \<in> measure remaining"
    if "\<not> (ch (skipWhitespace l) = CHR ''/'' \<and> peekChar (skipWhitespace l) = CHR ''/'')"
      and "ch (skipWhitespace l) = CHR ''/'' \<and> peekChar (skipWhitespace l) = CHR ''*''" for l
  proof -
    let ?w = "skipWhitespace l"
    let ?b = "blockCommentLoop (readChar (readChar ?w))"
    have "remaining (skipBlockComment ?w) \<le> remaining ?b"
      using rc [of ?b] rc [of "readChar ?b"] by (auto simp add: skipBlockComment_def Let_def)
    also have "\<dots> \<le> remaining (readChar (readChar ?w))" by (rule bc)
    also have "\<dots> \<le> remaining (readChar ?w)" by (rule rc)
    also have "\<dots> < remaining ?w"
      using that by (intro rc_less) simp
    also have "\<dots> \<le> remaining l" by (rule sw)
    finally show ?thesis by simp
  qed
qed

declare NextToken.simps [simp del]

section \<open>The parser\<close>

text \<open>
  \<open>package parser\<close>. The parser owns its lexer. Its functions return the node they built
  (\<open>NilNode\<close> for a nil \<open>Expression\<close>) and the parser they leave behind. \<open>parseExpression\<close>
  calls itself through the functions registered for the tokens, so it takes fuel as \<open>Eval\<close>
  does, and the functions it calls take the \<open>parseExpression\<close> to call back, \<open>pe\<close>, and the
  fuel of their loops, \<open>k\<close>.
\<close>

record parser =
  lx :: lexer
  errors :: "string list"
  curToken :: token
  peekToken :: token

type_synonym 'a parse = "fault + 'a \<times> parser"

type_synonym parsefn = "nat \<Rightarrow> parser \<Rightarrow> node parse"

definition thenParse :: "'a parse \<Rightarrow> ('a \<Rightarrow> parser \<Rightarrow> 'b parse) \<Rightarrow> 'b parse" where
  "thenParse r k = (case r of Inl f \<Rightarrow> Inl f | Inr (v, p) \<Rightarrow> k v p)"

definition LOWEST :: nat where "LOWEST = 1"
definition PREFIX :: nat where "PREFIX = 8"

definition precedences :: "(string \<times> nat) list" where
  "precedences =
     [(''='', 2), (''=='', 4), (''!='', 4), (''<'', 5), (''>'', 5), (''+'', 6), (''-'', 6),
      (''/'', 7), (''*'', 7), (''%'', 7), (''^'', 7), (''('', 9), (''['', 10), (''.'', 11),
      (''AND'', 3), (''OR'', 3)]"

definition nextToken :: "parser \<Rightarrow> parser" where
  "nextToken p =
     (let (tok, l) = NextToken (lx p) in p\<lparr>curToken := peekToken p, peekToken := tok, lx := l\<rparr>)"

definition New_parser :: "lexer \<Rightarrow> parser" where
  "New_parser l =
     nextToken (nextToken \<lparr>lx = l, errors = [], curToken = Token [] [] 0 0,
                           peekToken = Token [] [] 0 0\<rparr>)"

definition curTokenIs :: "string \<Rightarrow> parser \<Rightarrow> bool" where
  "curTokenIs t p = (TokenType (curToken p) = t)"

definition peekTokenIs :: "string \<Rightarrow> parser \<Rightarrow> bool" where
  "peekTokenIs t p = (TokenType (peekToken p) = t)"

definition lineaColumna :: "token \<Rightarrow> string" where
  "lineaColumna tok =
     ''l'' @ [CHR 0xC3, CHR 0xAD] @ ''nea '' @ showNat (Line tok) @ '', columna ''
       @ showNat (Column tok) @ '': ''"

definition appendError :: "string \<Rightarrow> parser \<Rightarrow> parser" where
  "appendError msg p = p\<lparr>errors := errors p @ [msg]\<rparr>"

definition peekError :: "string \<Rightarrow> parser \<Rightarrow> parser" where
  "peekError t p =
     appendError (lineaColumna (peekToken p) @ ''se esperaba token '' @ t @ '', se obtuvo ''
                    @ TokenType (peekToken p)) p"

definition noPrefixParseFnError :: "string \<Rightarrow> parser \<Rightarrow> parser" where
  "noPrefixParseFnError t p =
     appendError (lineaColumna (curToken p) @ ''no hay funci'' @ [CHR 0xC3, CHR 0xB3] @ ''n de an''
                    @ [CHR 0xC3, CHR 0xA1] @ ''lisis de prefijo para '' @ t) p"

definition expectPeek :: "string \<Rightarrow> parser \<Rightarrow> bool \<times> parser" where
  "expectPeek t p = (if peekTokenIs t p then (True, nextToken p) else (False, peekError t p))"

definition peekPrecedence :: "parser \<Rightarrow> nat" where
  "peekPrecedence p =
     (case map_of precedences (TokenType (peekToken p)) of Some n \<Rightarrow> n | None \<Rightarrow> LOWEST)"

definition curPrecedence :: "parser \<Rightarrow> nat" where
  "curPrecedence p =
     (case map_of precedences (TokenType (curToken p)) of Some n \<Rightarrow> n | None \<Rightarrow> LOWEST)"

definition skipSemicolon :: "parser \<Rightarrow> parser" where
  "skipSemicolon p = (if peekTokenIs '';'' p then nextToken p else p)"

subsection \<open>Statements\<close>

definition parseLetStatement :: "parsefn \<Rightarrow> parser \<Rightarrow> node parse" where
  "parseLetStatement pe p =
     (case expectPeek ''IDENT'' p of
        (False, p) \<Rightarrow> Inr (NilLetStatement, p)
      | (True, p) \<Rightarrow>
          let name = Literal (curToken p) in
          (case expectPeek ''='' p of
             (False, p) \<Rightarrow> Inr (NilLetStatement, p)
           | (True, p) \<Rightarrow>
               thenParse (pe LOWEST (nextToken p)) (\<lambda>val p.
                 Inr (LetStatement name val, skipSemicolon p))))"

definition parseReturnStatement :: "parsefn \<Rightarrow> parser \<Rightarrow> node parse" where
  "parseReturnStatement pe p =
     (let p = nextToken p in
      if curTokenIs '';'' p then Inr (ReturnStatement NilNode, p)
      else thenParse (pe LOWEST p) (\<lambda>returnValue p.
             Inr (ReturnStatement returnValue, skipSemicolon p)))"

definition parseExpressionStatement :: "parsefn \<Rightarrow> parser \<Rightarrow> node parse" where
  "parseExpressionStatement pe p =
     thenParse (pe LOWEST p) (\<lambda>expression p. Inr (ExpressionStatement expression, skipSemicolon p))"

definition parseStatement :: "parsefn \<Rightarrow> parser \<Rightarrow> node parse" where
  "parseStatement pe p =
     (if curTokenIs ''VAR'' p then parseLetStatement pe p
      else if curTokenIs ''RETURN'' p then parseReturnStatement pe p
      else parseExpressionStatement pe p)"

text \<open>
  The loop of \<open>ParseProgram\<close> and of \<open>parseBlockStatement\<close>. The statement that
  \<open>parseStatement\<close> returns is never the nil interface (a nil \<open>*LetStatement\<close> is a
  statement too), so it is always appended.
\<close>

fun statementLoop :: "parsefn \<Rightarrow> bool \<Rightarrow> nat \<Rightarrow> node list \<Rightarrow> parser \<Rightarrow> (node list) parse" where
  "statementLoop pe inBlock 0 statements p = Inl OutOfFuel"
| "statementLoop pe inBlock (Suc k) statements p =
     (if \<not> (inBlock \<and> curTokenIs ''}'' p) \<and> \<not> curTokenIs ''EOF'' p then
        thenParse (parseStatement pe p) (\<lambda>stmt p.
          statementLoop pe inBlock k (statements @ [stmt]) (nextToken p))
      else Inr (statements, p))"

definition parseBlockStatement :: "parsefn \<Rightarrow> nat \<Rightarrow> parser \<Rightarrow> (node list) parse" where
  "parseBlockStatement pe k p = statementLoop pe True k [] (nextToken p)"

subsection \<open>Literals\<close>

definition parseIdentifier :: "parser \<Rightarrow> node parse" where
  "parseIdentifier p = Inr (Identifier (Literal (curToken p)), p)"

definition digitValue :: "char \<Rightarrow> nat" where
  "digitValue c = of_char c - 48"

definition digitsValue :: "nat \<Rightarrow> string \<Rightarrow> nat" where
  "digitsValue base ds = fold (\<lambda>c n. n * base + digitValue c) ds 0"

text \<open>
  \<open>strconv.ParseInt(s, 0, 64)\<close> on a string of digits: a leading \<open>0\<close> makes the rest octal;
  a digit outside the base or a value from \<open>2 ^ 63\<close> on is an error.
\<close>

definition ParseInt :: "string \<Rightarrow> int64 option" where
  "ParseInt s =
     (let base = (if hd s = CHR ''0'' then 8 else 10);
          ds = (if hd s = CHR ''0'' then tl s else s)
      in if list_ex (\<lambda>c. base \<le> digitValue c) ds then None
         else if digitsValue base ds < 2 ^ 63 then Some (word_of_nat (digitsValue base ds))
         else None)"

text \<open>
  \<open>strconv.ParseFloat(s, 64)\<close> on digits with one point among them: the nearest float, an
  error when that is infinite.
\<close>

definition ParseFloat :: "string \<Rightarrow> float64 option" where
  "ParseFloat s =
     (let whole = takeWhile (\<lambda>c. c \<noteq> CHR ''.'') s;
          fraction = drop (Suc (length whole)) s;
          f = f_round False (digitsValue 10 (whole @ fraction)) (10 ^ length fraction)
      in if f_isInf f then None else Some f)"

text \<open>
  \<open>parseNumberLiteral\<close> asks whether the literal contains a point (the source names the
  function \<open>strconv.ContainsAny\<close>; \<open>ContainsAny\<close> is a function of package \<open>strings\<close>), and
  then parses a float or an integer. \<open>quoted\<close> is the format \<open>%q\<close> of a literal, which holds
  digits and points only.
\<close>

definition quoted :: "string \<Rightarrow> string" where
  "quoted s = [CHR 0x22] @ s @ [CHR 0x22]"

definition parseNumberLiteral :: "parser \<Rightarrow> node parse" where
  "parseNumberLiteral p =
     (let lit = Literal (curToken p) in
      if CHR ''.'' \<in> set lit then
        (case ParseFloat lit of
           None \<Rightarrow>
             Inr (NilNode, appendError (lineaColumna (curToken p) @ ''no se pudo analizar '' @ quoted lit
                    @ '' como n'' @ [CHR 0xC3, CHR 0xBA] @ ''mero decimal'') p)
         | Some v \<Rightarrow> Inr (FloatLiteral v, p))
      else
        (case ParseInt lit of
           None \<Rightarrow>
             Inr (NilNode, appendError (lineaColumna (curToken p) @ ''no se pudo analizar '' @ quoted lit
                    @ '' como entero'') p)
         | Some v \<Rightarrow> Inr (IntegerLiteral v, p)))"

definition parseStringLiteral :: "parser \<Rightarrow> node parse" where
  "parseStringLiteral p = Inr (StringLiteral (Literal (curToken p)), p)"

definition parseBooleanLiteral :: "parser \<Rightarrow> node parse" where
  "parseBooleanLiteral p = Inr (BooleanLiteral (curTokenIs ''TRUE'' p), p)"

definition parseNullLiteral :: "parser \<Rightarrow> node parse" where
  "parseNullLiteral p = Inr (NullLiteral, p)"

subsection \<open>Expressions\<close>

definition parsePrefixExpression :: "parsefn \<Rightarrow> parser \<Rightarrow> node parse" where
  "parsePrefixExpression pe p =
     (let operator = Literal (curToken p) in
      thenParse (pe PREFIX (nextToken p)) (\<lambda>right p. Inr (PrefixExpression operator right, p)))"

definition parseInfixExpression :: "parsefn \<Rightarrow> node \<Rightarrow> parser \<Rightarrow> node parse" where
  "parseInfixExpression pe left p =
     (let operator = Literal (curToken p); precedence = curPrecedence p in
      thenParse (pe precedence (nextToken p)) (\<lambda>right p. Inr (InfixExpression left operator right, p)))"

definition parseGroupedExpression :: "parsefn \<Rightarrow> parser \<Rightarrow> node parse" where
  "parseGroupedExpression pe p =
     thenParse (pe LOWEST (nextToken p)) (\<lambda>exp p.
       case expectPeek '')'' p of
         (False, p) \<Rightarrow> Inr (NilNode, p)
       | (True, p) \<Rightarrow> Inr (exp, p))"

definition parseIfExpression :: "parsefn \<Rightarrow> nat \<Rightarrow> parser \<Rightarrow> node parse" where
  "parseIfExpression pe k p =
     (case expectPeek ''('' p of
        (False, p) \<Rightarrow> Inr (NilNode, p)
      | (True, p) \<Rightarrow>
          thenParse (pe LOWEST (nextToken p)) (\<lambda>condition p.
            case expectPeek '')'' p of
              (False, p) \<Rightarrow> Inr (NilNode, p)
            | (True, p) \<Rightarrow>
                (case expectPeek ''{'' p of
                   (False, p) \<Rightarrow> Inr (NilNode, p)
                 | (True, p) \<Rightarrow>
                     thenParse (parseBlockStatement pe k p) (\<lambda>consequence p.
                       if peekTokenIs ''ELSE'' p then
                         (case expectPeek ''{'' (nextToken p) of
                            (False, p) \<Rightarrow> Inr (NilNode, p)
                          | (True, p) \<Rightarrow>
                              thenParse (parseBlockStatement pe k p) (\<lambda>alternative p.
                                Inr (IfExpression condition consequence (Some alternative), p)))
                       else Inr (IfExpression condition consequence None, p)))))"

fun parameterLoop :: "nat \<Rightarrow> string list \<Rightarrow> parser \<Rightarrow> (string list) parse" where
  "parameterLoop 0 identifiers p = Inl OutOfFuel"
| "parameterLoop (Suc k) identifiers p =
     (if peekTokenIs '','' p then
        (let p = nextToken (nextToken p)
         in parameterLoop k (identifiers @ [Literal (curToken p)]) p)
      else Inr (identifiers, p))"

definition parseFunctionParameters :: "nat \<Rightarrow> parser \<Rightarrow> (string list) parse" where
  "parseFunctionParameters k p =
     (if peekTokenIs '')'' p then Inr ([], nextToken p)
      else
        (let p = nextToken p in
         thenParse (parameterLoop k [Literal (curToken p)] p) (\<lambda>identifiers p.
           case expectPeek '')'' p of
             (False, p) \<Rightarrow> Inr ([], p)
           | (True, p) \<Rightarrow> Inr (identifiers, p))))"

definition parseFunctionLiteral :: "parsefn \<Rightarrow> nat \<Rightarrow> parser \<Rightarrow> node parse" where
  "parseFunctionLiteral pe k p =
     (let named = peekTokenIs ''IDENT'' p;
          p = (if named then nextToken p else p);
          name = (if named then Literal (curToken p) else [])
      in case expectPeek ''('' p of
           (False, p) \<Rightarrow> Inr (NilNode, p)
         | (True, p) \<Rightarrow>
             thenParse (parseFunctionParameters k p) (\<lambda>parameters p.
               case expectPeek ''{'' p of
                 (False, p) \<Rightarrow> Inr (NilNode, p)
               | (True, p) \<Rightarrow>
                   thenParse (parseBlockStatement pe k p) (\<lambda>body p.
                     Inr (FunctionLiteral parameters body name, p))))"

fun expressionLoop :: "parsefn \<Rightarrow> nat \<Rightarrow> node list \<Rightarrow> parser \<Rightarrow> (node list) parse" where
  "expressionLoop pe 0 list p = Inl OutOfFuel"
| "expressionLoop pe (Suc k) list p =
     (if peekTokenIs '','' p then
        thenParse (pe LOWEST (nextToken (nextToken p))) (\<lambda>e p. expressionLoop pe k (list @ [e]) p)
      else Inr (list, p))"

definition parseExpressionList :: "parsefn \<Rightarrow> nat \<Rightarrow> string \<Rightarrow> parser \<Rightarrow> (node list) parse" where
  "parseExpressionList pe k end p =
     (if peekTokenIs end p then Inr ([], nextToken p)
      else
        thenParse (pe LOWEST (nextToken p)) (\<lambda>e p.
          thenParse (expressionLoop pe k [e] p) (\<lambda>list p.
            case expectPeek end p of
              (False, p) \<Rightarrow> Inr ([], p)
            | (True, p) \<Rightarrow> Inr (list, p))))"

definition parseCallExpression :: "parsefn \<Rightarrow> nat \<Rightarrow> node \<Rightarrow> parser \<Rightarrow> node parse" where
  "parseCallExpression pe k fn p =
     thenParse (parseExpressionList pe k '')'' p) (\<lambda>arguments p.
       Inr (CallExpression fn arguments, p))"

definition parseArrayLiteral :: "parsefn \<Rightarrow> nat \<Rightarrow> parser \<Rightarrow> node parse" where
  "parseArrayLiteral pe k p =
     thenParse (parseExpressionList pe k '']'' p) (\<lambda>elements p. Inr (ArrayLiteral elements, p))"

definition parseIndexExpression :: "parsefn \<Rightarrow> node \<Rightarrow> parser \<Rightarrow> node parse" where
  "parseIndexExpression pe left p =
     thenParse (pe LOWEST (nextToken p)) (\<lambda>index p.
       case expectPeek '']'' p of
         (False, p) \<Rightarrow> Inr (NilNode, p)
       | (True, p) \<Rightarrow> Inr (IndexExpression left index, p))"

text \<open>
  \<open>hash.Pairs\<close> is a Go map from \<open>Expression\<close> to \<open>Expression\<close>: its keys are compared as
  pointers, so every key that was parsed is a key of its own, and the nil key is one key.
  The list has the pairs in the order of the source text.
\<close>

definition setPair :: "node \<Rightarrow> node \<Rightarrow> (node \<times> node) list \<Rightarrow> (node \<times> node) list" where
  "setPair key val pairs =
     (if key = NilNode then filter (\<lambda>(k, v). k \<noteq> NilNode) pairs @ [(key, val)]
      else pairs @ [(key, val)])"

definition parsePair :: "parsefn \<Rightarrow> (node \<times> node) list \<Rightarrow> parser \<Rightarrow> ((node \<times> node) list) option parse" where
  "parsePair pe pairs p =
     thenParse (pe LOWEST p) (\<lambda>key p.
       case expectPeek '':'' p of
         (False, p) \<Rightarrow> Inr (None, p)
       | (True, p) \<Rightarrow>
           thenParse (pe LOWEST (nextToken p)) (\<lambda>val p. Inr (Some (setPair key val pairs), p)))"

fun pairLoop :: "parsefn \<Rightarrow> nat \<Rightarrow> (node \<times> node) list \<Rightarrow> parser \<Rightarrow> ((node \<times> node) list) option parse" where
  "pairLoop pe 0 pairs p = Inl OutOfFuel"
| "pairLoop pe (Suc k) pairs p =
     (if peekTokenIs '','' p then
        thenParse (parsePair pe pairs (nextToken (nextToken p))) (\<lambda>r p.
          case r of
            None \<Rightarrow> Inr (None, p)
          | Some pairs \<Rightarrow> pairLoop pe k pairs p)
      else Inr (Some pairs, p))"

definition parseHashLiteral :: "parsefn \<Rightarrow> nat \<Rightarrow> parser \<Rightarrow> node parse" where
  "parseHashLiteral pe k p =
     (if peekTokenIs ''}'' p then Inr (HashLiteral [], nextToken p)
      else
        thenParse (parsePair pe [] (nextToken p)) (\<lambda>r p.
          case r of
            None \<Rightarrow> Inr (NilNode, p)
          | Some pairs \<Rightarrow>
              thenParse (pairLoop pe k pairs p) (\<lambda>r p.
                case r of
                  None \<Rightarrow> Inr (NilNode, p)
                | Some pairs \<Rightarrow>
                    (case expectPeek ''}'' p of
                       (False, p) \<Rightarrow> Inr (NilNode, p)
                     | (True, p) \<Rightarrow> Inr (HashLiteral pairs, p)))))"

definition parseDotExpression :: "node \<Rightarrow> parser \<Rightarrow> node parse" where
  "parseDotExpression object p =
     (case expectPeek ''IDENT'' p of
        (False, p) \<Rightarrow> Inr (NilNode, p)
      | (True, p) \<Rightarrow> Inr (DotExpression object (Literal (curToken p)), p))"

definition parseWhileExpression :: "parsefn \<Rightarrow> nat \<Rightarrow> parser \<Rightarrow> node parse" where
  "parseWhileExpression pe k p =
     (case expectPeek ''('' p of
        (False, p) \<Rightarrow> Inr (NilNode, p)
      | (True, p) \<Rightarrow>
          thenParse (pe LOWEST (nextToken p)) (\<lambda>condition p.
            case expectPeek '')'' p of
              (False, p) \<Rightarrow> Inr (NilNode, p)
            | (True, p) \<Rightarrow>
                (case expectPeek ''{'' p of
                   (False, p) \<Rightarrow> Inr (NilNode, p)
                 | (True, p) \<Rightarrow>
                     thenParse (parseBlockStatement pe k p) (\<lambda>body p.
                       Inr (WhileExpression condition body, p)))))"

text \<open>
  The three parts of the head of a \<open>para\<close> loop. \<open>semicolonThen\<close> is the step between two
  parts: unless the current token is a semicolon, the next one has to be.
\<close>

definition semicolonThen :: "parser \<Rightarrow> (parser \<Rightarrow> node parse) \<Rightarrow> node parse" where
  "semicolonThen p k =
     (if \<not> curTokenIs '';'' p then
        (case expectPeek '';'' p of
           (False, p) \<Rightarrow> Inr (NilNode, p)
         | (True, p) \<Rightarrow> k (nextToken p))
      else k (nextToken p))"

definition parseForExpression :: "parsefn \<Rightarrow> nat \<Rightarrow> parser \<Rightarrow> node parse" where
  "parseForExpression pe k p =
     (case expectPeek ''('' p of
        (False, p) \<Rightarrow> Inr (NilNode, p)
      | (True, p) \<Rightarrow>
          thenParse (let p = nextToken p in
                     if \<not> curTokenIs '';'' p then parseStatement pe p else Inr (NilNode, p)) (\<lambda>init p.
            semicolonThen p (\<lambda>p.
              thenParse (if \<not> curTokenIs '';'' p then pe LOWEST p else Inr (NilNode, p)) (\<lambda>condition p.
                semicolonThen p (\<lambda>p.
                  thenParse (if \<not> curTokenIs '')'' p then parseStatement pe p else Inr (NilNode, p))
                    (\<lambda>update p.
                      case expectPeek '')'' p of
                        (False, p) \<Rightarrow> Inr (NilNode, p)
                      | (True, p) \<Rightarrow>
                          (case expectPeek ''{'' p of
                             (False, p) \<Rightarrow> Inr (NilNode, p)
                           | (True, p) \<Rightarrow>
                               thenParse (parseBlockStatement pe k p) (\<lambda>body p.
                                 Inr (ForExpression init condition update body, p)))))))))"

text \<open>
  The names after \<open>implementa\<close>; \<open>None\<close> when an identifier is missing.
\<close>

fun interfaceLoop :: "nat \<Rightarrow> string list \<Rightarrow> parser \<Rightarrow> (string list) option parse" where
  "interfaceLoop 0 interfaces p = Inl OutOfFuel"
| "interfaceLoop (Suc k) interfaces p =
     (if peekTokenIs '','' p then
        (case expectPeek ''IDENT'' (nextToken p) of
           (False, p) \<Rightarrow> Inr (None, p)
         | (True, p) \<Rightarrow> interfaceLoop k (interfaces @ [Literal (curToken p)]) p)
      else Inr (Some interfaces, p))"

text \<open>
  The body of a class. After a method the current token is the \<open>}\<close> that ends the method's
  body, and after a property that could not be parsed it is still \<open>guarda\<close>: the loop does
  not move on by itself in these two branches. The type assertion panics when
  \<open>parseFunctionLiteral\<close> returned nil.
\<close>

fun classBodyLoop :: "parsefn \<Rightarrow> nat \<Rightarrow> nat \<Rightarrow> (string \<times> node) option list
    \<Rightarrow> (string list \<times> node list \<times> string) list \<Rightarrow> parser
    \<Rightarrow> ((string \<times> node) option list \<times> (string list \<times> node list \<times> string) list) parse" where
  "classBodyLoop pe k0 0 properties methods p = Inl OutOfFuel"
| "classBodyLoop pe k0 (Suc k) properties methods p =
     (if \<not> curTokenIs ''}'' p \<and> \<not> curTokenIs ''EOF'' p then
        if curTokenIs ''FUNCTION'' p then
          thenParse (parseFunctionLiteral pe k0 p) (\<lambda>m p.
            case m of
              FunctionLiteral parameters body name \<Rightarrow>
                classBodyLoop pe k0 k properties (methods @ [(parameters, body, name)]) p
            | _ \<Rightarrow> Inl typeAssertion)
        else if curTokenIs ''VAR'' p then
          thenParse (parseLetStatement pe p) (\<lambda>property p.
            case property of
              LetStatement name val \<Rightarrow> classBodyLoop pe k0 k (properties @ [Some (name, val)]) methods p
            | _ \<Rightarrow> classBodyLoop pe k0 k (properties @ [None]) methods p)
        else classBodyLoop pe k0 k properties methods (nextToken p)
      else Inr ((properties, methods), p))"

definition parseClassLiteral :: "parsefn \<Rightarrow> nat \<Rightarrow> parser \<Rightarrow> node parse" where
  "parseClassLiteral pe k p =
     (case expectPeek ''IDENT'' p of
        (False, p) \<Rightarrow> Inr (NilNode, p)
      | (True, p) \<Rightarrow>
          let name = Literal (curToken p);
              body = (\<lambda>parent interfaces p.
                case expectPeek ''{'' p of
                  (False, p) \<Rightarrow> Inr (NilNode, p)
                | (True, p) \<Rightarrow>
                    thenParse (classBodyLoop pe k k [] [] (nextToken p)) (\<lambda>(properties, methods) p.
                      Inr (ClassLiteral name parent interfaces properties methods, p)));
              implements = (\<lambda>parent p.
                if peekTokenIs ''IMPLEMENTS'' p then
                  (case expectPeek ''IDENT'' (nextToken p) of
                     (False, p) \<Rightarrow> Inr (NilNode, p)
                   | (True, p) \<Rightarrow>
                       thenParse (interfaceLoop k [Literal (curToken p)] p) (\<lambda>r p.
                         case r of
                           None \<Rightarrow> Inr (NilNode, p)
                         | Some interfaces \<Rightarrow> body parent interfaces p))
                else body parent [] p)
          in if peekTokenIs ''EXTENDS'' p then
               (case expectPeek ''IDENT'' (nextToken p) of
                  (False, p) \<Rightarrow> Inr (NilNode, p)
                | (True, p) \<Rightarrow> implements (Some (Literal (curToken p))) p)
             else implements None p)"

definition parseNewExpression :: "parsefn \<Rightarrow> nat \<Rightarrow> parser \<Rightarrow> node parse" where
  "parseNewExpression pe k p =
     thenParse (pe LOWEST (nextToken p)) (\<lambda>cls p.
       if peekTokenIs ''('' p then
         thenParse (parseExpressionList pe k '')'' (nextToken p)) (\<lambda>arguments p.
           Inr (NewExpression cls arguments, p))
       else Inr (NewExpression cls [], p))"

subsection \<open>The tables of parse functions\<close>

text \<open>
  \<open>prefixParseFns\<close> and \<open>infixParseFns\<close> are the two maps filled by \<open>New\<close>. No function is
  registered for \<open>DECLARE\<close> (\<open>:=\<close>) or for \<open>ASSIGN\<close> (\<open>=\<close>) in either of them.
\<close>

definition prefixParseFns :: "parsefn \<Rightarrow> nat \<Rightarrow> string \<Rightarrow> (parser \<Rightarrow> node parse) option" where
  "prefixParseFns pe k t =
     (if t = ''IDENT'' then Some parseIdentifier
      else if t = ''NUM'' then Some parseNumberLiteral
      else if t = ''STRING'' then Some parseStringLiteral
      else if t = ''TRUE'' \<or> t = ''FALSE'' then Some parseBooleanLiteral
      else if t = ''NULL'' then Some parseNullLiteral
      else if t = ''!'' \<or> t = ''-'' then Some (parsePrefixExpression pe)
      else if t = ''('' then Some (parseGroupedExpression pe)
      else if t = ''IF'' then Some (parseIfExpression pe k)
      else if t = ''FUNCTION'' then Some (parseFunctionLiteral pe k)
      else if t = ''['' then Some (parseArrayLiteral pe k)
      else if t = ''{'' then Some (parseHashLiteral pe k)
      else if t = ''WHILE'' then Some (parseWhileExpression pe k)
      else if t = ''FOR'' then Some (parseForExpression pe k)
      else if t = ''CLASS'' then Some (parseClassLiteral pe k)
      else if t = ''NEW'' then Some (parseNewExpression pe k)
      else None)"

definition infixParseFns :: "parsefn \<Rightarrow> nat \<Rightarrow> string \<Rightarrow> (node \<Rightarrow> parser \<Rightarrow> node parse) option" where
  "infixParseFns pe k t =
     (if t \<in> set [''+'', ''-'', ''/'', ''*'', ''%'', ''^'', ''=='', ''!='', ''<'', ''>'', ''AND'', ''OR'']
      then Some (parseInfixExpression pe)
      else if t = ''('' then Some (parseCallExpression pe k)
      else if t = ''['' then Some (parseIndexExpression pe)
      else if t = ''.'' then Some parseDotExpression
      else None)"

fun infixLoop :: "(string \<Rightarrow> (node \<Rightarrow> parser \<Rightarrow> node parse) option) \<Rightarrow> nat \<Rightarrow> nat \<Rightarrow> node \<Rightarrow> parser
    \<Rightarrow> node parse" where
  "infixLoop infixFns 0 precedence leftExp p = Inl OutOfFuel"
| "infixLoop infixFns (Suc k) precedence leftExp p =
     (if \<not> peekTokenIs '';'' p \<and> precedence < peekPrecedence p then
        (case infixFns (TokenType (peekToken p)) of
           None \<Rightarrow> Inr (leftExp, p)
         | Some infixFn \<Rightarrow>
             thenParse (infixFn leftExp (nextToken p)) (\<lambda>leftExp p.
               infixLoop infixFns k precedence leftExp p))
      else Inr (leftExp, p))"

primrec parseExpression :: "nat \<Rightarrow> nat \<Rightarrow> parser \<Rightarrow> node parse" where
  "parseExpression 0 precedence p = Inl OutOfFuel"
| "parseExpression (Suc n) precedence p =
     (case prefixParseFns (parseExpression n) n (TokenType (curToken p)) of
        None \<Rightarrow> Inr (NilNode, noPrefixParseFnError (TokenType (curToken p)) p)
      | Some prefixFn \<Rightarrow>
          thenParse (prefixFn p) (\<lambda>leftExp p.
            infixLoop (infixParseFns (parseExpression n) n) n precedence leftExp p))"

definition ParseProgram :: "nat \<Rightarrow> parser \<Rightarrow> node parse" where
  "ParseProgram n p =
     thenParse (statementLoop (parseExpression n) False n [] p) (\<lambda>statements p.
       Inr (Program statements, p))"

text \<open>
  The first steps of \<open>evaluateInput\<close> in the command line program, \<open>lexer.New\<close>,
  \<open>parser.New\<close> and \<open>ParseProgram\<close>: the program and the errors of the parser.
  \<open>evaluateInput\<close> evaluates the program only when there is no error.
\<close>

definition parseInput :: "nat \<Rightarrow> string \<Rightarrow> fault + node \<times> string list" where
  "parseInput n inp =
     (case ParseProgram n (New_parser (New_lexer inp)) of
        Inl f \<Rightarrow> Inl f
      | Inr (program, p) \<Rightarrow> Inr (program, errors p))"

section \<open>Frames\<close>

text \<open>
  What an evaluation may change in the environments. \<open>untouched s s'\<close>: every environment of
  \<open>s\<close> is in \<open>s'\<close> as it was. \<open>frame env s s'\<close>: the same, but for the environment \<open>env\<close>.
  \<open>framing ev\<close>: an evaluation by \<open>ev\<close> in an environment of the state changes no other
  environment of that state. \<open>wfEnvs\<close>: every environment encloses one allocated before it.
\<close>

definition untouched :: "state \<Rightarrow> state \<Rightarrow> bool" where
  "untouched s s' \<longleftrightarrow>
     length (envs s) \<le> length (envs s') \<and> (\<forall>a < length (envs s). envs s' ! a = envs s ! a)"

definition frame :: "nat \<Rightarrow> state \<Rightarrow> state \<Rightarrow> bool" where
  "frame env s s' \<longleftrightarrow>
     length (envs s) \<le> length (envs s')
     \<and> (\<forall>a < length (envs s). a \<noteq> env \<longrightarrow> envs s' ! a = envs s ! a)"

definition framing :: "evalfn \<Rightarrow> bool" where
  "framing ev \<longleftrightarrow>
     (\<forall>node env s v s'. ev node env s = Inr (v, s') \<longrightarrow> env < length (envs s) \<longrightarrow> frame env s s')"

definition wfEnvs :: "state \<Rightarrow> bool" where
  "wfEnvs s \<longleftrightarrow> (\<forall>a < length (envs s). \<forall>b. outer (envs s ! a) = Some b \<longrightarrow> b < a)"

section \<open>Example programs and states\<close>

text \<open>\<open>valueOf\<close> is the object a result holds, without the state.\<close>

definition valueOf :: "result \<Rightarrow> fault + obj" where
  "valueOf r = (case r of Inl f \<Rightarrow> Inl f | Inr (v, s) \<Rightarrow> Inr v)"

text \<open>
  \<open>shadowedMethod\<close>: \<open>clase C { guarda m = 1  fun m() { devolver 2 } }\<close> and then
  \<open>(nuevo C).m\<close>. \<open>shadowedEsto\<close>: \<open>clase C { fun m(esto) { devolver esto } }\<close> and then
  \<open>(nuevo C).m(5)\<close>.
\<close>

definition shadowedMethod :: node where
  "shadowedMethod =
     Program
       [ExpressionStatement
          (ClassLiteral ''C'' None [] [Some (''m'', IntegerLiteral 1)]
             [([], [ReturnStatement (IntegerLiteral 2)], ''m'')]),
        ExpressionStatement (DotExpression (NewExpression (Identifier ''C'') []) ''m'')]"

definition shadowedEsto :: node where
  "shadowedEsto =
     Program
       [ExpressionStatement
          (ClassLiteral ''C'' None [] []
             [([''esto''], [ReturnStatement (Identifier ''esto'')], ''m'')]),
        ExpressionStatement
          (CallExpression (DotExpression (NewExpression (Identifier ''C'') []) ''m'') [IntegerLiteral 5])]"

text \<open>
  \<open>yoState\<close>: the state after \<open>clase C { fun yo() { devolver esto } }\<close> in the root
  environment, with the environments \<open>extra\<close> allocated after it; \<open>yoInstance\<close> is the first
  instance of \<open>C\<close> made in it, and \<open>estoScope out\<close> an environment around \<open>out\<close> that binds
  \<open>esto\<close> to this instance.
\<close>

definition yoClass :: "class" where
  "yoClass = Class 0 ''C'' Map.empty
     [''yo'' \<mapsto> Function 1 [] [ReturnStatement (Identifier ''esto'')] 1 ''yo'']"

definition yoInstance :: obj where
  "yoInstance = Instance 2 yoClass Map.empty 2"

definition yoState :: "environment list \<Rightarrow> nat \<Rightarrow> state" where
  "yoState extra refs =
     \<lparr>envs = [\<lparr>store = [''C'' \<mapsto> ClassObj yoClass], outer = None\<rparr>,
              \<lparr>store = Map.empty, outer = Some 0\<rparr>] @ extra,
      nextRef = refs, printed = []\<rparr>"

definition estoScope :: "nat \<Rightarrow> environment" where
  "estoScope out = \<lparr>store = [''esto'' \<mapsto> yoInstance], outer = Some out\<rparr>"

text \<open>
  The state that \<open>object.NewEnvironment\<close> makes in \<open>main\<close>, before the library is loaded:
  the root environment, at address 0, and nothing else. The names looked up in it below are
  those of the evaluator's own table \<open>builtins\<close>.
\<close>

definition rootState :: state where
  "rootState = \<lparr>envs = [\<lparr>store = Map.empty, outer = None\<rparr>], nextRef = 0, printed = []\<rparr>"

text \<open>
  An example for \<open>nuevo\<close>: the class \<open>clase C { fun crear() { 1 / 0 } }\<close>, whose constructor
  fails, declared in the root environment (the environment at address 1 is the one its
  method has captured).
\<close>

definition failingBody :: "node list" where
  "failingBody = [ExpressionStatement (InfixExpression (IntegerLiteral 1) ''/'' (IntegerLiteral 0))]"

definition failingClass :: "class" where
  "failingClass = Class 0 ''C'' Map.empty [''crear'' \<mapsto> Function 1 [] failingBody 1 ''crear'']"

definition failingState :: state where
  "failingState =
     \<lparr>envs = [\<lparr>store = [''C'' \<mapsto> ClassObj failingClass], outer = None\<rparr>,
              \<lparr>store = Map.empty, outer = Some 0\<rparr>],
      nextRef = 2, printed = []\<rparr>"

text \<open>
  The same with a constructor that panics: \<open>clase C { fun crear() { 5.0 % 0.5 } }\<close>
  (\<open>5.0\<close> is \<open>F64 0x4014000000000000\<close>, \<open>0.5\<close> is \<open>F64 0x3FE0000000000000\<close>).
\<close>

definition panickingBody :: "node list" where
  "panickingBody =
     [ExpressionStatement (InfixExpression (FloatLiteral (F64 0x4014000000000000)) ''%''
        (FloatLiteral (F64 0x3FE0000000000000)))]"

definition panickingClass :: "class" where
  "panickingClass = Class 0 ''C'' Map.empty [''crear'' \<mapsto> Function 1 [] panickingBody 1 ''crear'']"

definition panickingState :: state where
  "panickingState =
     \<lparr>envs = [\<lparr>store = [''C'' \<mapsto> ClassObj panickingClass], outer = None\<rparr>,
              \<lparr>store = Map.empty, outer = Some 0\<rparr>],
      nextRef = 2, printed = []\<rparr>"

text \<open>
  The error that \<open>noPrefixParseFnError\<close> reports for a token of type \<open>t\<close> that an operator
  or a delimiter has made: such a token has line 0 and column 0.
\<close>

definition noHayFuncion :: "string \<Rightarrow> string" where
  "noHayFuncion t =
     ''l'' @ [CHR 0xC3, CHR 0xAD] @ ''nea 0, columna 0: no hay funci'' @ [CHR 0xC3, CHR 0xB3]
       @ ''n de an'' @ [CHR 0xC3, CHR 0xA1] @ ''lisis de prefijo para '' @ t"

section \<open>Properties\<close>


subsection \<open>Integer division\<close>

text \<open>
  Claim C3. For all 64-bit integers \<open>a\<close> and \<open>b\<close>: with \<open>b = 0\<close>, evaluating \<open>a / b\<close> returns
  the Error \<open>divisionPorCero\<close> and \<open>a % b\<close> the Error \<open>moduloPorCero\<close>; with \<open>b \<noteq> 0\<close> both
  return an Integer (the quotient and the remainder of Go's truncating division) and no
  Error. This is stated for \<open>evalInfixExpression\<close> on two Integer objects, and for \<open>Eval\<close> on
  the expression with two integer literals, which returns with any fuel from 2 on and leaves
  the state as it was.
\<close>

theorem C3_integer_division_by_zero:
  "evalInfixExpression ''/'' (Integer a) (Integer b)
     = Inr (if b = 0 then Error divisionPorCero else Integer (int64_quo a b))
   \<and> evalInfixExpression ''%'' (Integer a) (Integer b)
     = Inr (if b = 0 then Error moduloPorCero else Integer (int64_rem a b))
   \<and> Eval (Suc (Suc n)) (InfixExpression (IntegerLiteral a) ''/'' (IntegerLiteral b)) env s
     = Inr (if b = 0 then Error divisionPorCero else Integer (int64_quo a b), s)
   \<and> Eval (Suc (Suc n)) (InfixExpression (IntegerLiteral a) ''%'' (IntegerLiteral b)) env s
     = Inr (if b = 0 then Error moduloPorCero else Integer (int64_rem a b), s)"
  by (simp add: evalInfixExpression_def evalIntegerInfixExpression_def newError_def
      andThen_def withState_def)

subsection \<open>Numeric promotion\<close>

lemma integer_operands:
  assumes "operator \<in> {''+'', ''-'', ''*'', ''/'', ''%'', ''^''}"
  shows "(\<exists>v. evalInfixExpression operator (Integer a) (Integer b) = Inr (Integer v))
         \<or> (b = 0 \<and> operator = ''/''
              \<and> evalInfixExpression operator (Integer a) (Integer b) = Inr (Error divisionPorCero))
         \<or> (b = 0 \<and> operator = ''%''
              \<and> evalInfixExpression operator (Integer a) (Integer b) = Inr (Error moduloPorCero))"
proof -
  have eq: "evalInfixExpression op (Integer a) (Integer b)
      = evalIntegerInfixExpression op (Integer a) (Integer b)" for op
    by (simp add: evalInfixExpression_def)
  from assms consider "operator = ''+''" | "operator = ''-''" | "operator = ''*''"
    | "operator = ''/''" | "operator = ''%''" | "operator = ''^''" by auto
  then show ?thesis
    by cases (simp_all add: eq evalIntegerInfixExpression_def newError_def)
qed

lemma mixed_operands:
  assumes op: "operator \<in> {''+'', ''-'', ''*'', ''/'', ''%'', ''^''}"
    and l: "\<not> isNil l" and r: "\<not> isNil r" and ne: "Type l \<noteq> Type r"
    and nn: "\<not> (Type l \<in> {''ENTERO'', ''DECIMAL''} \<and> Type r \<in> {''ENTERO'', ''DECIMAL''})"
  shows "evalInfixExpression operator l r = Inr (Error (tipoNoValido (Type l) operator (Type r)))"
proof -
  have ops: "operator \<noteq> ''==''" "operator \<noteq> ''!=''" "operator \<noteq> ''y''" "operator \<noteq> ''o''"
    using op by auto
  have c1: "\<not> (Type l = ''ENTERO'' \<and> Type r = ''ENTERO'')"
    and c2: "\<not> (Type l = ''DECIMAL'' \<and> Type r = ''DECIMAL'')"
    and c3: "\<not> (Type l = ''ENTERO'' \<and> Type r = ''DECIMAL'')"
    and c4: "\<not> (Type l = ''DECIMAL'' \<and> Type r = ''ENTERO'')"
    and c5: "\<not> (Type l = ''TEXTO'' \<and> Type r = ''TEXTO'')"
    using ne nn by auto
  show ?thesis
    unfolding evalInfixExpression_def
    by (simp only: l r ops c1 c2 c3 c4 c5 ne if_False if_True simp_thms newError_def)
qed

text \<open>
  Claim C5, as stated: for every infix arithmetic operation, Integer op Integer yields an
  Integer. It fails at \<open>1 / 0\<close>, which yields an Error.
\<close>

theorem C5_integer_pair_counterexample:
  "evalInfixExpression ''/'' (Integer 1) (Integer 0) = Inr (Error divisionPorCero)"
  by (simp add: evalInfixExpression_def evalIntegerInfixExpression_def newError_def)

text \<open>
  Claim C5, amended. For every arithmetic operator (\<open>+ - * / % ^\<close>): Integer op Integer
  yields an Integer, except that \<open>/\<close> and \<open>%\<close> with a zero right operand yield the Error
  \<open>divisionPorCero\<close> and \<open>moduloPorCero\<close>; when one operand is an Integer and the other a
  Float, the Integer is converted to Float and the result is that of the Float operation on
  the two Floats; and two operands (neither nil) of different types, other than the pair
  Integer and Float, yield the Error \<open>tipoNoValido\<close>.
\<close>

theorem C5_numeric_promotion:
  assumes "operator \<in> {''+'', ''-'', ''*'', ''/'', ''%'', ''^''}"
  shows "((\<exists>v. evalInfixExpression operator (Integer a) (Integer b) = Inr (Integer v))
           \<or> (b = 0 \<and> operator = ''/''
                \<and> evalInfixExpression operator (Integer a) (Integer b) = Inr (Error divisionPorCero))
           \<or> (b = 0 \<and> operator = ''%''
                \<and> evalInfixExpression operator (Integer a) (Integer b) = Inr (Error moduloPorCero)))
         \<and> evalInfixExpression operator (Integer a) (Float g)
             = evalFloatInfixExpression operator (Float (float64_of_int64 a)) (Float g)
         \<and> evalInfixExpression operator (Float f) (Integer b)
             = evalFloatInfixExpression operator (Float f) (Float (float64_of_int64 b))
         \<and> (\<not> isNil l \<and> \<not> isNil r \<and> Type l \<noteq> Type r
              \<and> \<not> (Type l \<in> {''ENTERO'', ''DECIMAL''} \<and> Type r \<in> {''ENTERO'', ''DECIMAL''})
             \<longrightarrow> evalInfixExpression operator l r = Inr (Error (tipoNoValido (Type l) operator (Type r))))"
proof (intro conjI impI)
  show "(\<exists>v. evalInfixExpression operator (Integer a) (Integer b) = Inr (Integer v))
           \<or> (b = 0 \<and> operator = ''/''
                \<and> evalInfixExpression operator (Integer a) (Integer b) = Inr (Error divisionPorCero))
           \<or> (b = 0 \<and> operator = ''%''
                \<and> evalInfixExpression operator (Integer a) (Integer b) = Inr (Error moduloPorCero))"
    by (rule integer_operands [OF assms])
  show "evalInfixExpression operator (Integer a) (Float g)
         = evalFloatInfixExpression operator (Float (float64_of_int64 a)) (Float g)"
    by (simp add: evalInfixExpression_def)
  show "evalInfixExpression operator (Float f) (Integer b)
         = evalFloatInfixExpression operator (Float f) (Float (float64_of_int64 b))"
    by (simp add: evalInfixExpression_def)
  assume "\<not> isNil l \<and> \<not> isNil r \<and> Type l \<noteq> Type r
      \<and> \<not> (Type l \<in> {''ENTERO'', ''DECIMAL''} \<and> Type r \<in> {''ENTERO'', ''DECIMAL''})"
  then show "evalInfixExpression operator l r = Inr (Error (tipoNoValido (Type l) operator (Type r)))"
    using mixed_operands [OF assms, of l r] by blast
qed

theorem C5_numeric_promotion_witness:
  "''*'' \<in> {''+'', ''-'', ''*'', ''/'', ''%'', ''^''}
   \<and> evalInfixExpression ''*'' (Integer 3) (Float f_one)
       = evalFloatInfixExpression ''*'' (Float (float64_of_int64 3)) (Float f_one)
   \<and> \<not> isNil (String ''a'') \<and> \<not> isNil (Integer 3) \<and> Type (String ''a'') \<noteq> Type (Integer 3)
   \<and> evalInfixExpression ''*'' (String ''a'') (Integer 3)
       = Inr (Error (tipoNoValido ''TEXTO'' ''*'' ''ENTERO''))"
proof -
  have h: "''*'' \<in> {''+'', ''-'', ''*'', ''/'', ''%'', ''^''}" by simp
  show ?thesis
    using h C5_numeric_promotion [OF h, of 3 0 f_one f_one "String ''a''" "Integer 3"]
    by simp
qed

subsection \<open>Array indexing\<close>

lemma sint_max_index:
  assumes "length (elements :: obj list) < 2 ^ 63"
  shows "sint (word_of_int (int (length elements) - 1) :: int64) = int (length elements) - 1"
proof -
  have gen: "sint (word_of_int k :: int64) = signed_take_bit 63 k" for k
    by (simp add: sint_sbintrunc')
  have "- (2 ^ 63) \<le> int (length elements) - 1" by simp
  moreover have "int (length elements) - 1 < 2 ^ 63" using assms by simp
  ultimately have "signed_take_bit 63 (int (length elements) - 1) = int (length elements) - 1"
    by (simp add: signed_take_bit_int_eq_self)
  with gen [of "int (length elements) - 1"] show ?thesis by (simp only:)
qed

lemma evalArrayIndexExpression_eq:
  assumes "length elements < 2 ^ 63"
  shows "evalArrayIndexExpression (Array r elements) (Integer i)
     = Inr (if 0 \<le> sint i \<and> sint i < int (length elements) then elements ! nat (sint i) else NULL)"
proof -
  have "evalArrayIndexExpression (Array r elements) (Integer i)
      = (if sint i < 0 \<or> sint (word_of_int (int (length elements) - 1) :: int64) < sint i then Inr NULL
         else Inr (elements ! nat (sint i)))"
    by (simp only: evalArrayIndexExpression_def Let_def word_sless_alt prod.case obj.case sint_0)
  then show ?thesis
    unfolding sint_max_index [OF assms] by auto
qed

text \<open>
  Claim C6. For every Array \<open>a\<close> and Integer index \<open>i\<close>, evaluating \<open>a[i]\<close> returns the
  element at position \<open>i\<close> when \<open>0 \<le> i < length a\<close>, and \<open>NULL\<close>, which is no Error, when
  \<open>i < 0\<close> or \<open>i \<ge> length a\<close>; and \<open>[1,2,3][5]\<close> evaluates to \<open>NULL\<close> (with any fuel from 3
  on; the array literal takes one allocation number). The length of a Go slice is below
  \<open>2 ^ 63\<close>, which is the hypothesis.
\<close>

theorem C6_array_index_out_of_range:
  assumes "length elements < 2 ^ 63"
  shows "evalIndexExpression (Array r elements) (Integer i)
     = Inr (if 0 \<le> sint i \<and> sint i < int (length elements) then elements ! nat (sint i) else NULL)
   \<and> \<not> isError NULL
   \<and> Eval (Suc (Suc (Suc n)))
        (IndexExpression (ArrayLiteral [IntegerLiteral 1, IntegerLiteral 2, IntegerLiteral 3]) (IntegerLiteral 5)) env s
     = Inr (NULL, s\<lparr>nextRef := Suc (nextRef s)\<rparr>)"
proof (intro conjI)
  show "evalIndexExpression (Array r elements) (Integer i)
     = Inr (if 0 \<le> sint i \<and> sint i < int (length elements) then elements ! nat (sint i) else NULL)"
    using evalArrayIndexExpression_eq [OF assms] by (simp add: evalIndexExpression_def)
  show "\<not> isError NULL" by simp
  show "Eval (Suc (Suc (Suc n)))
        (IndexExpression (ArrayLiteral [IntegerLiteral 1, IntegerLiteral 2, IntegerLiteral 3]) (IntegerLiteral 5)) env s
     = Inr (NULL, s\<lparr>nextRef := Suc (nextRef s)\<rparr>)"
    by (simp add: andThen_def andThenList_def withState_def newRef_def evalIndexExpression_def
        evalArrayIndexExpression_def word_sless_alt)
qed

theorem C6_array_index_witness:
  "length [Integer 10, Integer 20, Integer 30] < 2 ^ 63
   \<and> evalIndexExpression (Array 0 [Integer 10, Integer 20, Integer 30]) (Integer 1) = Inr (Integer 20)
   \<and> evalIndexExpression (Array 0 [Integer 10, Integer 20, Integer 30]) (Integer 3) = Inr NULL
   \<and> evalIndexExpression (Array 0 [Integer 10, Integer 20, Integer 30]) (Integer (- 1)) = Inr NULL"
proof -
  have h: "length [Integer 10, Integer 20, Integer 30] < 2 ^ 63" by simp
  show ?thesis
    using h C6_array_index_out_of_range [OF h, of 0 1] C6_array_index_out_of_range [OF h, of 0 3]
      C6_array_index_out_of_range [OF h, of 0 "- 1"]
    by simp
qed

subsection \<open>Float modulo\<close>

lemma float_modulo:
  "evalInfixExpression ''%'' (Float l) (Float r) =
     (if f_eq r (f_zero False) then Inr (Error moduloPorCero)
      else if int64_of_float64 r = 0 then Inl (Panic ''integer divide by zero'')
      else Inr (Float (float64_of_int64 (int64_rem (int64_of_float64 l) (int64_of_float64 r)))))"
  by (simp add: evalInfixExpression_def evalFloatInfixExpression_def newError_def)

text \<open>
  Claim C7 says that \<open>l % r\<close> on Floats returns the Error \<open>moduloPorCero\<close> when \<open>r\<close> equals 0 and
  otherwise returns the Float of \<open>int64(l) % int64(r)\<close>. The source checks \<open>rightVal == 0\<close> on
  the float and then divides by \<open>int64(rightVal)\<close>, which is 0 for every \<open>r\<close> strictly between
  \<open>-1\<close> and \<open>1\<close>: there the integer division panics and nothing is returned. At \<open>5.0 % 0.5\<close>
  (\<open>5.0\<close> is \<open>F64 0x4014000000000000\<close>, \<open>0.5\<close> is \<open>F64 0x3FE0000000000000\<close>):
\<close>

theorem C7_float_modulo_panics:
  "float64_of_int64 5 = F64 0x4014000000000000
   \<and> \<not> f_eq (F64 0x3FE0000000000000) (f_zero False)
   \<and> int64_of_float64 (F64 0x3FE0000000000000) = 0
   \<and> evalInfixExpression ''%'' (Float (F64 0x4014000000000000)) (Float (F64 0x3FE0000000000000))
       = Inl (Panic ''integer divide by zero'')
   \<and> Eval (Suc (Suc n))
        (InfixExpression (FloatLiteral (F64 0x4014000000000000)) ''%'' (FloatLiteral (F64 0x3FE0000000000000))) env s
       = Inl (Panic ''integer divide by zero'')"
  by (simp add: evalInfixExpression_def evalFloatInfixExpression_def andThen_def withState_def
    float64_of_int64_def f_round_def bitlen.simps Let_def f_zero_def f_inf_def
    int64_of_float64_def f_isNaN_def f_isInf_def f_exp_def f_frac_def f_expo_def f_mant_def f_sign_def
    f_eq_def f_key_def)

subsection \<open>Truthiness and negation\<close>

lemma isTruthy_falsy:
  "isTruthy v =
     (if isNil v then Inl nilDeref
      else Inr (\<not> (v = NULL \<or> v = FALSE \<or> v = Integer 0
                    \<or> (\<exists>f. v = Float f \<and> f_eq f (f_zero False)) \<or> v = String [])))"
  by (cases v rule: isTruthy.cases) auto

text \<open>
  Claim C8 says that a value is falsy exactly when it is nulo, the boolean falso, Integer 0,
  Float 0 or the empty string. \<open>isTruthy\<close> compares the pointer with the evaluator's own
  \<open>FALSE\<close> (lemma \<open>isTruthy_falsy\<close>): the \<open>FALSE\<close> of \<open>package stdlib\<close>, which \<open>contiene\<close> returns,
  is another \<open>Boolean\<close> object, whose value is false, and it is truthy. With \<open>contiene\<close> bound in
  the environment as \<open>LoadStdlib\<close> binds it, \<open>si (contiene("abc", "z")) { 1 } sino { 2 }\<close>
  evaluates to 1.
\<close>

theorem C8_library_false_is_truthy:
  "isTruthy (Boolean Stdlib False) = Inr True
   \<and> stdlib_contiene [String ''abc'', String ''z''] s = Inr (Boolean Stdlib False, s)
   \<and> Eval (Suc (Suc (Suc (Suc n))))
        (IfExpression (CallExpression (Identifier ''contiene'') [StringLiteral ''abc'', StringLiteral ''z''])
           [ExpressionStatement (IntegerLiteral 1)] (Some [ExpressionStatement (IntegerLiteral 2)]))
        0 \<lparr>envs = [\<lparr>store = [''contiene'' \<mapsto> Builtin Stdlib ''contiene''], outer = None\<rparr>],
            nextRef = 0, printed = []\<rparr>
      = Inr (Integer 1, \<lparr>envs = [\<lparr>store = [''contiene'' \<mapsto> Builtin Stdlib ''contiene''], outer = None\<rparr>],
            nextRef = 0, printed = []\<rparr>)"
  by (simp add: stdlib_contiene_def evalIfExpression_def andThen_def andThenList_def
      evalIdentifier_def Get_def applyFunction_def callBuiltin_def)

text \<open>
  Claim C10. The prefix operator \<open>!\<close> yields \<open>TRUE\<close> only when its operand is \<open>FALSE\<close> or \<open>NULL\<close>,
  and \<open>FALSE\<close> for every other value; \<open>!0\<close>, \<open>!0.0\<close> and \<open>!""\<close> evaluate to \<open>FALSE\<close> although
  these operands are falsy as conditions, so \<open>!v\<close> is not the negation of the truthiness of \<open>v\<close>.
\<close>

theorem C10_bang_is_not_negated_truthiness:
  "evalBangOperatorExpression v = (if v = FALSE \<or> v = NULL then TRUE else FALSE)
   \<and> evalPrefixExpression ''!'' v = Inr (evalBangOperatorExpression v)
   \<and> Eval (Suc (Suc n)) (PrefixExpression ''!'' (IntegerLiteral 0)) env s = Inr (FALSE, s)
   \<and> isTruthy (Integer 0) = Inr False
   \<and> Eval (Suc (Suc n)) (PrefixExpression ''!'' (FloatLiteral (f_zero False))) env s = Inr (FALSE, s)
   \<and> isTruthy (Float (f_zero False)) = Inr False
   \<and> Eval (Suc (Suc n)) (PrefixExpression ''!'' (StringLiteral [])) env s = Inr (FALSE, s)
   \<and> isTruthy (String []) = Inr False"
proof -
  have "evalBangOperatorExpression v = (if v = FALSE \<or> v = NULL then TRUE else FALSE)"
    by (cases v rule: evalBangOperatorExpression.cases) auto
  moreover have "f_eq (f_zero False) (f_zero False)"
    by (simp add: f_eq_def f_isNaN_def f_exp_def f_frac_def f_zero_def)
  ultimately show ?thesis
    by (simp add: evalPrefixExpression_def andThen_def withState_def)
qed


subsection \<open>The logical operators\<close>

lemma Eval_InfixExpression:
  "Eval (Suc n) (InfixExpression leftNode operator rightNode) env s =
     andThen (Eval n leftNode env s) (\<lambda>left s.
       if isError left then Inr (left, s)
       else andThen (Eval n rightNode env s) (\<lambda>right s.
         if isError right then Inr (right, s)
         else withState (evalInfixExpression operator left right) s))"
  by simp

lemma logical_operands:
  assumes "\<not> isNil left" and "\<not> isNil right"
    and "\<not> (Type left \<in> {''ENTERO'', ''DECIMAL''} \<and> Type right \<in> {''ENTERO'', ''DECIMAL''})"
    and "\<not> (Type left = ''TEXTO'' \<and> Type right = ''TEXTO'')"
  shows "evalInfixExpression ''y'' left right = evalLogicalAndOperator left right"
    and "evalInfixExpression ''o'' left right = evalLogicalOrOperator left right"
  using assms by (auto simp add: evalInfixExpression_def)

text \<open>
  Claim C1, as stated: \<open>verdad o X\<close> yields verdad without evaluating \<open>X\<close>. \<open>Eval\<close> evaluates
  both operands of every infix expression before it looks at the operator: in the root state,
  \<open>verdad o (1 / 0)\<close> yields the Error of the division, and \<open>verdad o mostrar(7)\<close> prints 7.
\<close>

theorem C1_short_circuit_counterexample:
  "Eval (Suc (Suc (Suc 0)))
     (InfixExpression (BooleanLiteral True) ''o'' (InfixExpression (IntegerLiteral 1) ''/'' (IntegerLiteral 0)))
     0 rootState
   = Inr (Error divisionPorCero, rootState)
   \<and> Eval (Suc (Suc (Suc 0)))
     (InfixExpression (BooleanLiteral True) ''o'' (CallExpression (Identifier ''mostrar'') [IntegerLiteral 7]))
     0 rootState
   = Inr (TRUE, rootState\<lparr>printed := [Integer 7]\<rparr>)"
  by (simp add: rootState_def andThen_def andThenList_def withState_def evalInfixExpression_def
      evalIntegerInfixExpression_def newError_def nativeBoolToBooleanObject_def evalIdentifier_def Get_def
      applyFunction_def callBuiltin_def evalLogicalOrOperator_def)

lemma Type_number: "Type v \<in> {''ENTERO'', ''DECIMAL''} \<longleftrightarrow> (\<exists>a. v = Integer a) \<or> (\<exists>a. v = Float a)"
  by (cases v) auto

lemma Type_string: "Type v = ''TEXTO'' \<longleftrightarrow> (\<exists>a. v = String a)"
  by (cases v) auto

lemma number_operands:
  assumes op: "operator = ''y'' \<or> operator = ''o''"
    and l: "Type left \<in> {''ENTERO'', ''DECIMAL''}" and r: "Type right \<in> {''ENTERO'', ''DECIMAL''}"
  shows "evalInfixExpression operator left right =
           Inr (Error (if Type left = ''ENTERO'' \<and> Type right = ''ENTERO''
                       then operadorDesconocido ''ENTERO'' operator ''ENTERO''
                       else operadorDesconocido ''DECIMAL'' operator ''DECIMAL''))"
proof -
  from l consider a where "left = Integer a" | a where "left = Float a"
    unfolding Type_number by blast
  then show ?thesis
  proof cases
    case 1
    from r consider b where "right = Integer b" | b where "right = Float b"
      unfolding Type_number by blast
    then show ?thesis
      using op 1
      by cases (auto simp add: evalInfixExpression_def evalIntegerInfixExpression_def
          evalFloatInfixExpression_def newError_def)
  next
    case 2
    from r consider b where "right = Integer b" | b where "right = Float b"
      unfolding Type_number by blast
    then show ?thesis
      using op 2
      by cases (auto simp add: evalInfixExpression_def evalIntegerInfixExpression_def
          evalFloatInfixExpression_def newError_def)
  qed
qed

lemma string_operands:
  assumes op: "operator = ''y'' \<or> operator = ''o''"
    and l: "Type left = ''TEXTO''" and r: "Type right = ''TEXTO''"
  shows "evalInfixExpression operator left right = Inr (Error (operadorDesconocido ''TEXTO'' operator ''TEXTO''))"
proof -
  from l r obtain a b where "left = String a" "right = String b"
    unfolding Type_string by blast
  with op show ?thesis
    by (auto simp add: evalInfixExpression_def evalStringInfixExpression_def newError_def)
qed

text \<open>
  Claim C1, amended. The operators \<open>y\<close> and \<open>o\<close> do not short-circuit. \<open>Eval\<close> evaluates the
  left operand first. When that yields an Error, the Error is the result and the right operand
  is not evaluated. Otherwise the right operand is evaluated, in the state the left one has
  left and whatever the value of the left one is: \<open>verdad o X\<close> and \<open>falso y X\<close> evaluate \<open>X\<close>.
  When the right operand does not return, neither does the whole; when it yields an Error,
  that Error is the result. Otherwise the result is made from the two values: on two numbers
  and on two strings it is the Error \<open>operadorDesconocido\<close>; on other operands, none of them
  nil, \<open>y\<close> returns the left operand when it is falsy and the right one otherwise, \<open>o\<close> the
  left operand when it is truthy and the right one otherwise: an operand, not a boolean made
  from it.
\<close>

theorem C1_no_short_circuit:
  "(operator = ''y'' \<or> operator = ''o'') \<longrightarrow>
   Eval (Suc n) (InfixExpression leftNode operator rightNode) env s
     = (case Eval n leftNode env s of
          Inl f \<Rightarrow> Inl f
        | Inr (left, s1) \<Rightarrow>
            if isError left then Inr (left, s1)
            else
              (case Eval n rightNode env s1 of
                 Inl f \<Rightarrow> Inl f
               | Inr (right, s2) \<Rightarrow>
                   if isError right then Inr (right, s2)
                   else withState (evalInfixExpression operator left right) s2))
   \<and> (\<not> isNil left \<and> \<not> isNil right \<longrightarrow>
        evalInfixExpression operator left right =
          (if Type left \<in> {''ENTERO'', ''DECIMAL''} \<and> Type right \<in> {''ENTERO'', ''DECIMAL''} then
             Inr (Error (if Type left = ''ENTERO'' \<and> Type right = ''ENTERO''
                         then operadorDesconocido ''ENTERO'' operator ''ENTERO''
                         else operadorDesconocido ''DECIMAL'' operator ''DECIMAL''))
           else if Type left = ''TEXTO'' \<and> Type right = ''TEXTO'' then
             Inr (Error (operadorDesconocido ''TEXTO'' operator ''TEXTO''))
           else if operator = ''y'' then Inr (if isTruthy left = Inr False then left else right)
           else Inr (if isTruthy left = Inr True then left else right)))"
proof (intro impI conjI)
  assume op: "operator = ''y'' \<or> operator = ''o''"
  show "Eval (Suc n) (InfixExpression leftNode operator rightNode) env s
     = (case Eval n leftNode env s of
          Inl f \<Rightarrow> Inl f
        | Inr (left, s1) \<Rightarrow>
            if isError left then Inr (left, s1)
            else
              (case Eval n rightNode env s1 of
                 Inl f \<Rightarrow> Inl f
               | Inr (right, s2) \<Rightarrow>
                   if isError right then Inr (right, s2)
                   else withState (evalInfixExpression operator left right) s2))"
    unfolding Eval_InfixExpression
    by (simp add: andThen_def split: sum.splits prod.splits)
  assume nn: "\<not> isNil left \<and> \<not> isNil right"
  then obtain t where t: "isTruthy left = Inr t"
    by (cases left rule: isTruthy.cases) auto
  show "evalInfixExpression operator left right =
          (if Type left \<in> {''ENTERO'', ''DECIMAL''} \<and> Type right \<in> {''ENTERO'', ''DECIMAL''} then
             Inr (Error (if Type left = ''ENTERO'' \<and> Type right = ''ENTERO''
                         then operadorDesconocido ''ENTERO'' operator ''ENTERO''
                         else operadorDesconocido ''DECIMAL'' operator ''DECIMAL''))
           else if Type left = ''TEXTO'' \<and> Type right = ''TEXTO'' then
             Inr (Error (operadorDesconocido ''TEXTO'' operator ''TEXTO''))
           else if operator = ''y'' then Inr (if isTruthy left = Inr False then left else right)
           else Inr (if isTruthy left = Inr True then left else right))"
  proof (cases "Type left \<in> {''ENTERO'', ''DECIMAL''} \<and> Type right \<in> {''ENTERO'', ''DECIMAL''}")
    case True
    then show ?thesis
      using number_operands [OF op, of left right] by (simp only: if_True) simp
  next
    case numbers: False
    show ?thesis
    proof (cases "Type left = ''TEXTO'' \<and> Type right = ''TEXTO''")
      case True
      with numbers show ?thesis
        using string_operands [OF op, of left right] by (simp only: if_True if_False) simp
    next
      case strings: False
      from op show ?thesis
      proof
        assume y: "operator = ''y''"
        have "evalInfixExpression ''y'' left right = Inr (if isTruthy left = Inr False then left else right)"
          using numbers strings nn logical_operands(1) [of left right]
          by (simp add: evalLogicalAndOperator_def t)
        with numbers strings show ?thesis
          unfolding y by (simp only: if_True if_False refl)
      next
        assume o: "operator = ''o''"
        have ne: "(''o'' = ''y'') = False"
          by simp
        have "evalInfixExpression ''o'' left right = Inr (if isTruthy left = Inr True then left else right)"
          using numbers strings nn logical_operands(2) [of left right]
          by (simp add: evalLogicalOrOperator_def t)
        with numbers strings show ?thesis
          unfolding o by (simp only: if_True if_False ne)
      qed
    qed
  qed
qed


theorem C1_no_short_circuit_witness:
  "(''o'' = ''y'' \<or> ''o'' = ''o'') \<and> \<not> isNil NULL \<and> \<not> isNil (Integer 5)
   \<and> Eval (Suc (Suc (Suc 0)))
     (InfixExpression (BooleanLiteral True) ''o'' (CallExpression (Identifier ''mostrar'') [IntegerLiteral 7]))
     0 rootState
   = Inr (TRUE, rootState\<lparr>printed := [Integer 7]\<rparr>)
   \<and> evalInfixExpression ''o'' NULL (Integer 5) = Inr (Integer 5)"
  using C1_no_short_circuit
    [of "''o''" "Suc (Suc 0)" "BooleanLiteral True" "CallExpression (Identifier ''mostrar'') [IntegerLiteral 7]"
      0 rootState NULL "Integer 5"]
  by (simp add: rootState_def andThen_def andThenList_def withState_def evalIdentifier_def Get_def
      applyFunction_def callBuiltin_def nativeBoolToBooleanObject_def evalInfixExpression_def
      evalLogicalOrOperator_def)

subsection \<open>Construction\<close>

lemma Eval_NewExpression:
  "Eval (Suc n) (NewExpression classNode argNodes) env s = evalNewExpression (Eval n) classNode argNodes env s"
  by simp

text \<open>
  Claim C9, as stated: for a class with a constructor \<open>crear\<close> and arguments that evaluate
  without error, \<open>nuevo\<close> always returns the new instance. In \<open>panickingState\<close> the class \<open>C\<close>
  has the constructor \<open>fun crear() { 5.0 % 0.5 }\<close>, whose body panics (the integer division
  by \<open>int64(0.5)\<close>), and there are no arguments: \<open>nuevo C\<close> panics with it and returns nothing.
\<close>

theorem C9_panicking_constructor_counterexample:
  "Eval (Suc (Suc (Suc (Suc 0)))) (Identifier ''C'') 0 panickingState = Inr (ClassObj panickingClass, panickingState)
   \<and> Methods panickingClass ''crear'' = Some (Function 1 [] panickingBody 1 ''crear'')
   \<and> Eval (Suc (Suc (Suc (Suc (Suc 0))))) (NewExpression (Identifier ''C'') []) 0 panickingState
     = Inl (Panic ''integer divide by zero'')"
proof -
  have m: "evalInfixExpression ''%'' (Float (F64 0x4014000000000000)) (Float (F64 0x3FE0000000000000))
       = Inl (Panic ''integer divide by zero'')"
    by (simp add: evalInfixExpression_def evalFloatInfixExpression_def
      Let_def f_zero_def int64_of_float64_def f_isNaN_def f_isInf_def f_exp_def f_frac_def f_expo_def
      f_mant_def f_sign_def f_eq_def f_key_def)
  show ?thesis
    by (simp add: evalNewExpression_def andThen_def andThenList_def withState_def evalIdentifier_def Get_def
      panickingState_def panickingClass_def panickingBody_def newInstance_def constructorScope_def
      NewEnclosedEnvironment_def newRef_def Set_env_def Let_def m)
qed

lemma panicking_constructor:
  "Eval (Suc (Suc (Suc (Suc (Suc n))))) (NewExpression (Identifier ''C'') []) 0 panickingState
     = Inl (Panic ''integer divide by zero'')"
proof -
  have m: "evalInfixExpression ''%'' (Float (F64 0x4014000000000000)) (Float (F64 0x3FE0000000000000))
       = Inl (Panic ''integer divide by zero'')"
    by (simp add: evalInfixExpression_def evalFloatInfixExpression_def
      Let_def f_zero_def int64_of_float64_def f_isNaN_def f_isInf_def f_exp_def f_frac_def f_expo_def
      f_mant_def f_sign_def f_eq_def f_key_def)
  show ?thesis
    by (simp add: evalNewExpression_def andThen_def andThenList_def withState_def evalIdentifier_def Get_def
      panickingState_def panickingClass_def panickingBody_def newInstance_def constructorScope_def
      NewEnclosedEnvironment_def newRef_def Set_env_def Let_def m)
qed

text \<open>
  Claim C9, amended. Let the class expression evaluate to a class \<open>c\<close> that has a method
  \<open>crear\<close>, and the argument expressions evaluate, with no Error, to \<open>args\<close> (they are
  evaluated in the state \<open>newInstance\<close> has left). Then \<open>nuevo\<close> evaluates the constructor's
  body in the constructor's scope. When the body returns, whatever object it returns, an Error
  included, \<open>nuevo\<close> returns the new instance, in the state the body has left; when the body
  does not return (it panics, or runs forever), \<open>nuevo\<close> does not return either, with the same
  fault. The cases that do yield an Error are in lemma \<open>new_expression_aborts\<close>.
\<close>

theorem C9_constructor_result_is_discarded:
  assumes cls: "Eval n classNode env s = Inr (ClassObj c, s1)"
    and ctor: "Methods c ''crear'' = Some constructor"
    and inst: "newInstance c env s1 = (instance, s2)"
    and args: "evalExpressions (Eval n) argNodes [] env s2 = Inr (args, s3)"
    and ok: "list_all (\<lambda>a. \<not> isError a) args"
    and scope: "constructorScope constructor instance args s3 = (constructorEnv, s4)"
  shows "Eval (Suc n) (NewExpression classNode argNodes) env s
           = (case Eval n (BlockStatement (Body constructor)) constructorEnv s4 of
                Inl f \<Rightarrow> Inl f
              | Inr (result, s5) \<Rightarrow> Inr (instance, s5))
         \<and> (\<exists>r e. instance = Instance r c (Properties c) e)"
proof
  have noerr: "(length args = 1 \<and> isError (args ! 0)) = False"
    using ok by (cases args) auto
  have list: "andThenList (evalExpressions (Eval n) argNodes [] env s2) k = k args s3" for k
    unfolding andThenList_def args using noerr by (simp only: sum.case prod.case if_False)
  show "Eval (Suc n) (NewExpression classNode argNodes) env s
           = (case Eval n (BlockStatement (Body constructor)) constructorEnv s4 of
                Inl f \<Rightarrow> Inl f
              | Inr (result, s5) \<Rightarrow> Inr (instance, s5))"
    unfolding Eval_NewExpression evalNewExpression_def
    by (simp add: cls ctor inst list scope andThen_def split: sum.splits prod.splits)
  show "\<exists>r e. instance = Instance r c (Properties c) e"
    using inst by (auto simp add: newInstance_def Let_def split_def)
qed


lemma new_expression_aborts:
  "Eval n classNode env s = Inr (Error m, s1)
     \<Longrightarrow> Eval (Suc n) (NewExpression classNode argNodes) env s = Inr (Error m, s1)"
  "Eval n classNode env s = Inr (v, s1) \<Longrightarrow> \<not> isError v \<Longrightarrow> \<not> isNil v \<Longrightarrow> Type v \<noteq> ''CLASE''
     \<Longrightarrow> Eval (Suc n) (NewExpression classNode argNodes) env s
           = Inr (Error (''no es una clase: '' @ Type v), s1)"
  "Eval n classNode env s = Inr (ClassObj c, s1) \<Longrightarrow> Methods c ''crear'' = Some constructor
     \<Longrightarrow> newInstance c env s1 = (instance, s2)
     \<Longrightarrow> evalExpressions (Eval n) argNodes [] env s2 = Inr ([Error m], s3)
     \<Longrightarrow> Eval (Suc n) (NewExpression classNode argNodes) env s = Inr (Error m, s3)"
    apply (simp_all add: evalNewExpression_def andThen_def andThenList_def newError_def)
  apply (cases v; simp add: newError_def)
  done


theorem C9_constructor_result_witness:
  "Eval (Suc (Suc (Suc (Suc 0)))) (BlockStatement failingBody) 3
      (failingState\<lparr>envs := envs failingState
          @ [\<lparr>store = [''esto'' \<mapsto> Instance 2 failingClass Map.empty 2], outer = Some 0\<rparr>,
             \<lparr>store = [''esto'' \<mapsto> Instance 2 failingClass Map.empty 2], outer = Some 1\<rparr>],
        nextRef := 3\<rparr>)
    = Inr (Error divisionPorCero,
        failingState\<lparr>envs := envs failingState
          @ [\<lparr>store = [''esto'' \<mapsto> Instance 2 failingClass Map.empty 2], outer = Some 0\<rparr>,
             \<lparr>store = [''esto'' \<mapsto> Instance 2 failingClass Map.empty 2], outer = Some 1\<rparr>],
        nextRef := 3\<rparr>)
   \<and> Eval (Suc (Suc (Suc (Suc (Suc 0))))) (NewExpression (Identifier ''C'') []) 0 failingState
    = Inr (Instance 2 failingClass Map.empty 2,
        failingState\<lparr>envs := envs failingState
          @ [\<lparr>store = [''esto'' \<mapsto> Instance 2 failingClass Map.empty 2], outer = Some 0\<rparr>,
             \<lparr>store = [''esto'' \<mapsto> Instance 2 failingClass Map.empty 2], outer = Some 1\<rparr>],
        nextRef := 3\<rparr>)"
proof -
  let ?inst = "Instance 2 failingClass Map.empty 2"
  let ?s2 = "failingState\<lparr>envs := envs failingState
          @ [\<lparr>store = [''esto'' \<mapsto> ?inst], outer = Some 0\<rparr>], nextRef := 3\<rparr>"
  let ?s4 = "failingState\<lparr>envs := envs failingState
          @ [\<lparr>store = [''esto'' \<mapsto> ?inst], outer = Some 0\<rparr>,
             \<lparr>store = [''esto'' \<mapsto> ?inst], outer = Some 1\<rparr>], nextRef := 3\<rparr>"
  have cls: "Eval (Suc (Suc (Suc (Suc 0)))) (Identifier ''C'') 0 failingState = Inr (ClassObj failingClass, failingState)"
    by (simp add: evalIdentifier_def Get_def failingState_def)
  have ctor: "Methods failingClass ''crear'' = Some (Function 1 [] failingBody 1 ''crear'')"
    by (simp add: failingClass_def)
  have inst: "newInstance failingClass 0 failingState = (?inst, ?s2)"
    by (simp add: newInstance_def NewEnclosedEnvironment_def newRef_def Set_env_def failingState_def failingClass_def Let_def numeral_2_eq_2 numeral_3_eq_3)
  have args: "evalExpressions (Eval (Suc (Suc (Suc (Suc 0))))) [] [] 0 ?s2 = Inr ([], ?s2)"
    by simp
  have ok: "list_all (\<lambda>a. \<not> isError a) []"
    by simp
  have scope: "constructorScope (Function 1 [] failingBody 1 ''crear'') ?inst [] ?s2 = (3, ?s4)"
    by (simp add: constructorScope_def NewEnclosedEnvironment_def Set_env_def failingState_def Let_def numeral_2_eq_2 numeral_3_eq_3)
  have body: "Eval (Suc (Suc (Suc (Suc 0)))) (BlockStatement (Body (Function 1 [] failingBody 1 ''crear''))) 3 ?s4
      = Inr (Error divisionPorCero, ?s4)"
    by (simp add: failingBody_def andThen_def withState_def evalInfixExpression_def
        evalIntegerInfixExpression_def newError_def)
  from body C9_constructor_result_is_discarded [OF cls ctor inst args ok scope, unfolded body]
  show ?thesis by simp
qed


subsection \<open>What an evaluation changes in the environments\<close>

text \<open>
  An evaluation in the environment \<open>env\<close> writes to \<open>env\<close> and to environments it allocates,
  and to no other: a call evaluates the body in a new scope, a loop \<open>para\<close> in a new scope,
  \<open>nuevo\<close> the constructor in a new scope. The lemmas follow the functions of the evaluator
  one by one; \<open>framing_Eval\<close> is the induction on the fuel.
\<close>

lemma frame_refl [simp]: "frame env s s"
  by (simp add: frame_def)

lemma untouched_refl [simp]: "untouched s s"
  by (simp add: untouched_def)

lemma frame_trans: "frame env s s1 \<Longrightarrow> frame env s1 s2 \<Longrightarrow> frame env s s2"
  by (auto simp add: frame_def)

lemma untouched_trans: "untouched s s1 \<Longrightarrow> untouched s1 s2 \<Longrightarrow> untouched s s2"
  by (auto simp add: untouched_def)

lemma untouched_frame: "untouched s s' \<Longrightarrow> frame env s s'"
  by (simp add: untouched_def frame_def)

lemma frame_length: "frame env s s' \<Longrightarrow> env < length (envs s) \<Longrightarrow> env < length (envs s')"
  by (simp add: frame_def)

lemma untouched_fresh:
  "untouched s s1 \<Longrightarrow> length (envs s) \<le> e \<Longrightarrow> frame e s1 s2 \<Longrightarrow> untouched s s2"
  by (auto simp add: untouched_def frame_def)

lemma NewEnclosedEnvironment_untouched:
  assumes "NewEnclosedEnvironment out s = (e, s1)"
  shows "e = length (envs s)" and "untouched s s1" and "e < length (envs s1)"
    and "envs s1 ! e = \<lparr>store = Map.empty, outer = Some out\<rparr>" and "length (envs s1) = Suc (length (envs s))"
  using assms by (auto simp add: NewEnclosedEnvironment_def untouched_def nth_append)

lemma Set_env_frame [simp]: "frame e s (Set_env e name val s)"
  by (simp add: frame_def Set_env_def)

lemma Set_env_length [simp]: "length (envs (Set_env e name val s)) = length (envs s)"
  by (simp add: Set_env_def)

lemma Set_env_fresh: "untouched s s1 \<Longrightarrow> length (envs s) \<le> e \<Longrightarrow> untouched s (Set_env e name val s1)"
  by (auto simp add: untouched_def Set_env_def)

lemma newRef_envs: "newRef s = (r, s1) \<Longrightarrow> envs s1 = envs s"
  by (auto simp add: newRef_def)

lemma andThenE:
  assumes "andThen r k = Inr (v, s')"
  obtains v1 s1 where "r = Inr (v1, s1)" and "k v1 s1 = Inr (v, s')"
  using assms by (auto simp add: andThen_def split: sum.splits)

lemma withState_eq: "withState r s = Inr (v, s') \<longleftrightarrow> r = Inr v \<and> s' = s"
  by (auto simp add: withState_def split: sum.splits)

lemma framingD: "framing ev \<Longrightarrow> ev node env s = Inr (v, s') \<Longrightarrow> env < length (envs s) \<Longrightarrow> frame env s s'"
  by (auto simp add: framing_def)

lemma evalProgram_frame:
  assumes "framing ev"
  shows "evalProgram ev stmts result env s = Inr (v, s') \<Longrightarrow> env < length (envs s) \<Longrightarrow> frame env s s'"
proof (induction stmts arbitrary: result s)
  case Nil
  then show ?case by simp
next
  case (Cons st stmts)
  from Cons.prems(1) obtain r1 s1 where ev: "ev st env s = Inr (r1, s1)"
    and rest: "(case r1 of ReturnValue w \<Rightarrow> Inr (w, s1) | Error m \<Rightarrow> Inr (r1, s1)
                | _ \<Rightarrow> evalProgram ev stmts r1 env s1) = Inr (v, s')"
    by (auto elim!: andThenE)
  have f1: "frame env s s1" using framingD [OF assms ev Cons.prems(2)] .
  have l1: "env < length (envs s1)" using frame_length [OF f1 Cons.prems(2)] .
  have "frame env s1 s'"
    using rest Cons.IH [OF _ l1] by (cases r1) auto
  with f1 show ?case by (rule frame_trans)
qed

lemma evalBlockStatement_frame:
  assumes "framing ev"
  shows "evalBlockStatement ev stmts result env s = Inr (v, s') \<Longrightarrow> env < length (envs s) \<Longrightarrow> frame env s s'"
proof (induction stmts arbitrary: result s)
  case Nil
  then show ?case by simp
next
  case (Cons st stmts)
  from Cons.prems(1) obtain r1 s1 where ev: "ev st env s = Inr (r1, s1)"
    and rest: "(if \<not> isNil r1 \<and> (Type r1 = ''RETORNO'' \<or> Type r1 = ''ERROR'') then Inr (r1, s1)
                else evalBlockStatement ev stmts r1 env s1) = Inr (v, s')"
    by (auto elim!: andThenE)
  have f1: "frame env s s1" using framingD [OF assms ev Cons.prems(2)] .
  have l1: "env < length (envs s1)" using frame_length [OF f1 Cons.prems(2)] .
  have "frame env s1 s'"
    using rest Cons.IH [OF _ l1] by (auto split: if_splits)
  with f1 show ?case by (rule frame_trans)
qed

lemma evalIfExpression_frame:
  assumes "framing ev" and "evalIfExpression ev cond cons alt env s = Inr (v, s')" and "env < length (envs s)"
  shows "frame env s s'"
proof -
  from assms(2) obtain c s1 where ev: "ev cond env s = Inr (c, s1)"
    and rest: "(if isError c then Inr (c, s1)
         else (case isTruthy c of Inl f \<Rightarrow> Inl f
               | Inr t \<Rightarrow> if t then ev (BlockStatement cons) env s1
                          else (case alt of Some a \<Rightarrow> ev (BlockStatement a) env s1 | None \<Rightarrow> Inr (NULL, s1))))
        = Inr (v, s')"
    unfolding evalIfExpression_def by (auto elim!: andThenE)
  have f1: "frame env s s1" using framingD [OF assms(1) ev assms(3)] .
  have l1: "env < length (envs s1)" using frame_length [OF f1 assms(3)] .
  have "frame env s1 s'"
    using rest framingD [OF assms(1) _ l1]
    by (auto split: if_splits sum.splits option.splits)
  with f1 show ?thesis by (rule frame_trans)
qed

lemma whileLoop_frame:
  assumes "framing ev"
  shows "whileLoop ev k cond body result env s = Inr (v, s') \<Longrightarrow> env < length (envs s) \<Longrightarrow> frame env s s'"
proof (induction k arbitrary: result s)
  case 0
  then show ?case by simp
next
  case (Suc k)
  from Suc.prems(1) obtain c s1 where ev: "ev cond env s = Inr (c, s1)"
    and rest: "(if isError c then Inr (c, s1)
         else (case isTruthy c of Inl f \<Rightarrow> Inl f
               | Inr t \<Rightarrow> if \<not> t then Inr (result, s1)
                  else andThen (ev (BlockStatement body) env s1) (\<lambda>result s.
                    if isError result then Inr (result, s)
                    else if \<not> isNil result \<and> Type result = ''RETORNO'' then Inr (result, s)
                    else whileLoop ev k cond body result env s)))
        = Inr (v, s')"
    by (auto elim!: andThenE)
  have f1: "frame env s s1" using framingD [OF assms ev Suc.prems(2)] .
  have l1: "env < length (envs s1)" using frame_length [OF f1 Suc.prems(2)] .
  have "frame env s1 s'"
  proof (cases "isError c")
    case True
    with rest show ?thesis by simp
  next
    case False
    with rest obtain t where t: "isTruthy c = Inr t"
      and rest2: "(if \<not> t then Inr (result, s1)
                  else andThen (ev (BlockStatement body) env s1) (\<lambda>result s.
                    if isError result then Inr (result, s)
                    else if \<not> isNil result \<and> Type result = ''RETORNO'' then Inr (result, s)
                    else whileLoop ev k cond body result env s)) = Inr (v, s')"
      by (auto split: sum.splits)
    show ?thesis
    proof (cases t)
      case False
      with rest2 show ?thesis by simp
    next
      case True
      with rest2 obtain r2 s2 where b: "ev (BlockStatement body) env s1 = Inr (r2, s2)"
        and rest3: "(if isError r2 then Inr (r2, s2)
                    else if \<not> isNil r2 \<and> Type r2 = ''RETORNO'' then Inr (r2, s2)
                    else whileLoop ev k cond body r2 env s2) = Inr (v, s')"
        by (auto elim!: andThenE)
      have f2: "frame env s1 s2" using framingD [OF assms b l1] .
      have l2: "env < length (envs s2)" using frame_length [OF f2 l1] .
      have "frame env s2 s'"
        using rest3 Suc.IH [OF _ l2] by (auto split: if_splits)
      with f2 show ?thesis by (rule frame_trans)
    qed
  qed
  with f1 show ?case by (rule frame_trans)
qed

lemma forBody_frame:
  assumes "framing ev" and "forBody ev update body e s continue = Inr (v, s')" and "e < length (envs s)"
    and cont: "\<And>r s1. continue r s1 = Inr (v, s') \<Longrightarrow> e < length (envs s1) \<Longrightarrow> frame e s1 s'"
  shows "frame e s s'"
proof -
  from assms(2) obtain r1 s1 where b: "ev (BlockStatement body) e s = Inr (r1, s1)"
    and rest: "(if isError r1 then Inr (r1, s1)
       else if \<not> isNil r1 \<and> Type r1 = ''RETORNO'' then Inr (r1, s1)
       else if update \<noteq> NilNode then
         andThen (ev update e s1) (\<lambda>updateResult s.
           if isError updateResult then Inr (updateResult, s) else continue r1 s)
       else continue r1 s1) = Inr (v, s')"
    unfolding forBody_def by (auto elim!: andThenE)
  have f1: "frame e s s1" using framingD [OF assms(1) b assms(3)] .
  have l1: "e < length (envs s1)" using frame_length [OF f1 assms(3)] .
  have "frame e s1 s'"
  proof (cases "isError r1 \<or> (\<not> isNil r1 \<and> Type r1 = ''RETORNO'')")
    case True
    with rest show ?thesis by (auto split: if_splits)
  next
    case False
    show ?thesis
    proof (cases "update = NilNode")
      case True
      with False rest have "continue r1 s1 = Inr (v, s')" by (auto split: if_splits)
      then show ?thesis using cont l1 by blast
    next
      case nn: False
      with False rest obtain u s2 where u: "ev update e s1 = Inr (u, s2)"
        and rest2: "(if isError u then Inr (u, s2) else continue r1 s2) = Inr (v, s')"
        by (auto elim!: andThenE split: if_splits)
      have f2: "frame e s1 s2" using framingD [OF assms(1) u l1] .
      have l2: "e < length (envs s2)" using frame_length [OF f2 l1] .
      have "frame e s2 s'" using rest2 cont l2 by (auto split: if_splits)
      with f2 show ?thesis by (rule frame_trans)
    qed
  qed
  with f1 show ?thesis by (rule frame_trans)
qed

lemma forLoop_frame:
  assumes "framing ev"
  shows "forLoop ev k cond update body result e s = Inr (v, s') \<Longrightarrow> e < length (envs s) \<Longrightarrow> frame e s s'"
proof (induction k arbitrary: result s)
  case 0
  then show ?case by simp
next
  case (Suc k)
  have body: "frame e s0 s'"
    if "forBody ev update body e s0 (\<lambda>result s. forLoop ev k cond update body result e s) = Inr (v, s')"
      and "e < length (envs s0)" for s0
    using that Suc.IH by (auto intro: forBody_frame [OF assms])
  show ?case
  proof (cases "cond = NilNode")
    case True
    with Suc.prems body show ?thesis by simp
  next
    case False
    with Suc.prems(1) obtain c s1 where ev: "ev cond e s = Inr (c, s1)"
      and rest: "(if isError c then Inr (c, s1)
          else (case isTruthy c of Inl f \<Rightarrow> Inl f
             | Inr t \<Rightarrow> if \<not> t then Inr (result, s1)
                 else forBody ev update body e s1 (\<lambda>result s. forLoop ev k cond update body result e s)))
          = Inr (v, s')"
      by (auto elim!: andThenE)
    have f1: "frame e s s1" using framingD [OF assms ev Suc.prems(2)] .
    have l1: "e < length (envs s1)" using frame_length [OF f1 Suc.prems(2)] .
    have "frame e s1 s'"
      using rest body [OF _ l1] by (auto split: if_splits sum.splits)
    with f1 show ?thesis by (rule frame_trans)
  qed
qed

lemma evalForExpression_untouched:
  assumes "framing ev" and "evalForExpression ev k init cond update body env s = Inr (v, s')"
  shows "untouched s s'"
proof -
  obtain e s1 where al: "NewEnclosedEnvironment env s = (e, s1)" by (cases "NewEnclosedEnvironment env s")
  note a = NewEnclosedEnvironment_untouched [OF al]
  have loop: "frame e s2 s'"
    if "forLoop ev k cond update body NULL e s2 = Inr (v, s')" and "e < length (envs s2)" for s2
    using that forLoop_frame [OF assms(1)] by blast
  have "frame e s1 s'"
  proof (cases "init = NilNode")
    case True
    with assms(2) al loop a(3) show ?thesis by (simp add: evalForExpression_def)
  next
    case False
    with assms(2) al obtain i s2 where i: "ev init e s1 = Inr (i, s2)"
      and rest: "(if isError i then Inr (i, s2) else forLoop ev k cond update body NULL e s2) = Inr (v, s')"
      by (auto simp add: evalForExpression_def elim!: andThenE)
    have f1: "frame e s1 s2" using framingD [OF assms(1) i a(3)] .
    have l2: "e < length (envs s2)" using frame_length [OF f1 a(3)] .
    have "frame e s2 s'" using rest loop l2 by (auto split: if_splits)
    with f1 show ?thesis by (rule frame_trans)
  qed
  with a(1,2) show ?thesis by (auto intro: untouched_fresh)
qed

lemma evalExpressions_frame:
  assumes "framing ev"
  shows "evalExpressions ev exps result env s = Inr (vs, s') \<Longrightarrow> env < length (envs s) \<Longrightarrow> frame env s s'"
proof (induction exps arbitrary: result s)
  case Nil
  then show ?case by simp
next
  case (Cons e exps)
  from Cons.prems(1) obtain r1 s1 where ev: "ev e env s = Inr (r1, s1)"
    and rest: "(if isError r1 then Inr ([r1], s1) else evalExpressions ev exps (result @ [r1]) env s1) = Inr (vs, s')"
    by (auto split: sum.splits)
  have f1: "frame env s s1" using framingD [OF assms ev Cons.prems(2)] .
  have l1: "env < length (envs s1)" using frame_length [OF f1 Cons.prems(2)] .
  have "frame env s1 s'"
    using rest Cons.IH [OF _ l1] by (auto split: if_splits)
  with f1 show ?case by (rule frame_trans)
qed

lemma andThenListE:
  assumes "andThenList r k = Inr (v, s')"
  obtains args s1 where "r = Inr (args, s1)"
    and "(length args = 1 \<and> isError (args ! 0) \<and> v = args ! 0 \<and> s' = s1) \<or> k args s1 = Inr (v, s')"
  using assms by (auto simp add: andThenList_def split: sum.splits if_splits)

lemma fold_Set_env_frame:
  "frame e s (fold (\<lambda>(i, p) s. if c i then Set_env e p (g i) s else h e p s) ps s)"
  if "\<And>p s. h e p s = s \<or> (\<exists>v. h e p s = Set_env e p v s)"
  using that
proof (induction ps arbitrary: s)
  case Nil
  then show ?case by simp
next
  case (Cons x ps)
  obtain i p where x: "x = (i, p)" by (cases x)
  have step: "frame e s (if c i then Set_env e p (g i) s else h e p s)"
    using Cons.prems [of p s] by auto
  have len: "length (envs (if c i then Set_env e p (g i) s else h e p s)) = length (envs s)"
    using Cons.prems [of p s] by auto
  show ?case
    using frame_trans [OF step Cons.IH [OF Cons.prems]] by (simp add: x)
qed

lemma fold_Set_env_length:
  "length (envs (fold (\<lambda>(i, p) s. if c i then Set_env e p (g i) s else h e p s) ps s)) = length (envs s)"
  if "\<And>p s. h e p s = s \<or> (\<exists>v. h e p s = Set_env e p v s)"
  using that
proof (induction ps arbitrary: s)
  case Nil
  then show ?case by simp
next
  case (Cons x ps)
  obtain i p where x: "x = (i, p)" by (cases x)
  have len: "length (envs (if c i then Set_env e p (g i) s else h e p s)) = length (envs s)"
    using Cons.prems [of p s] by auto
  show ?case
    using Cons.IH [OF Cons.prems] len by (simp add: x)
qed

lemma frame_fresh_untouched:
  "untouched s s1 \<Longrightarrow> length (envs s) \<le> e \<Longrightarrow> frame e s1 s2 \<Longrightarrow> untouched s s2"
  by (rule untouched_fresh)

lemma extendFunctionEnv_untouched:
  assumes "extendFunctionEnv fn args s = (e, s1)"
  shows "e = length (envs s)" and "untouched s s1" and "e < length (envs s1)"
proof -
  obtain e0 s0 where al: "NewEnclosedEnvironment (Env fn) s = (e0, s0)"
    by (cases "NewEnclosedEnvironment (Env fn) s")
  note a = NewEnclosedEnvironment_untouched [OF al]
  let ?f = "\<lambda>(paramIdx, param) s. if paramIdx < length args then Set_env e0 param (args ! paramIdx) s
                      else Set_env e0 param NULL s"
  from assms al have e: "e = e0" and s1: "s1 = fold ?f (enumerate 0 (Parameters fn)) s0"
    by (auto simp add: extendFunctionEnv_def)
  have fr: "frame e0 s0 s1"
    unfolding s1
    by (rule fold_Set_env_frame [where h = "\<lambda>e p s. Set_env e p NULL s"]) auto
  have len: "length (envs s1) = length (envs s0)"
    unfolding s1
    by (rule fold_Set_env_length [where h = "\<lambda>e p s. Set_env e p NULL s"]) auto
  show "e = length (envs s)" using e a(1) by simp
  show "untouched s s1" using untouched_fresh [OF a(2) _ fr] a(1) by simp
  show "e < length (envs s1)" using len a(3) e by simp
qed

lemma builtin_mostrar_envs:
  "builtin_mostrar args s = Inr (v, s') \<Longrightarrow> envs s' = envs s"
  by (induction args arbitrary: s) (auto split: if_splits)

lemma callBuiltin_envs:
  assumes "callBuiltin g name args s = Inr (v, s')"
  shows "envs s' = envs s"
proof -
  have l: "builtin_longitud args s = Inr (v, s') \<Longrightarrow> envs s' = envs s"
    by (auto simp add: builtin_longitud_def split: if_splits obj.splits)
  have c: "stdlib_contiene args s = Inr (v, s') \<Longrightarrow> envs s' = envs s"
    by (auto simp add: stdlib_contiene_def split: if_splits obj.splits)
  from assms show ?thesis
    using l c builtin_mostrar_envs [of args s v s']
    by (auto simp add: callBuiltin_def split: if_splits)
qed

lemma envs_untouched: "envs s' = envs s \<Longrightarrow> untouched s s'"
  by (simp add: untouched_def)

lemma applyFunction_untouched:
  assumes "framing ev" and "applyFunction ev fn args s = Inr (v, s')"
  shows "untouched s s'"
proof (cases fn)
  case (FunctionObj f)
  obtain e s1 where ex: "extendFunctionEnv f args s = (e, s1)" by (cases "extendFunctionEnv f args s")
  note a = extendFunctionEnv_untouched [OF ex]
  from assms(2) FunctionObj ex obtain r where "ev (BlockStatement (Body f)) e s1 = Inr (r, s')"
    by (auto simp add: applyFunction_def elim!: andThenE)
  then have "frame e s1 s'" using framingD [OF assms(1) _ a(3)] by blast
  with a(1,2) show ?thesis by (auto intro: untouched_fresh)
next
  case (Builtin g name)
  with assms(2) show ?thesis
    by (auto simp add: applyFunction_def intro: envs_untouched callBuiltin_envs)
qed (use assms(2) in \<open>auto simp add: applyFunction_def\<close>)

lemma hashPairs_frame:
  assumes "framing ev"
  shows "hashPairs ev nodePairs pairs env s = Inr (r, s') \<Longrightarrow> env < length (envs s) \<Longrightarrow> frame env s s'"
proof (induction nodePairs arbitrary: pairs s)
  case Nil
  then show ?case by simp
next
  case (Cons kv nodePairs)
  obtain keyNode valueNode where kv: "kv = (keyNode, valueNode)" by (cases kv)
  from Cons.prems(1) kv obtain key s1 where k: "ev keyNode env s = Inr (key, s1)"
    and rest: "(if isError key then Inr (Inl key, s1)
          else (case hashKeyOf key of
               None \<Rightarrow> if isNil key then Inl nilDeref
                       else Inr (Inl (newError (claveNoUtilizable (Type key))), s1)
             | Some hashed \<Rightarrow>
                 (case ev valueNode env s1 of
                    Inl f \<Rightarrow> Inl f
                  | Inr (val, s) \<Rightarrow>
                      if isError val then Inr (Inl val, s)
                      else hashPairs ev nodePairs (pairs(hashed \<mapsto> (key, val))) env s))) = Inr (r, s')"
    by (auto split: sum.splits)
  have f1: "frame env s s1" using framingD [OF assms k Cons.prems(2)] .
  have l1: "env < length (envs s1)" using frame_length [OF f1 Cons.prems(2)] .
  have "frame env s1 s'"
  proof (cases "isError key \<or> hashKeyOf key = None")
    case True
    with rest show ?thesis by (auto split: if_splits)
  next
    case False
    then obtain hashed where h: "hashKeyOf key = Some hashed" by auto
    with False rest obtain val s2 where v: "ev valueNode env s1 = Inr (val, s2)"
      and rest2: "(if isError val then Inr (Inl val, s2)
                  else hashPairs ev nodePairs (pairs(hashed \<mapsto> (key, val))) env s2) = Inr (r, s')"
      by (auto split: sum.splits)
    have f2: "frame env s1 s2" using framingD [OF assms v l1] .
    have l2: "env < length (envs s2)" using frame_length [OF f2 l1] .
    have "frame env s2 s'" using rest2 Cons.IH [OF _ l2] by (auto split: if_splits)
    with f2 show ?thesis by (rule frame_trans)
  qed
  with f1 show ?case by (rule frame_trans)
qed

lemma evalHashLiteral_frame:
  assumes "framing ev" and "evalHashLiteral ev nodePairs env s = Inr (v, s')" and "env < length (envs s)"
  shows "frame env s s'"
proof -
  from assms(2) obtain r s1 where h: "hashPairs ev nodePairs Map.empty env s = Inr (r, s1)"
    and rest: "envs s' = envs s1"
    by (auto simp add: evalHashLiteral_def newRef_def split: sum.splits)
  have f1: "frame env s s1" using hashPairs_frame [OF assms(1) h assms(3)] .
  with rest show ?thesis by (simp add: frame_def)
qed

lemma evalDotExpression_untouched:
  assumes "evalDotExpression ob property s = Inr (v, s')"
  shows "untouched s s'"
proof (cases ob)
  case (Instance r c properties instanceEnv)
  show ?thesis
  proof (cases "properties property")
    case (Some val)
    with assms Instance show ?thesis by (simp add: evalDotExpression_def)
  next
    case None
    show ?thesis
    proof (cases "Methods c property")
      case n: None
      with assms Instance None show ?thesis by (simp add: evalDotExpression_def)
    next
      case (Some found)
      with assms Instance None show ?thesis
        by (auto simp add: evalDotExpression_def newRef_def NewEnclosedEnvironment_def Set_env_def
            untouched_def nth_append Let_def)
    qed
  qed
qed (use assms in \<open>auto simp add: evalDotExpression_def split: if_splits\<close>)

lemma classProperties_frame:
  assumes "framing ev"
  shows "classProperties ev propNodes properties env s = Inr (r, s') \<Longrightarrow> env < length (envs s) \<Longrightarrow> frame env s s'"
proof (induction propNodes arbitrary: properties s)
  case Nil
  then show ?case by simp
next
  case (Cons nv propNodes)
  from Cons.prems(1) obtain name valueNode where nv: "nv = Some (name, valueNode)"
    by (cases nv) auto
  from Cons.prems(1) nv obtain p s1 where e: "ev valueNode env s = Inr (p, s1)"
    and rest: "(if isError p then Inr (Inl p, s1)
                else classProperties ev propNodes (properties(name \<mapsto> p)) env s1) = Inr (r, s')"
    by (auto split: sum.splits)
  have f1: "frame env s s1" using framingD [OF assms e Cons.prems(2)] .
  have l1: "env < length (envs s1)" using frame_length [OF f1 Cons.prems(2)] .
  have "frame env s1 s'" using rest Cons.IH [OF _ l1] by (auto split: if_splits)
  with f1 show ?case by (rule frame_trans)
qed

lemma classMethods_untouched:
  "classMethods methodNodes methods env s = (ms, s') \<Longrightarrow> untouched s s'"
proof (induction methodNodes arbitrary: methods s)
  case Nil
  then show ?case by simp
next
  case (Cons m methodNodes)
  obtain parameters body name where m: "m = (parameters, body, name)" by (cases m)
  obtain e s1 where al: "NewEnclosedEnvironment env s = (e, s1)" by (cases "NewEnclosedEnvironment env s")
  obtain r s2 where nr: "newRef s1 = (r, s2)" by (cases "newRef s1")
  from Cons.prems m al nr
  have "classMethods methodNodes (methods(name \<mapsto> Function r parameters body e name)) env s2 = (ms, s')"
    by simp
  then have "untouched s2 s'" by (rule Cons.IH)
  moreover have "untouched s s2"
    using NewEnclosedEnvironment_untouched(2) [OF al] newRef_envs [OF nr] by (simp add: untouched_def)
  ultimately show ?case by (blast intro: untouched_trans)
qed

lemma evalClassLiteral_frame:
  assumes "framing ev" and "evalClassLiteral ev name propNodes methodNodes env s = Inr (v, s')"
    and "env < length (envs s)"
  shows "frame env s s'"
proof -
  obtain r s0 where nr: "newRef s = (r, s0)" by (cases "newRef s")
  have e0: "envs s0 = envs s" using newRef_envs [OF nr] .
  from assms(2) nr obtain p s1 where cp: "classProperties ev propNodes Map.empty env s0 = Inr (p, s1)"
    and rest: "(\<exists>err. p = Inl err \<and> s' = s1)
      \<or> (\<exists>properties ms s2. p = Inr properties \<and> classMethods methodNodes Map.empty env s1 = (ms, s2)
            \<and> s' = Set_env env name (ClassObj (Class r name properties ms)) s2)"
    by (auto simp add: evalClassLiteral_def Let_def split: sum.splits prod.splits)
  have f1: "frame env s0 s1" using classProperties_frame [OF assms(1) cp] assms(3) e0 by simp
  from rest have "frame env s1 s'"
  proof
    assume "\<exists>err. p = Inl err \<and> s' = s1"
    then show ?thesis by auto
  next
    assume "\<exists>properties ms s2. p = Inr properties \<and> classMethods methodNodes Map.empty env s1 = (ms, s2)
            \<and> s' = Set_env env name (ClassObj (Class r name properties ms)) s2"
    then obtain properties ms s2 where cm: "classMethods methodNodes Map.empty env s1 = (ms, s2)"
      and s': "s' = Set_env env name (ClassObj (Class r name properties ms)) s2" by blast
    show ?thesis
      unfolding s'
      using untouched_frame [OF classMethods_untouched [OF cm], of env] Set_env_frame [of env s2]
      by (blast intro: frame_trans)
  qed
  with f1 have "frame env s0 s'" by (rule frame_trans)
  then show ?thesis using e0 by (simp add: frame_def)
qed

lemma newInstance_untouched:
  assumes "newInstance c env s = (instance, s1)"
  shows "untouched s s1"
    and "\<exists>r. instance = Instance r c (Properties c) (length (envs s))"
    and "length (envs s1) = Suc (length (envs s))"
    and "store (envs s1 ! length (envs s)) ''esto'' = Some instance"
  using assms
  by (auto simp add: newInstance_def NewEnclosedEnvironment_def newRef_def Set_env_def Let_def
      untouched_def nth_append)

lemma constructorScope_untouched:
  assumes "constructorScope constructor instance args s = (e, s1)"
  shows "e = length (envs s)" and "untouched s s1" and "e < length (envs s1)"
proof -
  obtain e0 s0 where al: "NewEnclosedEnvironment (Env constructor) s = (e0, s0)"
    by (cases "NewEnclosedEnvironment (Env constructor) s")
  note a = NewEnclosedEnvironment_untouched [OF al]
  let ?f = "\<lambda>(paramIdx, param) s. if paramIdx < length args then Set_env e0 param (args ! paramIdx) s
                      else s"
  let ?s0 = "Set_env e0 ''esto'' instance s0"
  from assms al have e: "e = e0" and s1: "s1 = fold ?f (enumerate 0 (Parameters constructor)) ?s0"
    by (auto simp add: constructorScope_def Let_def)
  have fr: "frame e0 ?s0 s1"
    unfolding s1
    by (rule fold_Set_env_frame [where h = "\<lambda>e p s. s"]) auto
  have len: "length (envs s1) = length (envs ?s0)"
    unfolding s1
    by (rule fold_Set_env_length [where h = "\<lambda>e p s. s"]) auto
  have "frame e0 s0 s1" using frame_trans [OF Set_env_frame fr] .
  show "e = length (envs s)" using e a(1) by simp
  show "untouched s s1" using untouched_fresh [OF a(2) _ \<open>frame e0 s0 s1\<close>] a(1) by simp
  show "e < length (envs s1)" using len a(3) e by simp
qed

lemma evalNewExpression_frame:
  assumes fr: "framing ev" and ev: "evalNewExpression ev classNode argNodes env s = Inr (v, s')"
    and env: "env < length (envs s)"
  shows "frame env s s'"
    and "v = Instance r c ps e \<Longrightarrow> e < length (envs s') \<and> store (envs s' ! e) ''esto'' = Some v"
proof -
  from ev obtain classObj s1 where cl: "ev classNode env s = Inr (classObj, s1)"
    and rest: "(if isError classObj then Inr (classObj, s1)
       else
         (case classObj of
            ClassObj c \<Rightarrow>
              (let (instance, s) = newInstance c env s1
               in case Methods c ''crear'' of
                    Some constructor \<Rightarrow>
                      andThenList (evalExpressions ev argNodes [] env s) (\<lambda>args s.
                        let (constructorEnv, s) = constructorScope constructor instance args s
                        in andThen (ev (BlockStatement (Body constructor)) constructorEnv s) (\<lambda>dropped s.
                             Inr (instance, s)))
                  | None \<Rightarrow> Inr (instance, s))
          | NilObj \<Rightarrow> Inl nilDeref
          | _ \<Rightarrow> Inr (newError (''no es una clase: '' @ Type classObj), s1))) = Inr (v, s')"
    unfolding evalNewExpression_def by (auto elim!: andThenE)
  have f1: "frame env s s1" using framingD [OF fr cl env] .
  have l1: "env < length (envs s1)" using frame_length [OF f1 env] .
  have "frame env s1 s' \<and> (v = Instance r c ps e \<longrightarrow> e < length (envs s') \<and> store (envs s' ! e) ''esto'' = Some v)"
  proof (cases "isError classObj")
    case True
    with rest have "v = classObj" "s' = s1" by auto
    with True show ?thesis by auto
  next
    case False
    show ?thesis
    proof (cases classObj)
      case (ClassObj k)
      obtain inst s2 where ni: "newInstance k env s1 = (inst, s2)"
        by (cases "newInstance k env s1")
      note n = newInstance_untouched [OF ni]
      let ?e = "length (envs s1)"
      have l2: "env < length (envs s2)" using l1 n(3) by simp
      have f2: "frame env s1 s2" using untouched_frame [OF n(1)] .
      show ?thesis
      proof (cases "Methods k ''crear''")
        case None
        with rest False ClassObj ni have "v = inst" "s' = s2" by auto
        with f2 n show ?thesis by auto
      next
        case (Some constructor)
        with rest False ClassObj ni
        have "andThenList (evalExpressions ev argNodes [] env s2) (\<lambda>args s.
                 let (constructorEnv, s) = constructorScope constructor inst args s
                 in andThen (ev (BlockStatement (Body constructor)) constructorEnv s) (\<lambda>dropped s.
                      Inr (inst, s))) = Inr (v, s')"
          by simp
        then obtain args s3 where ea: "evalExpressions ev argNodes [] env s2 = Inr (args, s3)"
          and alt: "(length args = 1 \<and> isError (args ! 0) \<and> v = args ! 0 \<and> s' = s3)
             \<or> (let (constructorEnv, s) = constructorScope constructor inst args s3
                 in andThen (ev (BlockStatement (Body constructor)) constructorEnv s) (\<lambda>dropped s.
                      Inr (inst, s))) = Inr (v, s')"
          by (rule andThenListE)
        have f3: "frame env s2 s3" using evalExpressions_frame [OF fr ea l2] .
        have keep3: "envs s3 ! ?e = envs s2 ! ?e"
          using f3 l1 n(3) by (auto simp add: frame_def)
        have len3: "?e < length (envs s3)" using f3 n(3) by (auto simp add: frame_def)
        from alt show ?thesis
        proof
          assume "length args = 1 \<and> isError (args ! 0) \<and> v = args ! 0 \<and> s' = s3"
          then have "isError v" "s' = s3" by auto
          with f2 f3 show ?thesis by (auto intro: frame_trans)
        next
          assume b: "(let (constructorEnv, s) = constructorScope constructor inst args s3
                 in andThen (ev (BlockStatement (Body constructor)) constructorEnv s) (\<lambda>dropped s.
                      Inr (inst, s))) = Inr (v, s')"
          obtain ce s4 where cs: "constructorScope constructor inst args s3 = (ce, s4)"
            by (cases "constructorScope constructor inst args s3")
          note c = constructorScope_untouched [OF cs]
          from b cs obtain dropped where body: "ev (BlockStatement (Body constructor)) ce s4 = Inr (dropped, s')"
            and v: "v = inst"
            by (auto elim!: andThenE)
          have "frame ce s4 s'" using framingD [OF fr body c(3)] .
          then have u: "untouched s3 s'" using untouched_fresh [OF c(2), of ce s'] c(1) by simp
          then have "envs s' ! ?e = envs s3 ! ?e" and "?e < length (envs s')"
            using len3 by (auto simp add: untouched_def)
          with keep3 n v have "v = Instance r c ps e \<longrightarrow> e < length (envs s') \<and> store (envs s' ! e) ''esto'' = Some v"
            by auto
          moreover have "frame env s1 s'"
            using f2 f3 untouched_frame [OF u, of env] by (blast intro: frame_trans)
          ultimately show ?thesis by simp
        qed
      qed
    qed (use rest False in \<open>auto simp add: newError_def\<close>)
  qed
  with f1 show "frame env s s'"
    and "v = Instance r c ps e \<Longrightarrow> e < length (envs s') \<and> store (envs s' ! e) ''esto'' = Some v"
    by (auto intro: frame_trans)
qed

lemma framing_Eval: "framing (Eval n)"
proof (induction n)
  case 0
  show ?case by (simp add: framing_def)
next
  case (Suc n)
  note IH = framingD [OF Suc]
  show ?case
    unfolding framing_def
  proof (intro allI impI)
    fix node env s v s'
    assume ev: "Eval (Suc n) node env s = Inr (v, s')" and env: "env < length (envs s)"
    show "frame env s s'"
    proof (cases node)
      case NilNode
      with ev show ?thesis by simp
    next
      case (Program statements)
      with ev env show ?thesis by (auto intro: evalProgram_frame [OF Suc])
    next
      case (ExpressionStatement e)
      with ev env show ?thesis by (auto intro: IH)
    next
      case (BlockStatement statements)
      with ev env show ?thesis by (auto intro: evalBlockStatement_frame [OF Suc])
    next
      case (LetStatement name valueNode)
      with ev obtain val s1 where e1: "Eval n valueNode env s = Inr (val, s1)"
        and r: "s' = s1 \<or> s' = Set_env env name val s1"
        by (auto elim!: andThenE split: if_splits)
      from r IH [OF e1 env] show ?thesis
        by (auto intro: frame_trans [OF _ Set_env_frame])
    next
      case (ReturnStatement returnValue)
      with ev obtain val where "Eval n returnValue env s = Inr (val, s')"
        by (auto elim!: andThenE split: if_splits)
      then show ?thesis using IH env by blast
    next
      case (PrefixExpression operator rightNode)
      with ev obtain val where "Eval n rightNode env s = Inr (val, s')"
        by (auto elim!: andThenE simp add: withState_eq split: if_splits)
      then show ?thesis using IH env by blast
    next
      case (InfixExpression leftNode operator rightNode)
      with ev obtain l s1 where e1: "Eval n leftNode env s = Inr (l, s1)"
        and r: "s' = s1 \<or> (\<exists>val. Eval n rightNode env s1 = Inr (val, s'))"
        by (auto elim!: andThenE simp add: withState_eq split: if_splits)
      have f1: "frame env s s1" using IH [OF e1 env] .
      from r show ?thesis
        using f1 IH [OF _ frame_length [OF f1 env]] by (auto intro: frame_trans)
    next
      case (IfExpression cond consequence alternative)
      with ev env show ?thesis by (auto intro: evalIfExpression_frame [OF Suc])
    next
      case (WhileExpression cond body)
      with ev env show ?thesis by (auto simp add: evalWhileExpression_def intro: whileLoop_frame [OF Suc])
    next
      case (ForExpression init cond update body)
      with ev show ?thesis by (auto intro: untouched_frame evalForExpression_untouched [OF Suc])
    next
      case (FunctionLiteral parameters body name)
      with ev show ?thesis by (auto simp add: newRef_def frame_def)
    next
      case (CallExpression functionNode argNodes)
      with ev obtain f s1 where e1: "Eval n functionNode env s = Inr (f, s1)"
        and r: "s' = s1 \<or> andThenList (evalExpressions (Eval n) argNodes [] env s1) (\<lambda>args s.
                applyFunction (Eval n) f args s) = Inr (v, s')"
        by (auto elim!: andThenE split: if_splits)
      have f1: "frame env s s1" using IH [OF e1 env] .
      have l1: "env < length (envs s1)" using frame_length [OF f1 env] .
      from r have "frame env s1 s'"
      proof
        assume "s' = s1" then show ?thesis by simp
      next
        assume "andThenList (evalExpressions (Eval n) argNodes [] env s1) (\<lambda>args s.
                applyFunction (Eval n) f args s) = Inr (v, s')"
        then obtain args s2 where ea: "evalExpressions (Eval n) argNodes [] env s1 = Inr (args, s2)"
          and alt: "(length args = 1 \<and> isError (args ! 0) \<and> v = args ! 0 \<and> s' = s2)
              \<or> applyFunction (Eval n) f args s2 = Inr (v, s')"
          by (rule andThenListE)
        have f2: "frame env s1 s2" using evalExpressions_frame [OF Suc ea l1] .
        from alt have "frame env s2 s'"
          by (auto intro: untouched_frame applyFunction_untouched [OF Suc])
        with f2 show ?thesis by (rule frame_trans)
      qed
      with f1 show ?thesis by (rule frame_trans)
    next
      case (ArrayLiteral elementNodes)
      with ev obtain args s2 where ea: "evalExpressions (Eval n) elementNodes [] env s = Inr (args, s2)"
        and eq: "envs s' = envs s2"
        by (auto simp add: andThenList_def newRef_def split: sum.splits if_splits)
      have f2: "frame env s s2" using evalExpressions_frame [OF Suc ea env] .
      with eq show ?thesis by (simp add: frame_def)
    next
      case (IndexExpression leftNode indexNode)
      with ev obtain l s1 where e1: "Eval n leftNode env s = Inr (l, s1)"
        and r: "s' = s1 \<or> (\<exists>val. Eval n indexNode env s1 = Inr (val, s'))"
        by (auto elim!: andThenE simp add: withState_eq split: if_splits)
      have f1: "frame env s s1" using IH [OF e1 env] .
      from r show ?thesis
        using f1 IH [OF _ frame_length [OF f1 env]] by (auto intro: frame_trans)
    next
      case (HashLiteral nodePairs)
      with ev env show ?thesis by (auto intro: evalHashLiteral_frame [OF Suc])
    next
      case (DotExpression objectNode property)
      with ev obtain ob s1 where e1: "Eval n objectNode env s = Inr (ob, s1)"
        and r: "s' = s1 \<or> evalDotExpression ob property s1 = Inr (v, s')"
        by (auto elim!: andThenE split: if_splits)
      have f1: "frame env s s1" using IH [OF e1 env] .
      from r have "frame env s1 s'"
        by (auto intro: untouched_frame evalDotExpression_untouched)
      with f1 show ?thesis by (rule frame_trans)
    next
      case (ClassLiteral name parent interfaces propNodes methodNodes)
      with ev env show ?thesis by (auto intro: evalClassLiteral_frame [OF Suc])
    next
      case (NewExpression classNode argNodes)
      with ev env show ?thesis by (auto intro: evalNewExpression_frame(1) [OF Suc])
    qed (use ev in \<open>auto simp add: nativeBoolToBooleanObject_def\<close>)
  qed
qed

subsection \<open>The receiver \<open>esto\<close>\<close>

lemma Get_store:
  assumes "e < length (envs s)" and "store (envs s ! e) name = Some v"
  shows "Get s e name = Some v"
proof -
  from assms(1) obtain k where "length (envs s) = Suc k" by (cases "length (envs s)") auto
  with assms show ?thesis by (simp add: Get_def)
qed

lemma Get_outer:
  assumes "e < length (envs s)" and "store (envs s ! e) name = None" and "outer (envs s ! e) = Some out"
    and "out < length (envs s)" and "out \<noteq> e" and "store (envs s ! out) name = Some v"
  shows "Get s e name = Some v"
proof -
  from assms(1,4,5) have "2 \<le> length (envs s)" by auto
  then obtain k where "length (envs s) = Suc (Suc k)"
    by (metis Suc_le_D numeral_2_eq_2 Suc_le_mono le_0_eq list.size(3) not0_implies_Suc)
  with assms show ?thesis by (simp add: Get_def)
qed

lemma getFrom_agree:
  assumes wf: "\<forall>a < length es. \<forall>b. outer (es ! a) = Some b \<longrightarrow> b < a"
    and agree: "\<forall>a < length es. es' ! a = es ! a" and len: "length es \<le> length es'"
  shows "e < length es \<Longrightarrow> e < k \<Longrightarrow> e < k' \<Longrightarrow> getFrom k es e name = getFrom k' es' e name"
proof (induction e arbitrary: k k' rule: less_induct)
  case (less e)
  from less.prems obtain j j' where k: "k = Suc j" and k': "k' = Suc j'"
    by (metis Suc_pred' less_nat_zero_code not_gr_zero)
  have same: "es' ! e = es ! e" using agree less.prems(1) by simp
  have e': "e < length es'" using less.prems(1) len by simp
  show ?case
  proof (cases "store (es ! e) name")
    case (Some v)
    with k k' same e' less.prems(1) show ?thesis by simp
  next
    case None
    show ?thesis
    proof (cases "outer (es ! e)")
      case n: None
      with None k k' same e' less.prems(1) show ?thesis by simp
    next
      case (Some out)
      with wf less.prems(1) have lt: "out < e" by blast
      then have "getFrom j es out name = getFrom j' es' out name"
        using less.IH [of out j j'] less.prems k k' by simp
      with None Some k k' same e' less.prems(1) show ?thesis by simp
    qed
  qed
qed

lemma Get_untouched:
  assumes "wfEnvs s" and "untouched s s'" and "e < length (envs s)"
  shows "Get s' e name = Get s e name"
proof -
  have "getFrom (length (envs s)) (envs s) e name = getFrom (length (envs s')) (envs s') e name"
    using assms by (intro getFrom_agree) (auto simp add: wfEnvs_def untouched_def)
  then show ?thesis by (simp add: Get_def)
qed

lemma fold_Set_env_store:
  assumes "name \<notin> snd ` set ps"
  shows "store (envs (fold (\<lambda>(i, p) s. if c i then Set_env e p (g i) s else Set_env e p w s) ps s) ! e) name
           = store (envs s ! e) name
       \<and> outer (envs (fold (\<lambda>(i, p) s. if c i then Set_env e p (g i) s else Set_env e p w s) ps s) ! e)
           = outer (envs s ! e)"
  using assms
proof (induction ps arbitrary: s)
  case Nil
  then show ?case by simp
next
  case (Cons x ps)
  obtain i p where x: "x = (i, p)" by (cases x)
  with Cons.prems have ne: "p \<noteq> name" and rest: "name \<notin> snd ` set ps" by auto
  have step: "store (envs (Set_env e p v s) ! e) name = store (envs s ! e) name
      \<and> outer (envs (Set_env e p v s) ! e) = outer (envs s ! e)" for v
    using ne by (cases "e < length (envs s)") (auto simp add: Set_env_def list_update_beyond)
  show ?case
    using Cons.IH [OF rest] step by (simp add: x)
qed

lemma evalDotExpression_bound:
  assumes "ps m = None" and "Methods c m = Some meth"
  shows "evalDotExpression (Instance r c ps e) m s
     = Inr (FunctionObj (Function (nextRef s) (Parameters meth) (Body meth) (length (envs s)) (Name meth)),
            s\<lparr>envs := envs s @ [\<lparr>store = [''esto'' \<mapsto> Instance r c ps e], outer = Some e\<rparr>],
              nextRef := Suc (nextRef s)\<rparr>)"
  using assms
  by (simp add: evalDotExpression_def newRef_def NewEnclosedEnvironment_def Set_env_def Let_def)

lemma extendFunctionEnv_lookup:
  assumes ex: "extendFunctionEnv f args s = (e, s1)" and name: "name \<notin> set (Parameters f)"
    and out: "Env f < length (envs s)" and st: "store (envs s ! Env f) name = Some v"
  shows "Get s1 e name = Some v"
proof -
  obtain e0 s0 where al: "NewEnclosedEnvironment (Env f) s = (e0, s0)"
    by (cases "NewEnclosedEnvironment (Env f) s")
  note a = NewEnclosedEnvironment_untouched [OF al]
  note x = extendFunctionEnv_untouched [OF ex]
  let ?f = "\<lambda>(paramIdx, param) s. if paramIdx < length args then Set_env e0 param (args ! paramIdx) s
                      else Set_env e0 param NULL s"
  from ex al have e: "e = e0" and s1: "s1 = fold ?f (enumerate 0 (Parameters f)) s0"
    by (auto simp add: extendFunctionEnv_def)
  have "name \<notin> snd ` set (enumerate 0 (Parameters f))"
    using name by (auto simp add: in_set_enumerate_eq)
  from fold_Set_env_store [OF this, of "\<lambda>i. i < length args" e0 "\<lambda>i. args ! i" NULL s0]
  have "store (envs s1 ! e0) name = None" and "outer (envs s1 ! e0) = Some (Env f)"
    unfolding s1 using a(4) by simp_all
  moreover have "envs s1 ! Env f = envs s ! Env f"
    using x(2) out by (simp add: untouched_def)
  moreover have "Env f < length (envs s1)" "Env f \<noteq> e" "e < length (envs s1)"
    using x out by (auto simp add: untouched_def)
  ultimately show ?thesis
    using st e by (intro Get_outer [where out = "Env f"]) simp_all
qed

lemmas eval_simps = andThen_def andThenList_def withState_def evalIdentifier_def Get_def
  applyFunction_def extendFunctionEnv_def evalClassLiteral_def evalNewExpression_def newInstance_def
  constructorScope_def evalDotExpression_def NewEnclosedEnvironment_def newRef_def Set_env_def
  Let_def unwrapReturnValue_def rootState_def

text \<open>
  Claim C4, as stated: for every method \<open>m\<close> of the class of \<open>obj\<close>, \<open>obj.m\<close> is a Function
  bound to \<open>obj\<close>, and inside any call \<open>obj.m(...)\<close> the identifier \<open>esto\<close> resolves to
  \<open>obj\<close>. \<open>evalDotExpression\<close> looks among the properties of the instance before the
  methods of its class: with a property \<open>m\<close>, \<open>obj.m\<close> is the value of the property
  (\<open>shadowedMethod\<close> yields 1). And the parameters are bound in the innermost scope of the
  call: with a parameter named \<open>esto\<close>, \<open>esto\<close> is the argument (\<open>shadowedEsto\<close> yields 5).
\<close>

theorem C4_counterexample:
  "valueOf (Eval (Suc (Suc (Suc (Suc (Suc 0))))) shadowedMethod 0 rootState) = Inr (Integer 1)
   \<and> valueOf (Eval (Suc (Suc (Suc (Suc (Suc (Suc 0)))))) shadowedEsto 0 rootState) = Inr (Integer 5)"
  by (simp add: valueOf_def shadowedMethod_def shadowedEsto_def eval_simps)

text \<open>
  Claim C4, amended. (1) When \<open>nuevo\<close> returns an instance, the environment of the instance
  binds \<open>esto\<close> to the instance. (2) For a method \<open>m\<close> of the class that no property of the
  instance has the name of, \<open>obj.m\<close> is a new Function with the parameters, body and name of
  the method, whose environment is a new scope around the environment of the instance, holding
  the one binding of \<open>esto\<close> to \<open>obj\<close>. (3) When moreover no parameter of the method is named
  \<open>esto\<close>, a call of this Function evaluates the body in a scope where the identifier \<open>esto\<close>
  evaluates to \<open>obj\<close>. (4) A call that returns has changed no environment that existed before
  it; in a state whose environments each enclose an earlier one, every name, \<open>esto\<close> included,
  then resolves in the caller's environment as it did before the call.
\<close>

theorem C4_esto_is_bound_to_the_receiver:
  "(Eval n (NewExpression classNode argNodes) env s = Inr (Instance r c ps e, s') \<and> env < length (envs s)
      \<longrightarrow> Get s' e ''esto'' = Some (Instance r c ps e))
   \<and> (ps m = None \<and> Methods c m = Some meth
      \<longrightarrow> evalDotExpression (Instance r c ps e) m s1
          = Inr (FunctionObj (Function (nextRef s1) (Parameters meth) (Body meth) (length (envs s1)) (Name meth)),
                 s1\<lparr>envs := envs s1 @ [\<lparr>store = [''esto'' \<mapsto> Instance r c ps e], outer = Some e\<rparr>],
                    nextRef := Suc (nextRef s1)\<rparr>))
   \<and> (ps m = None \<and> Methods c m = Some meth \<and> ''esto'' \<notin> set (Parameters meth)
        \<and> evalDotExpression (Instance r c ps e) m s1 = Inr (FunctionObj f, s2)
        \<and> extendFunctionEnv f args s2 = (scope, s3)
      \<longrightarrow> applyFunction ev (FunctionObj f) args s2
            = andThen (ev (BlockStatement (Body meth)) scope s3) (\<lambda>evaluated s. Inr (unwrapReturnValue evaluated, s))
          \<and> evalIdentifier ''esto'' scope s3 = Instance r c ps e)
   \<and> (applyFunction (Eval n) fn args s2 = Inr (v, s4) \<and> wfEnvs s2 \<and> caller < length (envs s2)
      \<longrightarrow> envs s4 ! caller = envs s2 ! caller \<and> Get s4 caller name = Get s2 caller name)"
proof -
  have p1: "Get s' e ''esto'' = Some (Instance r c ps e)"
    if h: "Eval n (NewExpression classNode argNodes) env s = Inr (Instance r c ps e, s') \<and> env < length (envs s)"
  proof -
    from h obtain k where n: "n = Suc k" by (cases n) auto
    from h n have "evalNewExpression (Eval k) classNode argNodes env s = Inr (Instance r c ps e, s')"
      by simp
    from evalNewExpression_frame(2) [OF framing_Eval this _ refl] h
    show ?thesis by (auto intro: Get_store)
  qed
  have p2: "evalDotExpression (Instance r c ps e) m s1
          = Inr (FunctionObj (Function (nextRef s1) (Parameters meth) (Body meth) (length (envs s1)) (Name meth)),
                 s1\<lparr>envs := envs s1 @ [\<lparr>store = [''esto'' \<mapsto> Instance r c ps e], outer = Some e\<rparr>],
                    nextRef := Suc (nextRef s1)\<rparr>)"
    if "ps m = None \<and> Methods c m = Some meth"
    using that by (simp add: evalDotExpression_bound)
  have p3: "applyFunction ev (FunctionObj f) args s2
            = andThen (ev (BlockStatement (Body meth)) scope s3) (\<lambda>evaluated s. Inr (unwrapReturnValue evaluated, s))
          \<and> evalIdentifier ''esto'' scope s3 = Instance r c ps e"
    if h: "ps m = None \<and> Methods c m = Some meth \<and> ''esto'' \<notin> set (Parameters meth)
        \<and> evalDotExpression (Instance r c ps e) m s1 = Inr (FunctionObj f, s2)
        \<and> extendFunctionEnv f args s2 = (scope, s3)"
  proof -
    from h have f: "f = Function (nextRef s1) (Parameters meth) (Body meth) (length (envs s1)) (Name meth)"
      and s2: "s2 = s1\<lparr>envs := envs s1 @ [\<lparr>store = [''esto'' \<mapsto> Instance r c ps e], outer = Some e\<rparr>],
                    nextRef := Suc (nextRef s1)\<rparr>"
      by (auto simp add: evalDotExpression_bound)
    from h have ex: "extendFunctionEnv f args s2 = (scope, s3)" by simp
    have "Get s3 scope ''esto'' = Some (Instance r c ps e)"
      using h by (intro extendFunctionEnv_lookup [OF ex]) (simp_all add: f s2)
    then have "evalIdentifier ''esto'' scope s3 = Instance r c ps e"
      by (simp add: evalIdentifier_def)
    moreover have "applyFunction ev (FunctionObj f) args s2
            = andThen (ev (BlockStatement (Body meth)) scope s3) (\<lambda>evaluated s. Inr (unwrapReturnValue evaluated, s))"
      using ex by (simp add: applyFunction_def f)
    ultimately show ?thesis by simp
  qed
  have p4: "envs s4 ! caller = envs s2 ! caller \<and> Get s4 caller name = Get s2 caller name"
    if h: "applyFunction (Eval n) fn args s2 = Inr (v, s4) \<and> wfEnvs s2 \<and> caller < length (envs s2)"
  proof -
    from h have u: "untouched s2 s4"
      using applyFunction_untouched [OF framing_Eval] by blast
    with h show ?thesis
      by (auto simp add: untouched_def intro: Get_untouched)
  qed
  from p1 p2 p3 p4 show ?thesis by blast
qed

theorem C4_esto_witness:
  "Eval (Suc (Suc (Suc 0))) (NewExpression (Identifier ''C'') []) 0 (yoState [] 2)
     = Inr (yoInstance, yoState [estoScope 0] 3)
   \<and> 0 < length (envs (yoState [] 2))
   \<and> Get (yoState [estoScope 0] 3) 2 ''esto'' = Some yoInstance
   \<and> Methods yoClass ''yo'' = Some (Function 1 [] [ReturnStatement (Identifier ''esto'')] 1 ''yo'')
   \<and> evalDotExpression yoInstance ''yo'' (yoState [estoScope 0] 3)
     = Inr (FunctionObj (Function 3 [] [ReturnStatement (Identifier ''esto'')] 3 ''yo''),
            yoState [estoScope 0, estoScope 2] 4)
   \<and> extendFunctionEnv (Function 3 [] [ReturnStatement (Identifier ''esto'')] 3 ''yo'') []
        (yoState [estoScope 0, estoScope 2] 4)
     = (4, yoState [estoScope 0, estoScope 2, \<lparr>store = Map.empty, outer = Some 3\<rparr>] 4)
   \<and> evalIdentifier ''esto'' 4 (yoState [estoScope 0, estoScope 2, \<lparr>store = Map.empty, outer = Some 3\<rparr>] 4)
     = yoInstance
   \<and> applyFunction (Eval (Suc (Suc (Suc 0))))
        (FunctionObj (Function 3 [] [ReturnStatement (Identifier ''esto'')] 3 ''yo'')) []
        (yoState [estoScope 0, estoScope 2] 4)
     = Inr (yoInstance, yoState [estoScope 0, estoScope 2, \<lparr>store = Map.empty, outer = Some 3\<rparr>] 4)
   \<and> wfEnvs (yoState [estoScope 0, estoScope 2] 4)
   \<and> Get (yoState [estoScope 0, estoScope 2] 4) 0 ''esto'' = None
   \<and> Get (yoState [estoScope 0, estoScope 2, \<lparr>store = Map.empty, outer = Some 3\<rparr>] 4) 0 ''esto'' = None"
proof -
  let ?body = "[ReturnStatement (Identifier ''esto'')]"
  let ?f = "Function 3 [] ?body 3 ''yo''"
  let ?s1 = "yoState [estoScope 0] 3"
  let ?s2 = "yoState [estoScope 0, estoScope 2] 4"
  let ?s3 = "yoState [estoScope 0, estoScope 2, \<lparr>store = Map.empty, outer = Some 3\<rparr>] 4"
  note nums = numeral_2_eq_2 numeral_3_eq_3 eval_nat_numeral
  have new: "Eval (Suc (Suc (Suc 0))) (NewExpression (Identifier ''C'') []) 0 (yoState [] 2) = Inr (yoInstance, ?s1)"
    by (simp add: eval_simps yoState_def yoClass_def yoInstance_def estoScope_def nums)
  have len: "0 < length (envs (yoState [] 2))"
    by (simp add: yoState_def)
  have ps: "Map.empty ''yo'' = (None :: obj option)"
    by simp
  have meth: "Methods yoClass ''yo'' = Some (Function 1 [] ?body 1 ''yo'')"
    by (simp add: yoClass_def)
  have dot: "evalDotExpression yoInstance ''yo'' ?s1 = Inr (FunctionObj ?f, ?s2)"
    by (simp add: eval_simps yoState_def yoClass_def yoInstance_def estoScope_def nums)
  have ext: "extendFunctionEnv ?f [] ?s2 = (4, ?s3)"
    by (simp add: eval_simps yoState_def nums)
  have app: "applyFunction (Eval (Suc (Suc (Suc 0)))) (FunctionObj ?f) [] ?s2 = Inr (yoInstance, ?s3)"
    by (simp add: eval_simps yoState_def yoInstance_def estoScope_def nums)
  have wf: "wfEnvs ?s2"
    by (auto simp add: wfEnvs_def yoState_def estoScope_def nth_Cons' less_Suc_eq nums)
  have before: "Get ?s2 0 ''esto'' = None"
    by (simp add: Get_def yoState_def nums)
  have caller: "0 < length (envs ?s2)"
    by (simp add: yoState_def)
  have notparam: "''esto'' \<notin> set (Parameters (Function 1 [] ?body 1 ''yo''))"
    by simp
  note T = C4_esto_is_bound_to_the_receiver
    [where n = "Suc (Suc (Suc 0))" and classNode = "Identifier ''C''" and argNodes = "[]" and env = 0
       and s = "yoState [] 2" and r = 2 and c = yoClass and ps = Map.empty and e = 2 and s' = ?s1
       and m = "''yo''" and meth = "Function 1 [] ?body 1 ''yo''" and ?s1.0 = ?s1 and f = ?f and ?s2.0 = ?s2
       and args = "[]" and scope = 4 and ?s3.0 = ?s3 and ev = "Eval (Suc (Suc (Suc 0)))"
       and fn = "FunctionObj ?f" and v = yoInstance and ?s4.0 = ?s3 and caller = 0 and name = "''esto''"]
  note new' = new [unfolded yoInstance_def] and dot' = dot [unfolded yoInstance_def]
    and app' = app [unfolded yoInstance_def]
  have c1: "Get ?s1 2 ''esto'' = Some (Instance 2 yoClass Map.empty 2)"
    by (rule T [THEN conjunct1, THEN mp, OF conjI [OF new' len]])
  have c3: "evalIdentifier ''esto'' 4 ?s3 = Instance 2 yoClass Map.empty 2"
    by (rule T [THEN conjunct2, THEN conjunct2, THEN conjunct1, THEN mp,
          OF conjI [OF refl conjI [OF meth conjI [OF notparam conjI [OF dot' ext]]]], THEN conjunct2])
  have c4: "Get ?s3 0 ''esto'' = Get ?s2 0 ''esto''"
    by (rule T [THEN conjunct2, THEN conjunct2, THEN conjunct2, THEN mp,
          OF conjI [OF app conjI [OF wf caller]], THEN conjunct2])
  from new len c1 meth dot ext c3 app wf before c4
  show ?thesis
    by (simp add: yoInstance_def)
qed


subsection \<open>Declarations\<close>

lemma showNat_0: "showNat 0 = ''0''"
  by code_simp

lemma four: "4 = Suc (Suc (Suc (Suc 0)))"
  by simp

lemmas lex_simps = New_lexer_def readChar_def NextToken.simps skipWhitespace.simps switchToken_def
  Let_def peekChar_def orAssign_def oneChar_def twoChar_def newToken_def stringOfByte_def
  isLetter_def isDigit_def readIdentifier_def readNumber_def identifierLoop.simps numberLoop.simps
  slice_def LookupIdent_def keywords_table_def

lemmas parse_simps = parseInput_def ParseProgram_def New_parser_def nextToken_def thenParse_def
  parseStatement_def parseLetStatement_def parseReturnStatement_def parseExpressionStatement_def
  curTokenIs_def peekTokenIs_def expectPeek_def peekError_def noPrefixParseFnError_def appendError_def
  lineaColumna_def peekPrecedence_def curPrecedence_def precedences_def LOWEST_def skipSemicolon_def
  prefixParseFns_def infixParseFns_def parseIdentifier_def parseNumberLiteral_def ParseInt_def
  digitsValue_def digitValue_def showNat_0

text \<open>
  \<open>parseStatement\<close> makes a \<open>LetStatement\<close> only when the current token is \<open>VAR\<close>, the
  keyword \<open>guarda\<close>; a statement that begins with an identifier is an expression statement.
\<close>

lemma parseStatement_LetStatement:
  assumes "parseStatement pe p = Inr (LetStatement name val, p')"
  shows "curTokenIs ''VAR'' p"
  using assms
  by (auto simp add: parseStatement_def parseReturnStatement_def parseExpressionStatement_def
      thenParse_def Let_def split: if_splits sum.splits prod.splits)

lemma no_function_for_declare:
  "prefixParseFns pe k '':='' = None" "infixParseFns pe k '':='' = None"
  "map_of precedences '':='' = None"
  by (simp_all add: prefixParseFns_def infixParseFns_def precedences_def)

text \<open>
  Claim C2 says that \<open>name := expr\<close> parses, with no error, to the same \<open>LetStatement\<close> as
  \<open>guarda name = expr\<close>. The lexer has the token \<open>DECLARE\<close> for \<open>:=\<close>, and the help text and
  the example program of the repository declare their variables with it; but the parser
  registers no function for this token, and \<open>parseStatement\<close> looks for \<open>VAR\<close> and \<open>RETURN\<close>
  only. \<open>guarda x = 5\<close> parses to the \<open>LetStatement\<close>; \<open>x := 5\<close> parses to three expression
  statements, \<open>x\<close>, a nil expression and \<open>5\<close>, with the error that no prefix function is
  there for \<open>:=\<close>, and no \<open>LetStatement\<close> is made.
\<close>

theorem C2_declare_is_not_parsed:
  "parseInput 4 ''guarda x = 5'' = Inr (Program [LetStatement ''x'' (IntegerLiteral 5)], [])
   \<and> parseInput 4 ''x := 5''
       = Inr (Program [ExpressionStatement (Identifier ''x''), ExpressionStatement NilNode,
                       ExpressionStatement (IntegerLiteral 5)],
              [noHayFuncion '':=''])"
proof
  show "parseInput 4 ''guarda x = 5'' = Inr (Program [LetStatement ''x'' (IntegerLiteral 5)], [])"
    by (simp add: lex_simps parse_simps four)
  show "parseInput 4 ''x := 5''
       = Inr (Program [ExpressionStatement (Identifier ''x''), ExpressionStatement NilNode,
                       ExpressionStatement (IntegerLiteral 5)],
              [noHayFuncion '':=''])"
    by (simp add: lex_simps parse_simps four noHayFuncion_def)
qed

end
